theory Spec2Isabelle
  imports Complex_Main "HOL-Library.AList"
begin

section \<open>Persistence backend (savemanager.go)\<close>

text \<open>
  The Go save manager reads the data directory and the sentinel file through
  \<^verbatim>\<open>ioutil.ReadDir\<close> and \<^verbatim>\<open>ioutil.ReadFile\<close>. Both return a value together
  with an error; the model makes the outcome of each call a sum, \<open>Inl\<close> for the
  error. The file system is a parameter: a pair of functions from a path to such an
  outcome, so that every file-system outcome is an input of the model.
\<close>

datatype fs_error = FsError string

datatype FileInfo = FileInfo (Name: string) (IsDir: bool)

record filesystem =
  ReadDir :: "string \<Rightarrow> fs_error + FileInfo list"
  ReadFile :: "string \<Rightarrow> fs_error + string"

record SaveManager =
  dataDir :: string

definition filepath_Join :: "string \<Rightarrow> string \<Rightarrow> string" where
  "filepath_Join dir file = dir @ ''/'' @ file"

definition HasSuffix :: "string \<Rightarrow> string \<Rightarrow> bool" where
  "HasSuffix s suffix \<longleftrightarrow>
     length suffix \<le> length s \<and> drop (length s - length suffix) s = suffix"

definition TrimSuffix :: "string \<Rightarrow> string \<Rightarrow> string" where
  "TrimSuffix s suffix =
     (if HasSuffix s suffix then take (length s - length suffix) s else s)"

text \<open>
  A Go function returning \<^verbatim>\<open>(T, error)\<close> is a pair whose second component is
  \<open>None\<close> for \<^verbatim>\<open>nil\<close>.
\<close>

definition GetAllSaves :: "SaveManager \<Rightarrow> filesystem \<Rightarrow> string list \<times> fs_error option" where
  "GetAllSaves s fs =
     (case ReadDir fs (dataDir s) of
        Inl err \<Rightarrow> ([], None)
      | Inr files \<Rightarrow>
          (map (\<lambda>file. TrimSuffix (Name file) ''.json'')
             (filter (\<lambda>file. \<not> IsDir file \<and> HasSuffix (Name file) ''.json'') files),
           None))"

definition GetLastSave :: "SaveManager \<Rightarrow> filesystem \<Rightarrow> string \<times> fs_error option" where
  "GetLastSave s fs =
     (case ReadFile fs (filepath_Join (dataDir s) ''.last_save'') of
        Inl err \<Rightarrow> ('''', None)
      | Inr data \<Rightarrow> (data, None))"

definition LoadGame :: "SaveManager \<Rightarrow> filesystem \<Rightarrow> string \<Rightarrow> string \<times> fs_error option" where
  "LoadGame s fs saveName =
     (case ReadFile fs (filepath_Join (dataDir s) (saveName @ ''.json'')) of
        Inl err \<Rightarrow> ('''', Some err)
      | Inr data \<Rightarrow> (data, None))"

section \<open>The game state engine (frontend/app/page.tsx): data model\<close>

text \<open>
  JavaScript numbers are modelled exactly: resource amounts, rates and capacities are
  rationals, counters are integers, and indices that the code only ever increments are
  naturals. Floating-point rounding error is outside the model; the decimal rounding
  that the code asks for explicitly (\<^verbatim>\<open>Number(x.toFixed(1))\<close>) is inside it.
  Presentation-only fields (labels, descriptions, icons) are left out of the records.
\<close>

datatype ResourceKey = Sunleaf | Wood | Stone | Science | Energy | Execution

definition resource_keys :: "ResourceKey list" where
  "resource_keys = [Sunleaf, Wood, Stone, Science, Energy, Execution]"

fun key_name :: "ResourceKey \<Rightarrow> string" where
  "key_name Sunleaf = ''sunleaf''"
| "key_name Wood = ''wood''"
| "key_name Stone = ''stone''"
| "key_name Science = ''science''"
| "key_name Energy = ''energy''"
| "key_name Execution = ''execution''"

record Resource =
  key :: ResourceKey
  amount :: rat
  rate :: rat
  capacity :: rat

text \<open>
  A \<^verbatim>\<open>Partial<Record<ResourceKey, number>>\<close> object literal is an association list in
  the order of its keys; \<^verbatim>\<open>delta[k]\<close> is \<open>map_of delta k\<close>, \<open>None\<close> for
  \<^verbatim>\<open>undefined\<close>.
\<close>

type_synonym ResourceDelta = "(ResourceKey \<times> rat) list"

datatype Language = EN | ZH

datatype ToolType = Saw | Pickaxe | Shears

datatype ToolMaterial = Wooden | StoneMade | Celestial | Alloy

datatype SkillType = Mining | Gathering

record Recipe =
  recipe_id :: string
  recipe_cost :: ResourceDelta
  recipe_craftTime :: nat
  capacityBoost :: rat
  recipe_requiredStage :: nat

record ToolRecipe =
  tool_id :: string
  tool_cost :: ResourceDelta
  tool_craftTime :: nat
  material :: ToolMaterial
  toolType :: ToolType
  harvestBonus :: ResourceDelta
  cooldownReduction :: int
  tool_requiredStage :: nat

record Facility =
  facility_id :: string
  facility_cost :: ResourceDelta
  facility_capacity :: int
  facility_requiredStage :: nat

record District =
  district_id :: string
  progress :: rat
  stability :: rat
  district_requiredStage :: nat
  buildingCount :: int
  expansionCost :: ResourceDelta
  productionBoost :: ResourceDelta

record Action =
  action_id :: string
  duration :: "nat option"
  delta :: "ResourceDelta option"
  rateDelta :: "ResourceDelta option"
  capacityDelta :: "ResourceDelta option"
  action_requiredStage :: nat

record Skill =
  skill_type :: SkillType
  level :: int
  experience :: int
  maxLevel :: int

datatype Metric = AmountMetric | CapacityMetric

record TutorialGoal =
  goal_resource :: ResourceKey
  target :: rat
  metric :: "Metric option"

record TutorialStage =
  stage_index :: nat
  goals :: "TutorialGoal list"

datatype StoryTrigger =
    StageTrigger nat
  | PurchaseTrigger string
  | ResourceTrigger string rat
  | MilestoneTrigger string

record StoryChapter =
  chapter_id :: string
  chapter_order :: nat
  title :: string
  trigger :: StoryTrigger

record ActiveBoost =
  boost_actionId :: string
  remainingTicks :: int
  totalDuration :: int
  boost_rateDelta :: ResourceDelta

text \<open>
  A log line is a template string filled with values of the state. The model keeps the
  language, the template and the values instead of the rendered text.
\<close>

datatype LogTemplate =
    DefaultLine nat
  | TenantsTimedOut int
  | ResourceUnlocked ResourceKey
  | SkillLevelUp SkillType int
  | HarvestComplete ResourceKey "rat option"
  | ExpansionComplete string
  | DemolitionComplete string
  | CraftStarted string nat
  | FacilityBuilt string int
  | RecruitPosted
  | TenantsAssigned int
  | WorkerAssigned ResourceKey
  | WorkerUnassigned ResourceKey
  | WagesInsufficient int "rat option"
  | WagesPaid int int
  | CapacityAllocated string ResourceKey rat
  | ChapterPosted string
  | WagesNotPaid
  | TenantsLeft nat
  | StageOpened nat
  | PhaseReport nat
  | ToolCrafted string
  | ItemCrafted string
  | ActionLogged string

type_synonym LogEntry = "Language \<times> LogTemplate"

subsection \<open>Catalogues\<close>

definition SKILL_EXP_PER_LEVEL :: int where "SKILL_EXP_PER_LEVEL = 100"
definition MAX_SKILL_LEVEL :: int where "MAX_SKILL_LEVEL = 100"

fun SKILL_RESOURCE_MAP :: "ResourceKey \<Rightarrow> SkillType option" where
  "SKILL_RESOURCE_MAP Sunleaf = Some Gathering"
| "SKILL_RESOURCE_MAP Wood = Some Gathering"
| "SKILL_RESOURCE_MAP Stone = Some Mining"
| "SKILL_RESOURCE_MAP Science = None"
| "SKILL_RESOURCE_MAP Energy = Some Gathering"
| "SKILL_RESOURCE_MAP Execution = None"

definition INITIAL_SKILLS :: "Skill list" where
  "INITIAL_SKILLS =
     [\<lparr>skill_type = Mining, level = 1, experience = 0, maxLevel = MAX_SKILL_LEVEL\<rparr>,
      \<lparr>skill_type = Gathering, level = 1, experience = 0, maxLevel = MAX_SKILL_LEVEL\<rparr>]"

definition INITIAL_RESOURCES :: "Resource list" where
  "INITIAL_RESOURCES =
     [\<lparr>key = Sunleaf, amount = 0, rate = 0, capacity = 40\<rparr>,
      \<lparr>key = Wood, amount = 0, rate = 0, capacity = 40\<rparr>,
      \<lparr>key = Stone, amount = 0, rate = 0, capacity = 30\<rparr>,
      \<lparr>key = Science, amount = 0, rate = 0, capacity = 25\<rparr>,
      \<lparr>key = Energy, amount = 0, rate = 0, capacity = 20\<rparr>,
      \<lparr>key = Execution, amount = 0, rate = 0, capacity = 10\<rparr>]"

definition RECIPES :: "Recipe list" where
  "RECIPES =
     [\<lparr>recipe_id = ''storage-chest'', recipe_cost = [(Wood, -10)], recipe_craftTime = 60,
       capacityBoost = 10, recipe_requiredStage = 0\<rparr>,
      \<lparr>recipe_id = ''reinforced-vault'', recipe_cost = [(Wood, -20), (Stone, -15)],
       recipe_craftTime = 120, capacityBoost = 25, recipe_requiredStage = 2\<rparr>]"

definition mk_tool ::
  "string \<Rightarrow> ResourceDelta \<Rightarrow> nat \<Rightarrow> ToolMaterial \<Rightarrow> ToolType \<Rightarrow> ResourceDelta \<Rightarrow> int \<Rightarrow> nat
     \<Rightarrow> ToolRecipe" where
  "mk_tool i c t m ty hb cr st =
     \<lparr>tool_id = i, tool_cost = c, tool_craftTime = t, material = m, toolType = ty,
      harvestBonus = hb, cooldownReduction = cr, tool_requiredStage = st\<rparr>"

definition TOOL_RECIPES :: "ToolRecipe list" where
  "TOOL_RECIPES =
     [mk_tool ''wooden-saw'' [(Wood, -5)] 30 Wooden Saw [(Wood, 1)] 5 0,
      mk_tool ''stone-saw'' [(Wood, -8), (Stone, -6)] 45 StoneMade Saw [(Wood, 2)] 8 1,
      mk_tool ''celestial-saw'' [(Wood, -12), (Energy, -8)] 60 Celestial Saw [(Wood, 3)] 12 2,
      mk_tool ''alloy-saw'' [(Wood, -15), (Stone, -10), (Energy, -5)] 90 Alloy Saw [(Wood, 5)] 15 3,
      mk_tool ''wooden-pickaxe'' [(Wood, -6)] 30 Wooden Pickaxe [(Stone, 1)] 5 0,
      mk_tool ''stone-pickaxe'' [(Wood, -5), (Stone, -8)] 45 StoneMade Pickaxe [(Stone, 2)] 8 1,
      mk_tool ''celestial-pickaxe'' [(Wood, -8), (Stone, -10), (Energy, -6)] 60 Celestial Pickaxe
        [(Stone, 4)] 12 2,
      mk_tool ''alloy-pickaxe'' [(Wood, -10), (Stone, -15), (Energy, -8)] 90 Alloy Pickaxe
        [(Stone, 6)] 15 3,
      mk_tool ''wooden-shears'' [(Wood, -4)] 25 Wooden Shears [(Sunleaf, 2)] 5 0,
      mk_tool ''stone-shears'' [(Wood, -6), (Stone, -5)] 40 StoneMade Shears [(Sunleaf, 4)] 8 1,
      mk_tool ''celestial-shears'' [(Wood, -8), (Stone, -6), (Energy, -5)] 55 Celestial Shears
        [(Sunleaf, 6)] 12 2,
      mk_tool ''alloy-shears'' [(Wood, -10), (Stone, -8), (Energy, -6)] 80 Alloy Shears
        [(Sunleaf, 8)] 15 3]"

definition FACILITIES :: "Facility list" where
  "FACILITIES =
     [\<lparr>facility_id = ''cabin'', facility_cost = [(Wood, -20)], facility_capacity = 2,
       facility_requiredStage = 0\<rparr>,
      \<lparr>facility_id = ''city-hall'', facility_cost = [(Sunleaf, -40), (Wood, -10)],
       facility_capacity = 0, facility_requiredStage = 0\<rparr>]"

definition INITIAL_FACILITY_COUNTS :: "string \<rightharpoonup> int" where
  "INITIAL_FACILITY_COUNTS =
     fold (\<lambda>facility acc. acc(facility_id facility \<mapsto> 0)) FACILITIES Map.empty"

definition mk_district :: "string \<Rightarrow> nat \<Rightarrow> ResourceDelta \<Rightarrow> ResourceDelta \<Rightarrow> District" where
  "mk_district i st c b =
     \<lparr>district_id = i, progress = 0, stability = 0, district_requiredStage = st,
      buildingCount = 0, expansionCost = c, productionBoost = b\<rparr>"

definition DISTRICTS :: "District list" where
  "DISTRICTS =
     [mk_district ''terraced-fields'' 0 [(Sunleaf, -10), (Wood, -5)] [(Sunleaf, 1/2)],
      mk_district ''lumber-groves'' 0 [(Sunleaf, -30), (Wood, -10)] [(Wood, 3/2)],
      mk_district ''aurora-forge'' 1 [(Wood, -8), (Stone, -6)] [(Stone, 3/10)],
      mk_district ''moonwater-archives'' 2 [(Stone, -10), (Science, -4)] [(Science, 1/5)],
      mk_district ''sky-harbor'' 3 [(Wood, -12), (Energy, -6)] [(Energy, 2/5)]]"

definition ACTIONS :: "Action list" where
  "ACTIONS =
     [\<lparr>action_id = ''forage-sunleaf'', duration = Some 300, delta = Some [(Execution, -5)],
       rateDelta = Some [(Sunleaf, 1/5)], capacityDelta = None, action_requiredStage = 0\<rparr>,
      \<lparr>action_id = ''reinforce-trusses'', duration = None, delta = Some [(Execution, -3)],
       rateDelta = None, capacityDelta = Some [(Wood, 120)], action_requiredStage = 2\<rparr>,
      \<lparr>action_id = ''archive-colloquium'', duration = None,
       delta = Some [(Execution, -2), (Science, 24)], rateDelta = Some [(Science, 8/5)],
       capacityDelta = None, action_requiredStage = 1\<rparr>,
      \<lparr>action_id = ''ignite-furnaces'', duration = None,
       delta = Some [(Execution, -3), (Stone, 28)], rateDelta = Some [(Stone, 9/5)],
       capacityDelta = None, action_requiredStage = 3\<rparr>]"

fun MANUAL_HARVEST_REWARDS :: "ResourceKey \<Rightarrow> ResourceDelta" where
  "MANUAL_HARVEST_REWARDS Sunleaf = [(Sunleaf, 3)]"
| "MANUAL_HARVEST_REWARDS Wood = [(Wood, 1)]"
| "MANUAL_HARVEST_REWARDS Stone = [(Stone, 2)]"
| "MANUAL_HARVEST_REWARDS Science = [(Science, 1)]"
| "MANUAL_HARVEST_REWARDS Energy = [(Energy, 1)]"
| "MANUAL_HARVEST_REWARDS Execution = [(Execution, 1/2)]"

definition MANUAL_HARVEST_COOLDOWN_SECONDS :: int where
  "MANUAL_HARVEST_COOLDOWN_SECONDS = 30"

definition PHASES_length :: nat where "PHASES_length = 4"
definition DAYS_PER_SEASON :: nat where "DAYS_PER_SEASON = 91"
definition DAYS_PER_YEAR :: nat where "DAYS_PER_YEAR = 365"

definition SUNLEAF_SEASON_MULTIPLIERS :: "rat list" where
  "SUNLEAF_SEASON_MULTIPLIERS = [12/10, 12/10, 8/10, 5/10]"

definition WAGE_PER_TENANT_PER_DAY :: int where "WAGE_PER_TENANT_PER_DAY = 5"

text \<open>
  \<^verbatim>\<open>RESOURCE_UNLOCK_DATA\<close>: only the cost decides what \<^verbatim>\<open>handleUnlockResource\<close>
  does; the entries without a cost give \<open>None\<close>.
\<close>

fun RESOURCE_UNLOCK_cost :: "ResourceKey \<Rightarrow> ResourceDelta option" where
  "RESOURCE_UNLOCK_cost Wood = Some [(Sunleaf, -40)]"
| "RESOURCE_UNLOCK_cost Execution = Some [(Wood, -30)]"
| "RESOURCE_UNLOCK_cost _ = None"

definition TUTORIAL_STAGES :: "TutorialStage list" where
  "TUTORIAL_STAGES =
     [\<lparr>stage_index = 0,
       goals = [\<lparr>goal_resource = Sunleaf, target = 20, metric = None\<rparr>]\<rparr>,
      \<lparr>stage_index = 1,
       goals = [\<lparr>goal_resource = Stone, target = 30, metric = None\<rparr>,
                \<lparr>goal_resource = Science, target = 5, metric = None\<rparr>]\<rparr>,
      \<lparr>stage_index = 2,
       goals = [\<lparr>goal_resource = Energy, target = 12, metric = None\<rparr>,
                \<lparr>goal_resource = Wood, target = 100, metric = Some CapacityMetric\<rparr>]\<rparr>,
      \<lparr>stage_index = 3, goals = []\<rparr>]"

definition mk_chapter :: "string \<Rightarrow> nat \<Rightarrow> string \<Rightarrow> StoryTrigger \<Rightarrow> StoryChapter" where
  "mk_chapter i n t tr = \<lparr>chapter_id = i, chapter_order = n, title = t, trigger = tr\<rparr>"

definition STORY_CHAPTERS :: "StoryChapter list" where
  "STORY_CHAPTERS =
     [mk_chapter ''chapter-1'' 1 ''Move-In Mandate'' (StageTrigger 0),
      mk_chapter ''chapter-2'' 2 ''First Inspection'' (ResourceTrigger ''sunleaf'' 80),
      mk_chapter ''chapter-3'' 3 ''Market Errand'' (ResourceTrigger ''wood'' 15),
      mk_chapter ''chapter-4'' 4 ''Ledger Lessons'' (ResourceTrigger ''stone'' 10),
      mk_chapter ''chapter-5'' 5 ''Timbers of Trust'' (ResourceTrigger ''wood'' 150),
      mk_chapter ''chapter-6'' 6 ''Night Market Lights'' (MilestoneTrigger ''store-preview-opened''),
      mk_chapter ''chapter-7'' 7 ''Quarterly Audit'' (StageTrigger 2),
      mk_chapter ''chapter-8'' 8 ''Sky Harbor Charter'' (PurchaseTrigger ''market-charter''),
      mk_chapter ''chapter-9'' 9 ''Radiant Promissory'' (StageTrigger 3),
      mk_chapter ''chapter-10'' 10 ''Lease Renewal'' (MilestoneTrigger ''all-chapters-complete'')]"

definition initialChapterId :: string where
  "initialChapterId = (case STORY_CHAPTERS of [] \<Rightarrow> '''' | c # _ \<Rightarrow> chapter_id c)"

subsection \<open>The state of a session\<close>

text \<open>
  Every \<^verbatim>\<open>useState\<close> cell and the \<^verbatim>\<open>nextStageRef\<close> ref that the engine reads or
  writes is a field of one record. \<open>pendingTimeouts\<close> holds the callbacks registered with
  \<^verbatim>\<open>window.setTimeout\<close> and not yet run: the milliseconds left and the stage index the
  callback will set.
\<close>

record GameState =
  resources :: "Resource list"
  tick :: nat
  manualCooldowns :: "ResourceKey \<Rightarrow> int"
  manualHarvestActive :: "ResourceKey \<Rightarrow> bool"
  language :: Language
  logLines :: "LogEntry list"
  stageIndex :: nat
  showTutorial :: bool
  nextStageRef :: nat
  pendingTimeouts :: "(nat \<times> nat) list"
  unlockedChapters :: "string list"
  activeChapterId :: string
  milestones :: "string list"
  completedPurchases :: "string list"
  showIntroDialogue :: bool
  districts :: "District list"
  craftingRecipe :: "string option"
  craftingProgress :: nat
  pendingAllocation :: "(string \<times> rat) option"
  equippedTools :: "ToolType \<rightharpoonup> string"
  facilityCounts :: "string \<rightharpoonup> int"
  tenantRecruitCooldown :: int
  pendingTenants :: int
  tenantTimeout :: int
  assignedTenants :: int
  tenantMorale :: "int list"
  autoPayWages :: bool
  lastPayDay :: int
  skills :: "Skill list"
  resourceWorkers :: "ResourceKey \<Rightarrow> int"
  manuallyUnlockedResources :: "ResourceKey list"
  activeBoosts :: "ActiveBoost list"

definition localizedDefaults :: "Language \<Rightarrow> LogEntry list" where
  "localizedDefaults lang = [(lang, DefaultLine 0), (lang, DefaultLine 1), (lang, DefaultLine 2)]"

definition initialState :: "Language \<Rightarrow> GameState" where
  "initialState lang =
     \<lparr>resources = INITIAL_RESOURCES, tick = 0, manualCooldowns = (\<lambda>k. 0),
      manualHarvestActive = (\<lambda>k. False), language = lang,
      logLines = localizedDefaults lang, stageIndex = 0, showTutorial = False,
      nextStageRef = 0, pendingTimeouts = [],
      unlockedChapters = (if initialChapterId \<noteq> '''' then [initialChapterId] else []),
      activeChapterId = initialChapterId, milestones = [], completedPurchases = [],
      showIntroDialogue = True, districts = DISTRICTS, craftingRecipe = None,
      craftingProgress = 0, pendingAllocation = None, equippedTools = Map.empty,
      facilityCounts = INITIAL_FACILITY_COUNTS, tenantRecruitCooldown = 0,
      pendingTenants = 0, tenantTimeout = 0, assignedTenants = 0, tenantMorale = [],
      autoPayWages = False, lastPayDay = 0, skills = INITIAL_SKILLS,
      resourceWorkers = (\<lambda>k. 0), manuallyUnlockedResources = [], activeBoosts = []\<rparr>"

text \<open>\<^verbatim>\<open>setLog((prev) => [entry, ...prev].slice(0, 6))\<close>\<close>

definition pushLog :: "LogEntry \<Rightarrow> GameState \<Rightarrow> GameState" where
  "pushLog entry st = st\<lparr>logLines := take 6 (entry # logLines st)\<rparr>"

subsection \<open>Derived time values\<close>

definition cycleCount :: "nat \<Rightarrow> nat" where
  "cycleCount t = t div PHASES_length"

definition dayCount :: "nat \<Rightarrow> nat" where
  "dayCount t = cycleCount t + 1"

definition seasonIndex :: "nat \<Rightarrow> nat" where
  "seasonIndex t = ((dayCount t - 1) mod DAYS_PER_YEAR) div DAYS_PER_SEASON"

subsection \<open>Resource ledger\<close>

text \<open>
  \<^verbatim>\<open>Number(x.toFixed(1))\<close>: the nearest multiple of one tenth, the larger one in
  magnitude at a tie; \<^verbatim>\<open>toFixed\<close> rounds the absolute value and puts the sign back.
\<close>

definition toFixed1 :: "rat \<Rightarrow> rat" where
  "toFixed1 x =
     (if x < 0 then - (of_int \<lfloor>- x * 10 + 1 / 2\<rfloor> / 10) else of_int \<lfloor>x * 10 + 1 / 2\<rfloor> / 10)"

definition applyResourceDelta :: "Resource list \<Rightarrow> ResourceDelta \<Rightarrow> Resource list" where
  "applyResourceDelta list d =
     map (\<lambda>resource.
            case map_of d (key resource) of
              None \<Rightarrow> resource
            | Some change \<Rightarrow>
                if change = 0 then resource
                else let next = amount resource + change;
                         limited = min (capacity resource) (max 0 next)
                     in resource\<lparr>amount := toFixed1 limited\<rparr>) list"

definition applyRateDelta :: "Resource list \<Rightarrow> ResourceDelta \<Rightarrow> Resource list" where
  "applyRateDelta list d =
     map (\<lambda>resource.
            case map_of d (key resource) of
              None \<Rightarrow> resource
            | Some change \<Rightarrow>
                if change = 0 then resource
                else resource\<lparr>rate := toFixed1 (rate resource + change)\<rparr>) list"

definition applyCapacityDelta :: "Resource list \<Rightarrow> ResourceDelta \<Rightarrow> Resource list" where
  "applyCapacityDelta list d =
     map (\<lambda>resource.
            case map_of d (key resource) of
              None \<Rightarrow> resource
            | Some change \<Rightarrow>
                if change = 0 then resource
                else resource\<lparr>capacity := max 0 (capacity resource + change)\<rparr>) list"

text \<open>
  The affordability check shared by \<^verbatim>\<open>canAffordExpansion\<close>, \<^verbatim>\<open>canAffordRecipe\<close>,
  \<^verbatim>\<open>canAffordToolRecipe\<close> and \<^verbatim>\<open>canAffordFacility\<close>, which have the same body:
  every entry of the cost whose resource exists leaves a non-negative amount.
\<close>

definition canAffordCost :: "Resource list \<Rightarrow> ResourceDelta \<Rightarrow> bool" where
  "canAffordCost rs cost =
     list_all (\<lambda>(k, c). case find (\<lambda>r. key r = k) rs of
                           None \<Rightarrow> True
                         | Some resource \<Rightarrow> amount resource + c \<ge> 0) cost"

definition canAffordExpansion :: "GameState \<Rightarrow> District \<Rightarrow> bool" where
  "canAffordExpansion st district = canAffordCost (resources st) (expansionCost district)"

definition canAffordRecipe :: "GameState \<Rightarrow> Recipe \<Rightarrow> bool" where
  "canAffordRecipe st recipe = canAffordCost (resources st) (recipe_cost recipe)"

definition canAffordToolRecipe :: "GameState \<Rightarrow> ToolRecipe \<Rightarrow> bool" where
  "canAffordToolRecipe st recipe = canAffordCost (resources st) (tool_cost recipe)"

definition canAffordFacility :: "GameState \<Rightarrow> Facility \<Rightarrow> bool" where
  "canAffordFacility st facility = canAffordCost (resources st) (facility_cost facility)"

fun toolTypeMap :: "ResourceKey \<Rightarrow> ToolType option" where
  "toolTypeMap Wood = Some Saw"
| "toolTypeMap Stone = Some Pickaxe"
| "toolTypeMap Sunleaf = Some Shears"
| "toolTypeMap _ = None"

definition getEquippedToolBonus :: "GameState \<Rightarrow> ResourceKey \<Rightarrow> rat \<times> int" where
  "getEquippedToolBonus st resourceKey =
     (case toolTypeMap resourceKey of
        None \<Rightarrow> (0, 0)
      | Some tt \<Rightarrow>
          (case equippedTools st tt of
             None \<Rightarrow> (0, 0)
           | Some equippedToolId \<Rightarrow>
               if equippedToolId = '''' then (0, 0)
               else (case find (\<lambda>t. tool_id t = equippedToolId) TOOL_RECIPES of
                       None \<Rightarrow> (0, 0)
                     | Some tool \<Rightarrow>
                         ((case map_of (harvestBonus tool) resourceKey of
                             None \<Rightarrow> 0 | Some b \<Rightarrow> b),
                          cooldownReduction tool))))"

definition handleUnlockResource :: "ResourceKey \<Rightarrow> GameState \<Rightarrow> GameState" where
  "handleUnlockResource resourceKey st =
     (case RESOURCE_UNLOCK_cost resourceKey of
        None \<Rightarrow> st
      | Some cost \<Rightarrow>
          if \<not> list_all (\<lambda>resource.
                 amount resource + (case map_of cost (key resource) of None \<Rightarrow> 0 | Some c \<Rightarrow> c) \<ge> 0)
               (resources st)
          then st
          else pushLog (language st, ResourceUnlocked resourceKey)
                 (st\<lparr>resources := applyResourceDelta (resources st) cost,
                     manuallyUnlockedResources := manuallyUnlockedResources st @ [resourceKey]\<rparr>))"

subsection \<open>Manual harvest and skills\<close>

definition skillGain :: "SkillType \<Rightarrow> Skill \<Rightarrow> Skill" where
  "skillGain skillType skill =
     (if skill_type skill \<noteq> skillType \<or> level skill \<ge> maxLevel skill then skill
      else let newExp = experience skill + 10;
               requiredExp = level skill * SKILL_EXP_PER_LEVEL
           in if newExp \<ge> requiredExp
              then skill\<lparr>level := level skill + 1, experience := newExp - requiredExp\<rparr>
              else skill\<lparr>experience := newExp\<rparr>)"

definition skillLevelsUp :: "SkillType \<Rightarrow> Skill \<Rightarrow> bool" where
  "skillLevelsUp skillType skill \<longleftrightarrow>
     \<not> (skill_type skill \<noteq> skillType \<or> level skill \<ge> maxLevel skill)
     \<and> experience skill + 10 \<ge> level skill * SKILL_EXP_PER_LEVEL"

text \<open>
  The updater passed to \<^verbatim>\<open>setSkills\<close> logs each level-up while it maps over the
  skills; the harvest line is logged by the handler after that call.
\<close>

definition gainSkillExperience :: "SkillType \<Rightarrow> GameState \<Rightarrow> GameState" where
  "gainSkillExperience skillType st =
     fold (\<lambda>skill s. pushLog (language st, SkillLevelUp (skill_type skill) (level skill + 1)) s)
       (filter (skillLevelsUp skillType) (skills st))
       (st\<lparr>skills := map (skillGain skillType) (skills st)\<rparr>)"

definition handleManualHarvest :: "ResourceKey \<Rightarrow> GameState \<Rightarrow> GameState" where
  "handleManualHarvest resourceKey st =
     (if manualCooldowns st resourceKey > 0 then st
      else let baseReward = MANUAL_HARVEST_REWARDS resourceKey;
               bonus = fst (getEquippedToolBonus st resourceKey);
               reduction = snd (getEquippedToolBonus st resourceKey);
               boostedReward = map (\<lambda>(rKey, v). (rKey, v + bonus)) baseReward;
               adjustedCooldown = max 5 (MANUAL_HARVEST_COOLDOWN_SECONDS - reduction);
               st1 = st\<lparr>resources := applyResourceDelta (resources st) boostedReward,
                       manualCooldowns := (manualCooldowns st)(resourceKey := adjustedCooldown),
                       manualHarvestActive := (manualHarvestActive st)(resourceKey := True)\<rparr>;
               st2 = (case SKILL_RESOURCE_MAP resourceKey of
                        None \<Rightarrow> st1
                      | Some skillType \<Rightarrow> gainSkillExperience skillType st1)
           in pushLog (language st, HarvestComplete resourceKey (map_of boostedReward resourceKey))
                st2)"

text \<open>
  One run of the one-second interval of the cooldown effect; the effect installs no
  interval when no resource is cooling down.
\<close>

definition cooldownInterval :: "GameState \<Rightarrow> GameState" where
  "cooldownInterval st =
     (let activeKeys = filter (manualHarvestActive st) resource_keys;
          nextValue = (\<lambda>k. max 0 (manualCooldowns st k - 1))
      in if activeKeys = [] then st
         else st\<lparr>manualCooldowns :=
                   (\<lambda>k. if k \<in> set activeKeys then nextValue k else manualCooldowns st k),
                 manualHarvestActive :=
                   (\<lambda>k. if k \<in> set activeKeys \<and> nextValue k \<le> 0 then False
                        else manualHarvestActive st k)\<rparr>)"

subsection \<open>Districts\<close>

definition handleExpand :: "string \<Rightarrow> GameState \<Rightarrow> GameState" where
  "handleExpand districtId st =
     (case find (\<lambda>d. district_id d = districtId) (districts st) of
        None \<Rightarrow> st
      | Some district \<Rightarrow>
          if \<not> canAffordExpansion st district then st
          else pushLog (language st, ExpansionComplete (district_id district))
                 (st\<lparr>resources :=
                       applyRateDelta (applyResourceDelta (resources st) (expansionCost district))
                         (productionBoost district),
                     districts :=
                       map (\<lambda>d. if district_id d = districtId
                                 then d\<lparr>buildingCount := buildingCount d + 1\<rparr> else d)
                         (districts st)\<rparr>))"

definition handleDemolish :: "string \<Rightarrow> GameState \<Rightarrow> GameState" where
  "handleDemolish districtId st =
     (case find (\<lambda>d. district_id d = districtId) (districts st) of
        None \<Rightarrow> st
      | Some district \<Rightarrow>
          if buildingCount district \<le> 0 then st
          else let negativeBoost = map (\<lambda>(k, v). (k, - v)) (productionBoost district)
               in pushLog (language st, DemolitionComplete (district_id district))
                    (st\<lparr>resources := applyRateDelta (resources st) negativeBoost,
                        districts :=
                          map (\<lambda>d. if district_id d = districtId
                                    then d\<lparr>buildingCount := buildingCount d - 1\<rparr> else d)
                            (districts st)\<rparr>))"

text \<open>
  \<^verbatim>\<open>passiveRates\<close>: the object built by the two nested \<^verbatim>\<open>forEach\<close> loops, as a map.
\<close>

definition passiveRates :: "District list \<Rightarrow> (ResourceKey \<rightharpoonup> rat)" where
  "passiveRates ds =
     fold (\<lambda>district rates.
             if buildingCount district = 0 then rates
             else fold (\<lambda>(k, boost) rates.
                          if boost = 0 then rates
                          else rates(k \<mapsto> (case rates k of None \<Rightarrow> 0 | Some r \<Rightarrow> r)
                                           + boost * of_int (buildingCount district)))
                    (productionBoost district) rates)
       ds Map.empty"

subsection \<open>Crafting\<close>

text \<open>
  \<^verbatim>\<open>craftingRecipe\<close> is a \<^verbatim>\<open>string | null\<close> tested for truthiness: the empty string
  counts as no craft, like \<^verbatim>\<open>null\<close>.
\<close>

definition craftInProgress :: "GameState \<Rightarrow> bool" where
  "craftInProgress st \<longleftrightarrow> (case craftingRecipe st of None \<Rightarrow> False | Some r \<Rightarrow> r \<noteq> '''')"

definition handleStartCraft :: "string \<Rightarrow> GameState \<Rightarrow> GameState" where
  "handleStartCraft recipeId st =
     (case find (\<lambda>r. recipe_id r = recipeId) RECIPES of
        None \<Rightarrow> st
      | Some recipe \<Rightarrow>
          if \<not> canAffordRecipe st recipe \<or> craftInProgress st then st
          else pushLog (language st, CraftStarted (recipe_id recipe) (recipe_craftTime recipe))
                 (st\<lparr>resources := applyResourceDelta (resources st) (recipe_cost recipe),
                     craftingRecipe := Some recipeId,
                     craftingProgress := 0\<rparr>))"

definition handleStartToolCraft :: "string \<Rightarrow> GameState \<Rightarrow> GameState" where
  "handleStartToolCraft recipeId st =
     (case find (\<lambda>r. tool_id r = recipeId) TOOL_RECIPES of
        None \<Rightarrow> st
      | Some recipe \<Rightarrow>
          if \<not> canAffordToolRecipe st recipe \<or> craftInProgress st then st
          else pushLog (language st, CraftStarted (tool_id recipe) (tool_craftTime recipe))
                 (st\<lparr>resources := applyResourceDelta (resources st) (tool_cost recipe),
                     craftingRecipe := Some recipeId,
                     craftingProgress := 0\<rparr>))"

text \<open>
  One run of the one-second interval of the crafting effect. The effect installs no
  interval when nothing is being crafted, when the progress has reached 100, or when the
  id is in neither catalogue. An item recipe wins over a tool recipe of the same id.
\<close>

definition craftingInterval :: "GameState \<Rightarrow> GameState" where
  "craftingInterval st =
     (case craftingRecipe st of
        None \<Rightarrow> st
      | Some cid \<Rightarrow>
          if cid = '''' \<or> craftingProgress st \<ge> 100 then st
          else (case find (\<lambda>r. recipe_id r = cid) RECIPES of
                  Some recipe \<Rightarrow>
                    if craftingProgress st + 1 \<ge> recipe_craftTime recipe
                    then pushLog (language st, ItemCrafted (recipe_id recipe))
                           (st\<lparr>pendingAllocation := Some (cid, capacityBoost recipe),
                               craftingRecipe := None, craftingProgress := 0\<rparr>)
                    else st\<lparr>craftingProgress := craftingProgress st + 1\<rparr>
                | None \<Rightarrow>
                    (case find (\<lambda>r. tool_id r = cid) TOOL_RECIPES of
                       None \<Rightarrow> st
                     | Some toolRecipe \<Rightarrow>
                         if craftingProgress st + 1 \<ge> tool_craftTime toolRecipe
                         then (pushLog (language st, ToolCrafted (tool_id toolRecipe)) st)
                                \<lparr>equippedTools :=
                                   (equippedTools st)(toolType toolRecipe \<mapsto> tool_id toolRecipe),
                                 craftingRecipe := None, craftingProgress := 0\<rparr>
                         else st\<lparr>craftingProgress := craftingProgress st + 1\<rparr>)))"

definition handleAllocateCapacity :: "ResourceKey \<Rightarrow> GameState \<Rightarrow> GameState" where
  "handleAllocateCapacity resourceKey st =
     (case pendingAllocation st of
        None \<Rightarrow> st
      | Some (recipeId, boost) \<Rightarrow>
          (case find (\<lambda>r. recipe_id r = recipeId) RECIPES of
             None \<Rightarrow> st
           | Some recipe \<Rightarrow>
               (pushLog (language st, CapacityAllocated (recipe_id recipe) resourceKey boost)
                  (st\<lparr>resources :=
                        map (\<lambda>r. if key r = resourceKey
                                  then r\<lparr>capacity := capacity r + boost\<rparr> else r)
                          (resources st)\<rparr>))
                 \<lparr>pendingAllocation := None\<rparr>))"

subsection \<open>Facilities, tenants and workers\<close>

definition facilityCount :: "GameState \<Rightarrow> string \<Rightarrow> int" where
  "facilityCount st fid = (case facilityCounts st fid of None \<Rightarrow> 0 | Some n \<Rightarrow> n)"

definition handleBuildFacility :: "string \<Rightarrow> GameState \<Rightarrow> GameState" where
  "handleBuildFacility facilityId st =
     (case find (\<lambda>f. facility_id f = facilityId) FACILITIES of
        None \<Rightarrow> st
      | Some facility \<Rightarrow>
          if stageIndex st < facility_requiredStage facility then st
          else if \<not> canAffordFacility st facility then st
          else pushLog (language st, FacilityBuilt (facility_id facility) (facility_capacity facility))
                 (st\<lparr>resources := applyResourceDelta (resources st) (facility_cost facility),
                     facilityCounts :=
                       (facilityCounts st)(facilityId \<mapsto> facilityCount st facilityId + 1)\<rparr>))"

definition hasCityHall :: "GameState \<Rightarrow> bool" where
  "hasCityHall st \<longleftrightarrow> facilityCount st ''city-hall'' > 0"

definition totalHousingCapacity :: "GameState \<Rightarrow> int" where
  "totalHousingCapacity st =
     fold (\<lambda>facility total. total + facilityCount st (facility_id facility) * facility_capacity facility)
       FACILITIES 0"

definition availableHousing :: "GameState \<Rightarrow> int" where
  "availableHousing st = totalHousingCapacity st - assignedTenants st"

definition handleRecruitTenants :: "GameState \<Rightarrow> GameState" where
  "handleRecruitTenants st =
     (if \<not> hasCityHall st then st
      else if tenantRecruitCooldown st > 0 then st
      else pushLog (language st, RecruitPosted)
             (st\<lparr>pendingTenants := pendingTenants st + 5,
                 tenantRecruitCooldown := 300,
                 tenantTimeout := 120\<rparr>))"

definition handleAssignTenants :: "GameState \<Rightarrow> GameState" where
  "handleAssignTenants st =
     (if pendingTenants st \<le> 0 then st
      else let toAssign = min (pendingTenants st) (availableHousing st)
           in if toAssign \<le> 0 then st
              else pushLog (language st, TenantsAssigned toAssign)
                     (st\<lparr>pendingTenants := pendingTenants st - toAssign,
                         assignedTenants := assignedTenants st + toAssign,
                         tenantMorale := tenantMorale st @ replicate (nat toAssign) 100,
                         tenantTimeout := 0\<rparr>))"

definition totalAssignedWorkers :: "GameState \<Rightarrow> int" where
  "totalAssignedWorkers st = fold (\<lambda>k sum. sum + resourceWorkers st k) resource_keys 0"

definition idleWorkers :: "GameState \<Rightarrow> int" where
  "idleWorkers st = assignedTenants st - totalAssignedWorkers st"

definition handleAssignWorker :: "ResourceKey \<Rightarrow> GameState \<Rightarrow> GameState" where
  "handleAssignWorker resourceKey st =
     (if idleWorkers st \<le> 0 then st
      else pushLog (language st, WorkerAssigned resourceKey)
             (st\<lparr>resourceWorkers :=
                   (resourceWorkers st)(resourceKey := resourceWorkers st resourceKey + 1)\<rparr>))"

definition handleUnassignWorker :: "ResourceKey \<Rightarrow> GameState \<Rightarrow> GameState" where
  "handleUnassignWorker resourceKey st =
     (let current = resourceWorkers st resourceKey
      in if current \<le> 0 then st
         else pushLog (language st, WorkerUnassigned resourceKey)
                (st\<lparr>resourceWorkers := (resourceWorkers st)(resourceKey := current - 1)\<rparr>))"

text \<open>One run of the one-second intervals of the recruitment cooldown and of the timeout.\<close>

definition recruitCooldownInterval :: "GameState \<Rightarrow> GameState" where
  "recruitCooldownInterval st =
     (if tenantRecruitCooldown st \<le> 0 then st
      else st\<lparr>tenantRecruitCooldown := max 0 (tenantRecruitCooldown st - 1)\<rparr>)"

definition tenantTimeoutInterval :: "GameState \<Rightarrow> GameState" where
  "tenantTimeoutInterval st =
     (if tenantTimeout st \<le> 0 \<or> pendingTenants st \<le> 0 then st
      else let next = max 0 (tenantTimeout st - 1)
           in if next = 0 \<and> pendingTenants st > 0
              then (pushLog (language st, TenantsTimedOut (pendingTenants st)) st)
                     \<lparr>pendingTenants := 0, tenantTimeout := next\<rparr>
              else st\<lparr>tenantTimeout := next\<rparr>)"

subsection \<open>Wages and attrition\<close>

text \<open>\<^verbatim>\<open>handlePayWages\<close> returns whether the wages were paid, with the new state.\<close>

definition handlePayWages :: "GameState \<Rightarrow> bool \<times> GameState" where
  "handlePayWages st =
     (let totalWage = assignedTenants st * WAGE_PER_TENANT_PER_DAY;
          sunleafResource = find (\<lambda>r. key r = Sunleaf) (resources st)
      in if (case sunleafResource of None \<Rightarrow> True | Some r \<Rightarrow> amount r < of_int totalWage)
         then (False,
               pushLog (language st, WagesInsufficient totalWage (map_option amount sunleafResource)) st)
         else (True,
               pushLog (language st, WagesPaid totalWage (assignedTenants st))
                 (st\<lparr>resources :=
                       map (\<lambda>resource. if key resource = Sunleaf
                                         then resource\<lparr>amount := amount resource - of_int totalWage\<rparr>
                                         else resource)
                         (resources st)\<rparr>)))"

definition wagesEffect :: "GameState \<Rightarrow> GameState" where
  "wagesEffect st =
     (let currentDay = int (dayCount (tick st))
      in if currentDay = lastPayDay st \<or> assignedTenants st = 0 then st
         else let attempt = (if autoPayWages st then handlePayWages st else (False, st));
                  paid = fst attempt;
                  st1 = snd attempt
              in if paid then st1\<lparr>lastPayDay := currentDay\<rparr>
                 else if currentDay > lastPayDay st + 1
                 then (pushLog (language st, WagesNotPaid)
                         (st1\<lparr>tenantMorale := map (\<lambda>morale. max 0 (morale - 10)) (tenantMorale st1)\<rparr>))
                        \<lparr>lastPayDay := currentDay\<rparr>
                 else st1)"

text \<open>
  The attrition effect calls \<^verbatim>\<open>Math.random()\<close> once for each tenant whose morale is
  below 50, in the order of the morale array. The outcomes \<^verbatim>\<open>Math.random() < 0.5\<close> are
  an input of the model: \<open>rolls n\<close> is the outcome of the \<open>n\<close>-th call of one run. The
  filter returns the morale entries that stay and the indices of those that leave.
\<close>

fun attritionFilter :: "(nat \<Rightarrow> bool) \<Rightarrow> nat \<Rightarrow> nat \<Rightarrow> int list \<Rightarrow> int list \<times> nat list" where
  "attritionFilter rolls n index [] = ([], [])"
| "attritionFilter rolls n index (morale # rest) =
     (if morale < 50
      then (if rolls n
            then (fst (attritionFilter rolls (n + 1) (index + 1) rest),
                  index # snd (attritionFilter rolls (n + 1) (index + 1) rest))
            else (morale # fst (attritionFilter rolls (n + 1) (index + 1) rest),
                  snd (attritionFilter rolls (n + 1) (index + 1) rest)))
      else (morale # fst (attritionFilter rolls n (index + 1) rest),
            snd (attritionFilter rolls n (index + 1) rest)))"

fun removeExcessWorkers ::
  "ResourceKey list \<Rightarrow> (ResourceKey \<Rightarrow> int) \<Rightarrow> int \<Rightarrow> (ResourceKey \<Rightarrow> int)" where
  "removeExcessWorkers [] updated toRemove = updated"
| "removeExcessWorkers (k # ks) updated toRemove =
     (if toRemove \<le> 0 then updated
      else let remove = min (updated k) toRemove
           in removeExcessWorkers ks (updated(k := updated k - remove)) (toRemove - remove))"

definition attritionEffect :: "(nat \<Rightarrow> bool) \<Rightarrow> GameState \<Rightarrow> GameState" where
  "attritionEffect rolls st =
     (let currentDay = int (dayCount (tick st))
      in if assignedTenants st = 0 \<or> tenantMorale st = [] then st
         else if currentDay = lastPayDay st then st
         else let updatedMorale = fst (attritionFilter rolls 0 0 (tenantMorale st));
                  departures = snd (attritionFilter rolls 0 0 (tenantMorale st))
              in if length departures > 0
                 then let excessWorkers =
                            totalAssignedWorkers st - (assignedTenants st - int (length departures))
                      in pushLog (language st, TenantsLeft (length departures))
                           (st\<lparr>tenantMorale := updatedMorale,
                               assignedTenants := assignedTenants st - int (length departures),
                               resourceWorkers :=
                                 (if excessWorkers > 0
                                  then removeExcessWorkers resource_keys (resourceWorkers st) excessWorkers
                                  else resourceWorkers st)\<rparr>)
                 else st)"

subsection \<open>Story chapters and tutorial stages\<close>

definition registerMilestone :: "string \<Rightarrow> GameState \<Rightarrow> GameState" where
  "registerMilestone label st =
     st\<lparr>milestones := (if label \<in> set (milestones st) then milestones st else milestones st @ [label])\<rparr>"

definition handleDismissTutorial :: "GameState \<Rightarrow> GameState" where
  "handleDismissTutorial st =
     (let st1 = st\<lparr>showTutorial := False\<rparr>
      in if stageIndex st > 0 then registerMilestone ''tutorial-overlay-dismissed'' st1 else st1)"

fun isTriggerMet :: "GameState \<Rightarrow> StoryTrigger \<Rightarrow> bool" where
  "isTriggerMet st (StageTrigger stage) = (stageIndex st \<ge> stage)"
| "isTriggerMet st (ResourceTrigger res amt) =
     (case find (\<lambda>item. key_name (key item) = res) (resources st) of
        None \<Rightarrow> False
      | Some resource \<Rightarrow> amount resource \<ge> amt)"
| "isTriggerMet st (MilestoneTrigger label) = (label \<in> set (milestones st))"
| "isTriggerMet st (PurchaseTrigger itemId) = (itemId \<in> set (completedPurchases st))"

definition newlyUnlocked :: "GameState \<Rightarrow> StoryChapter list" where
  "newlyUnlocked st =
     filter (\<lambda>chapter. chapter_id chapter \<notin> set (unlockedChapters st)
                        \<and> isTriggerMet st (trigger chapter)) STORY_CHAPTERS"

definition chapterUnlockEffect :: "GameState \<Rightarrow> GameState" where
  "chapterUnlockEffect st =
     (if STORY_CHAPTERS = [] then st
      else if newlyUnlocked st = [] then st
      else let latest = last (newlyUnlocked st)
           in pushLog (language st, ChapterPosted (title latest))
                (st\<lparr>unlockedChapters := unlockedChapters st @ map chapter_id (newlyUnlocked st),
                    activeChapterId := chapter_id latest\<rparr>))"

definition goalMet :: "Resource list \<Rightarrow> TutorialGoal \<Rightarrow> bool" where
  "goalMet rs goal =
     (case find (\<lambda>item. key item = goal_resource goal) rs of
        None \<Rightarrow> False
      | Some resource \<Rightarrow>
          (if metric goal = Some CapacityMetric then capacity resource else amount resource)
            \<ge> target goal)"

definition goalsMet :: "GameState \<Rightarrow> bool" where
  "goalsMet st \<longleftrightarrow>
     stageIndex st < length TUTORIAL_STAGES
     \<and> list_all (goalMet (resources st)) (goals (TUTORIAL_STAGES ! stageIndex st))"

text \<open>
  The stage-advance effect. The marker \<^verbatim>\<open>nextStageRef\<close> guards the log line only;
  the call of \<^verbatim>\<open>window.setTimeout\<close> comes after that guard.
\<close>

definition stageAdvanceEffect :: "GameState \<Rightarrow> GameState" where
  "stageAdvanceEffect st =
     (if \<not> stageIndex st < length TUTORIAL_STAGES then st
      else if goalsMet st \<and> stageIndex st < length TUTORIAL_STAGES - 1
      then let nextIndex = stageIndex st + 1;
               st1 = (if nextStageRef st \<noteq> nextIndex
                      then pushLog (language st, StageOpened nextIndex)
                             (st\<lparr>nextStageRef := nextIndex\<rparr>)
                      else st)
           in st1\<lparr>pendingTimeouts := pendingTimeouts st1 @ [(750, nextIndex)]\<rparr>
      else st)"

text \<open>
  The passage of time: the callbacks whose delay has elapsed run in the order of their
  registration, each setting the stage index it was created with.
\<close>

definition runTimeout :: "nat \<Rightarrow> GameState \<Rightarrow> GameState" where
  "runTimeout nextIndex st = st\<lparr>stageIndex := nextIndex, showTutorial := True\<rparr>"

definition elapse :: "nat \<Rightarrow> GameState \<Rightarrow> GameState" where
  "elapse ms st =
     fold (\<lambda>(d, nextIndex) s. runTimeout nextIndex s)
       (filter (\<lambda>(d, nextIndex). d \<le> ms) (pendingTimeouts st))
       (st\<lparr>pendingTimeouts :=
             map (\<lambda>(d, nextIndex). (d - ms, nextIndex))
               (filter (\<lambda>(d, nextIndex). \<not> d \<le> ms) (pendingTimeouts st))\<rparr>)"

subsection \<open>Ticks, production and boosts\<close>

text \<open>
  The phase timer adds one to the tick; it is not installed while the introductory
  dialogue shows.
\<close>

definition phaseTimer :: "GameState \<Rightarrow> GameState" where
  "phaseTimer st = (if showIntroDialogue st then st else st\<lparr>tick := tick st + 1\<rparr>)"

text \<open>
  \<^verbatim>\<open>SUNLEAF_SEASON_MULTIPLIERS[seasonIndex] || 1\<close>: an index outside the table, or an
  entry equal to zero, gives 1.
\<close>

definition seasonMultiplier :: "nat \<Rightarrow> rat" where
  "seasonMultiplier i =
     (if i < length SUNLEAF_SEASON_MULTIPLIERS
      then (if SUNLEAF_SEASON_MULTIPLIERS ! i = 0 then 1 else SUNLEAF_SEASON_MULTIPLIERS ! i)
      else 1)"

definition totalRate :: "GameState \<Rightarrow> Resource \<Rightarrow> rat" where
  "totalRate st resource =
     (let workers = resourceWorkers st (key resource);
          passiveRate = (case passiveRates (districts st) (key resource) of
                           None \<Rightarrow> 0 | Some r \<Rightarrow> r);
          workerRate = rate resource * of_int workers;
          total = workerRate + passiveRate
      in if key resource = Sunleaf then total * seasonMultiplier (seasonIndex (tick st))
         else total)"

definition produce :: "GameState \<Rightarrow> Resource \<Rightarrow> Resource" where
  "produce st resource =
     (if totalRate st resource \<le> 0 then resource
      else let perPhaseGain = totalRate st resource / (20 / 5)
           in if perPhaseGain = 0 then resource
              else let nextAmount = amount resource + perPhaseGain;
                       limited = min (capacity resource) (max 0 nextAmount)
                   in resource\<lparr>amount := limited\<rparr>)"

definition productionEffect :: "GameState \<Rightarrow> GameState" where
  "productionEffect st =
     (if tick st = 0 then st
      else st\<lparr>resources := map (produce st) (resources st)\<rparr>)"



definition boostTickEffect :: "GameState \<Rightarrow> GameState" where
  "boostTickEffect st =
     (if activeBoosts st = [] then st
      else st\<lparr>activeBoosts :=
                filter (\<lambda>boost. remainingTicks boost > 0)
                  (map (\<lambda>boost. boost\<lparr>remainingTicks := remainingTicks boost - 1\<rparr>)
                     (activeBoosts st))\<rparr>)"

definition totalRateBoost :: "ActiveBoost list \<Rightarrow> (ResourceKey \<rightharpoonup> rat)" where
  "totalRateBoost boosts =
     fold (\<lambda>boost total.
             fold (\<lambda>(k, v) total. total(k \<mapsto> (case total k of None \<Rightarrow> 0 | Some t \<Rightarrow> t) + v))
               (boost_rateDelta boost) total)
       boosts Map.empty"

definition boostRateEffect :: "GameState \<Rightarrow> GameState" where
  "boostRateEffect st =
     st\<lparr>resources :=
          map (\<lambda>resource.
                 let b = (case totalRateBoost (activeBoosts st) (key resource) of
                            None \<Rightarrow> 0 | Some t \<Rightarrow> t);
                     baseRate = rate resource - b
                 in resource\<lparr>rate := baseRate + b\<rparr>)
            (resources st)\<rparr>"

definition phaseLogEffect :: "GameState \<Rightarrow> GameState" where
  "phaseLogEffect st =
     (if tick st = 0 \<or> tick st mod (PHASES_length * 2) \<noteq> 0 then st
      else pushLog (language st, PhaseReport (tick st mod PHASES_length)) st)"

text \<open>Closing the introductory dialogue (the handlers of its buttons).\<close>

definition closeIntroDialogue :: "GameState \<Rightarrow> GameState" where
  "closeIntroDialogue st = st\<lparr>showIntroDialogue := False, showTutorial := True\<rparr>"

subsection \<open>Council directives\<close>

definition canExecute :: "GameState \<Rightarrow> Action \<Rightarrow> bool" where
  "canExecute st action =
     (case delta action of
        None \<Rightarrow> True
      | Some d \<Rightarrow>
          list_all (\<lambda>resource.
                      let change = (case map_of d (key resource) of None \<Rightarrow> 0 | Some c \<Rightarrow> c)
                      in change \<ge> 0 \<or> amount resource + change \<ge> 0)
            (resources st))"

text \<open>
  \<^verbatim>\<open>action.duration\<close> is tested for truthiness: a duration of zero counts as none.
  The duration in ticks is \<^verbatim>\<open>Math.ceil(duration / 5)\<close>.
\<close>

definition hasDuration :: "Action \<Rightarrow> bool" where
  "hasDuration action \<longleftrightarrow> (case duration action of None \<Rightarrow> False | Some n \<Rightarrow> n \<noteq> 0)"

definition handleAction :: "Action \<Rightarrow> GameState \<Rightarrow> GameState" where
  "handleAction action st =
     (if \<not> canExecute st action then st
      else let next0 = resources st;
               next1 = (case delta action of None \<Rightarrow> next0 | Some d \<Rightarrow> applyResourceDelta next0 d);
               next2 = (case rateDelta action of
                          None \<Rightarrow> next1
                        | Some rd \<Rightarrow> if hasDuration action then next1 else applyRateDelta next1 rd);
               next3 = (case capacityDelta action of
                          None \<Rightarrow> next2 | Some cd \<Rightarrow> applyCapacityDelta next2 cd);
               boosts = (case (duration action, rateDelta action) of
                           (Some seconds, Some rd) \<Rightarrow>
                             if seconds = 0 then activeBoosts st
                             else (let durationInTicks = int ((seconds + 4) div 5)
                                   in filter (\<lambda>b. boost_actionId b \<noteq> action_id action) (activeBoosts st)
                                      @ [\<lparr>boost_actionId = action_id action,
                                           remainingTicks = durationInTicks,
                                           totalDuration = durationInTicks,
                                           boost_rateDelta = rd\<rparr>])
                         | _ \<Rightarrow> activeBoosts st)
           in pushLog (language st, ActionLogged (action_id action))
                (st\<lparr>resources := next3, activeBoosts := boosts\<rparr>))"

subsection \<open>New game\<close>

text \<open>
  \<^verbatim>\<open>String.prototype.trim\<close> removes white space and line terminators from both ends of a
  string. Of the characters of the model these are the tab, the line feed, the vertical
  tab, the form feed, the carriage return, the space and the no-break space.
\<close>

definition isWhiteSpace :: "char \<Rightarrow> bool" where
  "isWhiteSpace c \<longleftrightarrow> (of_char c :: nat) \<in> {9, 10, 11, 12, 13, 32, 160}"

definition trim :: "string \<Rightarrow> string" where
  "trim s = rev (dropWhile isWhiteSpace (rev (dropWhile isWhiteSpace s)))"

text \<open>
  \<^verbatim>\<open>handleNewGame\<close> does nothing while the name typed for the new game is blank.
  Otherwise it resets every cell of the session to its initial value. It does not touch
  the ref \<^verbatim>\<open>nextStageRef\<close>, the pending timeouts, the pending allocation or the active
  boosts.
\<close>

definition handleNewGame :: "string \<Rightarrow> GameState \<Rightarrow> GameState" where
  "handleNewGame newGameName st =
     (if trim newGameName = [] then st
      else (initialState (language st))
             \<lparr>nextStageRef := nextStageRef st, pendingTimeouts := pendingTimeouts st,
              pendingAllocation := pendingAllocation st, activeBoosts := activeBoosts st\<rparr>)"

subsection \<open>The steps of a session\<close>

text \<open>
  One step of a running session is one player action, one run of a timer callback or one
  run of an effect. Starting a new game and loading a save replace the state in bulk and
  begin another session; they are not steps.
\<close>

inductive step :: "GameState \<Rightarrow> GameState \<Rightarrow> bool" where
  step_phaseTimer: "step st (phaseTimer st)"
| step_production: "step st (productionEffect st)"
| step_boostTick: "step st (boostTickEffect st)"
| step_boostRate: "step st (boostRateEffect st)"
| step_phaseLog: "step st (phaseLogEffect st)"
| step_unlockResource: "step st (handleUnlockResource k st)"
| step_manualHarvest: "step st (handleManualHarvest k st)"
| step_cooldown: "step st (cooldownInterval st)"
| step_expand: "step st (handleExpand districtId st)"
| step_demolish: "step st (handleDemolish districtId st)"
| step_startCraft: "step st (handleStartCraft recipeId st)"
| step_startToolCraft: "step st (handleStartToolCraft recipeId st)"
| step_crafting: "step st (craftingInterval st)"
| step_allocate: "step st (handleAllocateCapacity k st)"
| step_buildFacility: "step st (handleBuildFacility facilityId st)"
| step_recruit: "step st (handleRecruitTenants st)"
| step_assignTenants: "step st (handleAssignTenants st)"
| step_assignWorker: "step st (handleAssignWorker k st)"
| step_unassignWorker: "step st (handleUnassignWorker k st)"
| step_recruitCooldown: "step st (recruitCooldownInterval st)"
| step_tenantTimeout: "step st (tenantTimeoutInterval st)"
| step_payWages: "step st (snd (handlePayWages st))"
| step_wages: "step st (wagesEffect st)"
| step_attrition: "step st (attritionEffect rolls st)"
| step_milestone: "step st (registerMilestone label st)"
| step_dismissTutorial: "step st (handleDismissTutorial st)"
| step_chapterUnlock: "step st (chapterUnlockEffect st)"
| step_stageAdvance: "step st (stageAdvanceEffect st)"
| step_elapse: "step st (elapse ms st)"
| step_action: "action \<in> set ACTIONS \<Longrightarrow> step st (handleAction action st)"
| step_autoPay: "step st (st\<lparr>autoPayWages := b\<rparr>)"
| step_closeIntro: "step st (closeIntroDialogue st)"

subsection \<open>Well-formed states\<close>

text \<open>
  The invariant of a session: every amount lies between zero and the capacity, every
  capacity is a whole number (the catalogue only adds whole numbers to the initial
  ones), no resource key occurs twice, there is one morale entry for each assigned
  tenant, and a pending capacity allocation carries a whole non-negative boost.
\<close>

definition isIntegral :: "rat \<Rightarrow> bool" where
  "isIntegral x \<longleftrightarrow> of_int \<lfloor>x\<rfloor> = x"

definition resourceOk :: "Resource \<Rightarrow> bool" where
  "resourceOk r \<longleftrightarrow> 0 \<le> amount r \<and> amount r \<le> capacity r \<and> isIntegral (capacity r)"

definition sessionInv :: "GameState \<Rightarrow> bool" where
  "sessionInv st \<longleftrightarrow>
     list_all resourceOk (resources st)
     \<and> distinct (map key (resources st))
     \<and> assignedTenants st = int (length (tenantMorale st))
     \<and> (case pendingAllocation st of
          None \<Rightarrow> True
        | Some (recipeId, boost) \<Rightarrow> 0 \<le> boost \<and> isIntegral boost)"

subsection \<open>The cooldown started by a harvest\<close>

definition harvestCooldown :: "GameState \<Rightarrow> ResourceKey \<Rightarrow> int" where
  "harvestCooldown st k =
     max 5 (MANUAL_HARVEST_COOLDOWN_SECONDS - snd (getEquippedToolBonus st k))"

subsection \<open>Per-tick production as the specification words it\<close>

text \<open>
  The specification's production rule, written from its words to be compared with
  \<open>produce\<close>: the passive rate of a resource is the sum over the districts of
  productionBoost[resource] times buildingCount; the total rate is rate times assigned
  workers plus the passive rate, times the season multiplier selected by index from the
  table for sunleaf; the amount advances by the total rate divided by the four ticks of a
  day and is clamped into [0, capacity].
\<close>

definition specPassiveRate :: "District list \<Rightarrow> ResourceKey \<Rightarrow> rat" where
  "specPassiveRate ds k =
     (\<Sum>district\<leftarrow>ds.
        (\<Sum>(k', boost)\<leftarrow>productionBoost district.
           if k' = k then boost * of_int (buildingCount district) else 0))"

definition specTotalRate :: "GameState \<Rightarrow> Resource \<Rightarrow> rat" where
  "specTotalRate st r =
     (rate r * of_int (resourceWorkers st (key r)) + specPassiveRate (districts st) (key r))
     * (if key r = Sunleaf then SUNLEAF_SEASON_MULTIPLIERS ! seasonIndex (tick st) else 1)"

definition specProduce :: "GameState \<Rightarrow> Resource \<Rightarrow> Resource" where
  "specProduce st r =
     r\<lparr>amount := min (capacity r) (max 0 (amount r + specTotalRate st r / 4))\<rparr>"

text \<open>\<^verbatim>\<open>rates[key] ?? 0\<close>, the value of an entry of a rate object.\<close>

definition mapVal :: "(ResourceKey \<rightharpoonup> rat) \<Rightarrow> ResourceKey \<Rightarrow> rat" where
  "mapVal m k = (case m k of None \<Rightarrow> 0 | Some r \<Rightarrow> r)"

section \<open>The persistence codec (serializeState, deserializeState, loadGame)\<close>

subsection \<open>JSON values and the JavaScript tests the codec applies to them\<close>

text \<open>
  A save document is the value that \<^verbatim>\<open>JSON.parse\<close> returns. An object is the list of its
  properties, each key once. \<^verbatim>\<open>undefined\<close>, the value of a property that is absent, is
  \<open>None\<close>.
\<close>

datatype json =
    JNull
  | JBool bool
  | JNum rat
  | JStr string
  | JArr "json list"
  | JObj "(string \<times> json) list"

text \<open>
  \<^verbatim>\<open>x.name\<close> and \<^verbatim>\<open>x?.name\<close>. Only an object has the properties the codec reads; on an
  array, a string, a number or a boolean they are undefined, and the codec reads
  properties of \<^verbatim>\<open>null\<close> through \<^verbatim>\<open>?.\<close> only.
\<close>

fun propOf :: "json \<Rightarrow> string \<Rightarrow> json option" where
  "propOf (JObj kvs) name = map_of kvs name"
| "propOf _ name = None"

fun isNumber :: "json option \<Rightarrow> bool" where
  "isNumber (Some (JNum n)) = True"
| "isNumber _ = False"

fun isString :: "json option \<Rightarrow> bool" where
  "isString (Some (JStr s)) = True"
| "isString _ = False"

fun isBoolean :: "json option \<Rightarrow> bool" where
  "isBoolean (Some (JBool b)) = True"
| "isBoolean _ = False"

fun isArray :: "json option \<Rightarrow> bool" where
  "isArray (Some (JArr xs)) = True"
| "isArray _ = False"

text \<open>\<^verbatim>\<open>typeof x === "object"\<close> holds of objects, of arrays and of \<^verbatim>\<open>null\<close>.\<close>

fun isObjectType :: "json option \<Rightarrow> bool" where
  "isObjectType (Some JNull) = True"
| "isObjectType (Some (JArr xs)) = True"
| "isObjectType (Some (JObj kvs)) = True"
| "isObjectType _ = False"

fun truthy :: "json option \<Rightarrow> bool" where
  "truthy None = False"
| "truthy (Some JNull) = False"
| "truthy (Some (JBool b)) = b"
| "truthy (Some (JNum n)) = (n \<noteq> 0)"
| "truthy (Some (JStr s)) = (s \<noteq> '''')"
| "truthy (Some (JArr xs)) = True"
| "truthy (Some (JObj kvs)) = True"

text \<open>\<^verbatim>\<open>x && typeof x === "object"\<close>: an object or an array.\<close>

definition isTruthyObject :: "json option \<Rightarrow> bool" where
  "isTruthyObject x \<longleftrightarrow> truthy x \<and> isObjectType x"

text \<open>\<^verbatim>\<open>typeof x === "number" ? x : d\<close> and its siblings.\<close>

fun numberOr :: "json option \<Rightarrow> rat \<Rightarrow> rat" where
  "numberOr (Some (JNum n)) d = n"
| "numberOr _ d = d"

fun stringOr :: "json option \<Rightarrow> string \<Rightarrow> string" where
  "stringOr (Some (JStr s)) d = s"
| "stringOr _ d = d"

fun stringOrNull :: "json option \<Rightarrow> string option" where
  "stringOrNull (Some (JStr s)) = Some s"
| "stringOrNull _ = None"

fun arrayOr :: "json option \<Rightarrow> json list \<Rightarrow> json list" where
  "arrayOr (Some (JArr xs)) d = xs"
| "arrayOr _ d = d"

fun booleanOr :: "json option \<Rightarrow> bool \<Rightarrow> bool" where
  "booleanOr (Some (JBool b)) d = b"
| "booleanOr _ d = d"

text \<open>
  \<^verbatim>\<open>Array.isArray(x) ? f(x) : d\<close>, \<^verbatim>\<open>typeof x === "number" ? f(x) : d\<close> and
  \<^verbatim>\<open>x && typeof x === "object" ? f(x) : d\<close>.
\<close>

fun whenArray :: "json option \<Rightarrow> (json list \<Rightarrow> 'a) \<Rightarrow> 'a \<Rightarrow> 'a" where
  "whenArray (Some (JArr xs)) f d = f xs"
| "whenArray _ f d = d"

fun whenNumber :: "json option \<Rightarrow> (rat \<Rightarrow> 'a) \<Rightarrow> 'a \<Rightarrow> 'a" where
  "whenNumber (Some (JNum n)) f d = f n"
| "whenNumber _ f d = d"

fun whenObject :: "json option \<Rightarrow> (json \<Rightarrow> 'a) \<Rightarrow> 'a \<Rightarrow> 'a" where
  "whenObject (Some (JArr xs)) f d = f (JArr xs)"
| "whenObject (Some (JObj kvs)) f d = f (JObj kvs)"
| "whenObject _ f d = d"

text \<open>\<^verbatim>\<open>items.find((item) => item?.[name] === value)\<close> for a string value.\<close>

definition findByProp :: "string \<Rightarrow> string \<Rightarrow> json list \<Rightarrow> json option" where
  "findByProp name v items = find (\<lambda>item. propOf item name = Some (JStr v)) items"

text \<open>
  \<^verbatim>\<open>{ ...base, ...x }\<close>: the properties of \<open>x\<close> replace those of the base or come after
  them. The own properties of an array are its elements under their indices in decimal.
  The model keeps properties in the order of insertion.
\<close>

definition digitChar :: "nat \<Rightarrow> char" where
  "digitChar n = ''0123456789'' ! n"

function decimal :: "nat \<Rightarrow> string" where
  "decimal n = (if n < 10 then [digitChar n] else decimal (n div 10) @ [digitChar (n mod 10)])"
  by pat_completeness auto
termination
  by (relation "measure id") auto

fun ownProperties :: "json \<Rightarrow> (string \<times> json) list" where
  "ownProperties (JObj kvs) = kvs"
| "ownProperties (JArr xs) = zip (map decimal [0..<length xs]) xs"
| "ownProperties _ = []"

definition objSpread :: "(string \<times> json) list \<Rightarrow> json \<Rightarrow> (string \<times> json) list" where
  "objSpread base x = fold (\<lambda>(k, v) acc. AList.update k v acc) (ownProperties x) base"

subsection \<open>The serialized cells of the state\<close>

text \<open>
  The cells that the payload lists, with the JavaScript value each one holds. A cell that
  both decoders always fill with a value of one type has that type; a cell that a decoder
  copies from the document unchecked is a JSON value. Fields that are constants of the
  catalogues and that the decoders never read from the document (labels, icons, costs)
  are left out of resources, districts and skills.
\<close>

record SavedDistrict =
  sd_id :: string
  sd_buildingCount :: rat
  sd_progress :: rat
  sd_stability :: rat

record SavedCells =
  sv_resources :: "Resource list"
  sv_tick :: rat
  sv_stageIndex :: rat
  sv_showTutorial :: bool
  sv_showIntroDialogue :: bool
  sv_introIndex :: rat
  sv_unlockedChapters :: "json list"
  sv_activeChapterId :: string
  sv_milestones :: "json list"
  sv_completedPurchases :: "json list"
  sv_purchaseCounts :: json
  sv_civilizationLevel :: rat
  sv_manualCooldowns :: json
  sv_manualHarvestActive :: json
  sv_log :: "json list"
  sv_districts :: "SavedDistrict list"
  sv_craftingRecipe :: "string option"
  sv_craftingProgress :: json
  sv_equippedTools :: json
  sv_facilityCounts :: json
  sv_selectedFacilityId :: "string option"
  sv_tenantRecruitCooldown :: rat
  sv_pendingTenants :: rat
  sv_tenantTimeout :: rat
  sv_assignedTenants :: rat
  sv_tenantMorale :: json
  sv_autoPayWages :: bool
  sv_lastPayDay :: rat
  sv_skills :: json
  sv_resourceWorkers :: "ResourceKey \<Rightarrow> rat"
  sv_manuallyUnlockedResources :: "json list"

definition savedDISTRICTS :: "SavedDistrict list" where
  "savedDISTRICTS =
     map (\<lambda>d. \<lparr>sd_id = district_id d, sd_buildingCount = of_int (buildingCount d),
               sd_progress = progress d, sd_stability = stability d\<rparr>) DISTRICTS"

fun skillName :: "SkillType \<Rightarrow> string" where
  "skillName Mining = ''mining''"
| "skillName Gathering = ''gathering''"

definition skillJson :: "Skill \<Rightarrow> json" where
  "skillJson skill =
     JObj [(''type'', JStr (skillName (skill_type skill))),
           (''level'', JNum (of_int (level skill))),
           (''experience'', JNum (of_int (experience skill))),
           (''maxLevel'', JNum (of_int (maxLevel skill)))]"

definition savedFACILITY_COUNTS :: "(string \<times> json) list" where
  "savedFACILITY_COUNTS =
     fold (\<lambda>facility acc. AList.update (facility_id facility) (JNum 0) acc) FACILITIES []"

definition keyedObject :: "(ResourceKey \<Rightarrow> json) \<Rightarrow> json" where
  "keyedObject f = JObj (map (\<lambda>k. (key_name k, f k)) resource_keys)"

text \<open>
  The initial values of the cells, as the \<^verbatim>\<open>useState\<close> calls and \<^verbatim>\<open>handleNewGame\<close>
  give them. The three default log lines (\<^verbatim>\<open>localizedDefaults\<close>) depend on the language
  and are a parameter.
\<close>

definition initialCells :: "json list \<Rightarrow> SavedCells" where
  "initialCells defaultLog =
     \<lparr>sv_resources = INITIAL_RESOURCES, sv_tick = 0, sv_stageIndex = 0,
      sv_showTutorial = False, sv_showIntroDialogue = True, sv_introIndex = 0,
      sv_unlockedChapters = (if initialChapterId \<noteq> '''' then [JStr initialChapterId] else []),
      sv_activeChapterId = initialChapterId, sv_milestones = [], sv_completedPurchases = [],
      sv_purchaseCounts = JObj [], sv_civilizationLevel = 0,
      sv_manualCooldowns = keyedObject (\<lambda>k. JNum 0),
      sv_manualHarvestActive = keyedObject (\<lambda>k. JBool False),
      sv_log = defaultLog, sv_districts = savedDISTRICTS, sv_craftingRecipe = None,
      sv_craftingProgress = JNum 0, sv_equippedTools = JObj [],
      sv_facilityCounts = JObj savedFACILITY_COUNTS, sv_selectedFacilityId = None,
      sv_tenantRecruitCooldown = 0, sv_pendingTenants = 0, sv_tenantTimeout = 0,
      sv_assignedTenants = 0, sv_tenantMorale = JArr [], sv_autoPayWages = False,
      sv_lastPayDay = 0, sv_skills = JArr (map skillJson INITIAL_SKILLS),
      sv_resourceWorkers = (\<lambda>k. 0), sv_manuallyUnlockedResources = []\<rparr>"

subsection \<open>serializeState\<close>

text \<open>
  The document is the payload object after \<^verbatim>\<open>JSON.stringify\<close> and \<^verbatim>\<open>JSON.parse\<close>; on
  values of the type \<open>json\<close> the two cancel.
\<close>

definition resourceJson :: "Resource \<Rightarrow> json" where
  "resourceJson r =
     JObj [(''key'', JStr (key_name (key r))), (''amount'', JNum (amount r)),
           (''rate'', JNum (rate r)), (''capacity'', JNum (capacity r))]"

definition districtJson :: "SavedDistrict \<Rightarrow> json" where
  "districtJson d =
     JObj [(''id'', JStr (sd_id d)), (''progress'', JNum (sd_progress d)),
           (''stability'', JNum (sd_stability d)), (''buildingCount'', JNum (sd_buildingCount d))]"

fun languageName :: "Language \<Rightarrow> string" where
  "languageName EN = ''en''"
| "languageName ZH = ''zh''"

fun stringOrNullJson :: "string option \<Rightarrow> json" where
  "stringOrNullJson None = JNull"
| "stringOrNullJson (Some s) = JStr s"

definition serializeState :: "Language \<Rightarrow> SavedCells \<Rightarrow> json" where
  "serializeState lang c =
     JObj [(''version'', JNum 1),
           (''resources'', JArr (map resourceJson (sv_resources c))),
           (''tick'', JNum (sv_tick c)),
           (''stageIndex'', JNum (sv_stageIndex c)),
           (''showTutorial'', JBool (sv_showTutorial c)),
           (''showIntroDialogue'', JBool (sv_showIntroDialogue c)),
           (''introIndex'', JNum (sv_introIndex c)),
           (''unlockedChapters'', JArr (sv_unlockedChapters c)),
           (''activeChapterId'', JStr (sv_activeChapterId c)),
           (''milestones'', JArr (sv_milestones c)),
           (''completedPurchases'', JArr (sv_completedPurchases c)),
           (''purchaseCounts'', sv_purchaseCounts c),
           (''civilizationLevel'', JNum (sv_civilizationLevel c)),
           (''manualCooldowns'', sv_manualCooldowns c),
           (''manualHarvestActive'', sv_manualHarvestActive c),
           (''log'', JArr (sv_log c)),
           (''language'', JStr (languageName lang)),
           (''districts'', JArr (map districtJson (sv_districts c))),
           (''craftingRecipe'', stringOrNullJson (sv_craftingRecipe c)),
           (''craftingProgress'', sv_craftingProgress c),
           (''equippedTools'', sv_equippedTools c),
           (''facilityCounts'', sv_facilityCounts c),
           (''selectedFacilityId'', stringOrNullJson (sv_selectedFacilityId c)),
           (''tenantRecruitCooldown'', JNum (sv_tenantRecruitCooldown c)),
           (''pendingTenants'', JNum (sv_pendingTenants c)),
           (''tenantTimeout'', JNum (sv_tenantTimeout c)),
           (''assignedTenants'', JNum (sv_assignedTenants c)),
           (''tenantMorale'', sv_tenantMorale c),
           (''autoPayWages'', JBool (sv_autoPayWages c)),
           (''lastPayDay'', JNum (sv_lastPayDay c)),
           (''skills'', sv_skills c),
           (''resourceWorkers'', keyedObject (\<lambda>k. JNum (sv_resourceWorkers c k))),
           (''manuallyUnlockedResources'', JArr (sv_manuallyUnlockedResources c))]"

subsection \<open>deserializeState\<close>

text \<open>\<^verbatim>\<open>x && typeof x === "object" ? x : d\<close>\<close>

fun objectOr :: "json option \<Rightarrow> json \<Rightarrow> json" where
  "objectOr (Some (JArr xs)) d = JArr xs"
| "objectOr (Some (JObj kvs)) d = JObj kvs"
| "objectOr _ d = d"

text \<open>
  Entries are matched on their key, id or type; an entry found is an object, since it has
  the property it was found by.
\<close>

definition reconcileResource :: "json list \<Rightarrow> Resource \<Rightarrow> Resource" where
  "reconcileResource items resource =
     (case findByProp ''key'' (key_name (key resource)) items of
        None \<Rightarrow> resource
      | Some incoming \<Rightarrow>
          resource\<lparr>amount := numberOr (propOf incoming ''amount'') (amount resource),
                   rate := numberOr (propOf incoming ''rate'') (rate resource),
                   capacity := numberOr (propOf incoming ''capacity'') (capacity resource)\<rparr>)"

definition reconcileDistrict :: "json list \<Rightarrow> SavedDistrict \<Rightarrow> SavedDistrict" where
  "reconcileDistrict items district =
     (case findByProp ''id'' (sd_id district) items of
        None \<Rightarrow> district
      | Some incoming \<Rightarrow>
          district\<lparr>sd_buildingCount :=
                     numberOr (propOf incoming ''buildingCount'') (sd_buildingCount district),
                   sd_progress := numberOr (propOf incoming ''progress'') (sd_progress district),
                   sd_stability := numberOr (propOf incoming ''stability'') (sd_stability district)\<rparr>)"

definition reconcileSkill :: "json list \<Rightarrow> Skill \<Rightarrow> json" where
  "reconcileSkill items skill =
     (case findByProp ''type'' (skillName (skill_type skill)) items of
        None \<Rightarrow> skillJson skill
      | Some incoming \<Rightarrow>
          JObj [(''type'', JStr (skillName (skill_type skill))),
                (''level'',
                 JNum (whenNumber (propOf incoming ''level'') (min (of_int MAX_SKILL_LEVEL))
                         (of_int (level skill)))),
                (''experience'',
                 JNum (numberOr (propOf incoming ''experience'') (of_int (experience skill)))),
                (''maxLevel'', JNum (of_int (maxLevel skill)))])"

definition decodeResourceWorkers :: "json option \<Rightarrow> ResourceKey \<Rightarrow> rat" where
  "decodeResourceWorkers x =
     whenObject x (\<lambda>workers k. numberOr (propOf workers (key_name k)) 0) (\<lambda>k. 0)"

text \<open>
  The argument is the outcome of \<^verbatim>\<open>JSON.parse\<close>, \<open>None\<close> when it throws. Every
  exception is caught inside the function, which then leaves all cells as they were; a
  value that is not an object or an array is such a case.
\<close>

definition deserializeState :: "json list \<Rightarrow> json option \<Rightarrow> SavedCells \<Rightarrow> SavedCells" where
  "deserializeState defaultLog parsedOpt prev =
     (case parsedOpt of
        None \<Rightarrow> prev
      | Some parsed \<Rightarrow>
          if \<not> truthy (Some parsed) \<or> \<not> isObjectType (Some parsed) then prev
          else
            \<lparr>sv_resources =
               whenArray (propOf parsed ''resources'')
                 (\<lambda>items. map (reconcileResource items) INITIAL_RESOURCES) INITIAL_RESOURCES,
             sv_tick = numberOr (propOf parsed ''tick'') 0,
             sv_stageIndex = numberOr (propOf parsed ''stageIndex'') 0,
             sv_showTutorial = truthy (propOf parsed ''showTutorial''),
             sv_showIntroDialogue = truthy (propOf parsed ''showIntroDialogue''),
             sv_introIndex = numberOr (propOf parsed ''introIndex'') 0,
             sv_unlockedChapters = arrayOr (propOf parsed ''unlockedChapters'') [],
             sv_activeChapterId = stringOr (propOf parsed ''activeChapterId'') initialChapterId,
             sv_milestones = arrayOr (propOf parsed ''milestones'') [],
             sv_completedPurchases = arrayOr (propOf parsed ''completedPurchases'') [],
             sv_purchaseCounts = objectOr (propOf parsed ''purchaseCounts'') (JObj []),
             sv_civilizationLevel = numberOr (propOf parsed ''civilizationLevel'') 0,
             sv_manualCooldowns =
               objectOr (propOf parsed ''manualCooldowns'') (sv_manualCooldowns prev),
             sv_manualHarvestActive =
               objectOr (propOf parsed ''manualHarvestActive'')
                 (objectOr (propOf parsed ''manualHarvestPending'') (sv_manualHarvestActive prev)),
             sv_log =
               whenArray (propOf parsed ''log'') (take 6) defaultLog,
             sv_districts =
               whenArray (propOf parsed ''districts'')
                 (\<lambda>items. map (reconcileDistrict items) savedDISTRICTS) savedDISTRICTS,
             sv_craftingRecipe = stringOrNull (propOf parsed ''craftingRecipe''),
             sv_craftingProgress =
               (case propOf parsed ''craftingProgress'' of
                  None \<Rightarrow> sv_craftingProgress prev
                | Some v \<Rightarrow> v),
             sv_equippedTools = objectOr (propOf parsed ''equippedTools'') (sv_equippedTools prev),
             sv_facilityCounts =
               whenObject (propOf parsed ''facilityCounts'')
                 (\<lambda>counts. JObj (objSpread savedFACILITY_COUNTS counts)) (JObj savedFACILITY_COUNTS),
             sv_selectedFacilityId = stringOrNull (propOf parsed ''selectedFacilityId''),
             sv_tenantRecruitCooldown = numberOr (propOf parsed ''tenantRecruitCooldown'') 0,
             sv_pendingTenants = numberOr (propOf parsed ''pendingTenants'') 0,
             sv_tenantTimeout = numberOr (propOf parsed ''tenantTimeout'') 0,
             sv_assignedTenants = numberOr (propOf parsed ''assignedTenants'') 0,
             sv_tenantMorale = JArr (arrayOr (propOf parsed ''tenantMorale'') []),
             sv_autoPayWages = truthy (propOf parsed ''autoPayWages''),
             sv_lastPayDay = numberOr (propOf parsed ''lastPayDay'') 0,
             sv_skills =
               whenArray (propOf parsed ''skills'')
                 (\<lambda>items. JArr (map (reconcileSkill items) INITIAL_SKILLS))
                 (JArr (map skillJson INITIAL_SKILLS)),
             sv_resourceWorkers = decodeResourceWorkers (propOf parsed ''resourceWorkers''),
             sv_manuallyUnlockedResources =
               arrayOr (propOf parsed ''manuallyUnlockedResources'')
                 (sv_manuallyUnlockedResources prev)\<rparr>)"

subsection \<open>loadGame\<close>

text \<open>
  The decoder that the menu uses. Its argument is the outcome of fetching the save and
  parsing it, \<open>None\<close> when there is no save, the backend fails or the text does not
  parse. It returns whether the load succeeded, with the cells.
\<close>

definition reconcileDistrictLoad :: "json list \<Rightarrow> SavedDistrict \<Rightarrow> SavedDistrict" where
  "reconcileDistrictLoad items district =
     (case findByProp ''id'' (sd_id district) items of
        None \<Rightarrow> district
      | Some incoming \<Rightarrow>
          district\<lparr>sd_buildingCount := numberOr (propOf incoming ''buildingCount'') 0,
                   sd_progress := numberOr (propOf incoming ''progress'') 0,
                   sd_stability := numberOr (propOf incoming ''stability'') 0\<rparr>)"

definition loadGame :: "json list \<Rightarrow> json option \<Rightarrow> SavedCells \<Rightarrow> bool \<times> SavedCells" where
  "loadGame defaultLog parsedOpt prev =
     (case parsedOpt of
        None \<Rightarrow> (False, prev)
      | Some parsed \<Rightarrow>
          if \<not> truthy (Some parsed) \<or> \<not> isObjectType (Some parsed) then (False, prev)
          else
            (True,
             \<lparr>sv_resources =
                whenArray (propOf parsed ''resources'')
                 (\<lambda>items. map (reconcileResource items) INITIAL_RESOURCES) INITIAL_RESOURCES,
              sv_tick = numberOr (propOf parsed ''tick'') 0,
              sv_stageIndex = numberOr (propOf parsed ''stageIndex'') 0,
              sv_showTutorial = truthy (propOf parsed ''showTutorial''),
              sv_showIntroDialogue = truthy (propOf parsed ''showIntroDialogue''),
              sv_introIndex = numberOr (propOf parsed ''introIndex'') 0,
              sv_unlockedChapters = arrayOr (propOf parsed ''unlockedChapters'') [],
              sv_activeChapterId = stringOr (propOf parsed ''activeChapterId'') initialChapterId,
              sv_milestones = arrayOr (propOf parsed ''milestones'') [],
              sv_completedPurchases = arrayOr (propOf parsed ''completedPurchases'') [],
              sv_purchaseCounts = objectOr (propOf parsed ''purchaseCounts'') (JObj []),
              sv_civilizationLevel = numberOr (propOf parsed ''civilizationLevel'') 0,
              sv_manualCooldowns =
                objectOr (propOf parsed ''manualCooldowns'') (sv_manualCooldowns prev),
              sv_manualHarvestActive =
                objectOr (propOf parsed ''manualHarvestActive'') (sv_manualHarvestActive prev),
              sv_log =
                whenArray (propOf parsed ''log'') (take 6) defaultLog,
              sv_districts =
                whenArray (propOf parsed ''districts'')
                  (\<lambda>items. map (reconcileDistrictLoad items) savedDISTRICTS) savedDISTRICTS,
              sv_craftingRecipe = stringOrNull (propOf parsed ''craftingRecipe''),
              sv_craftingProgress =
                (case propOf parsed ''craftingProgress'' of
                   None \<Rightarrow> sv_craftingProgress prev
                 | Some v \<Rightarrow> JNum (numberOr (Some v) 0)),
              sv_equippedTools = objectOr (propOf parsed ''equippedTools'') (sv_equippedTools prev),
              sv_facilityCounts =
                objectOr (propOf parsed ''facilityCounts'') (sv_facilityCounts prev),
              sv_selectedFacilityId =
                (if isString (propOf parsed ''selectedFacilityId'')
                 then stringOrNull (propOf parsed ''selectedFacilityId'')
                 else sv_selectedFacilityId prev),
              sv_tenantRecruitCooldown =
                numberOr (propOf parsed ''tenantRecruitCooldown'') (sv_tenantRecruitCooldown prev),
              sv_pendingTenants = numberOr (propOf parsed ''pendingTenants'') (sv_pendingTenants prev),
              sv_tenantTimeout = numberOr (propOf parsed ''tenantTimeout'') (sv_tenantTimeout prev),
              sv_assignedTenants =
                numberOr (propOf parsed ''assignedTenants'') (sv_assignedTenants prev),
              sv_tenantMorale =
                whenNumber (propOf parsed ''tenantMorale'') JNum (sv_tenantMorale prev),
              sv_autoPayWages = booleanOr (propOf parsed ''autoPayWages'') (sv_autoPayWages prev),
              sv_lastPayDay = numberOr (propOf parsed ''lastPayDay'') (sv_lastPayDay prev),
              sv_skills =
                whenArray (propOf parsed ''skills'') JArr (JArr (map skillJson INITIAL_SKILLS)),
              sv_resourceWorkers = decodeResourceWorkers (propOf parsed ''resourceWorkers''),
              sv_manuallyUnlockedResources =
                arrayOr (propOf parsed ''manuallyUnlockedResources'')
                  (sv_manuallyUnlockedResources prev)\<rparr>))"

subsection \<open>Cells of a running session\<close>

text \<open>
  What holds of the cells in every session, as far as the round trip needs it: the
  resources, districts and skills are those of the catalogues, entry by entry, with their
  numbers changed; a skill level is at most 100; the log has at most six lines; the cells
  typed as records by the source hold objects and the morale cell holds an array; the
  facility counts have the two facilities of the catalogue as their keys.
\<close>

fun isSkillObject :: "Skill \<Rightarrow> json \<Rightarrow> bool" where
  "isSkillObject skill (JObj [(t, JStr ty), (l, JNum lv), (e, JNum ex), (m, JNum mx)]) =
     (t = ''type'' \<and> ty = skillName (skill_type skill) \<and> l = ''level'' \<and> lv \<le> of_int MAX_SKILL_LEVEL
      \<and> e = ''experience'' \<and> m = ''maxLevel'' \<and> mx = of_int (maxLevel skill))"
| "isSkillObject skill _ = False"

definition wellFormedCells :: "SavedCells \<Rightarrow> bool" where
  "wellFormedCells c \<longleftrightarrow>
     map key (sv_resources c) = map key INITIAL_RESOURCES
     \<and> map sd_id (sv_districts c) = map sd_id savedDISTRICTS
     \<and> (case sv_skills c of
          JArr items \<Rightarrow> list_all2 isSkillObject INITIAL_SKILLS items
        | _ \<Rightarrow> False)
     \<and> length (sv_log c) \<le> 6
     \<and> isTruthyObject (Some (sv_purchaseCounts c))
     \<and> isTruthyObject (Some (sv_manualCooldowns c))
     \<and> isTruthyObject (Some (sv_manualHarvestActive c))
     \<and> isTruthyObject (Some (sv_equippedTools c))
     \<and> isArray (Some (sv_tenantMorale c))
     \<and> (case sv_facilityCounts c of
          JObj counts \<Rightarrow> map fst counts = map fst savedFACILITY_COUNTS
        | _ \<Rightarrow> False)"

text \<open>
  The cells after decoding the empty object: what \<^verbatim>\<open>deserializeState\<close> gives a field that
  is absent. They are the initial values, except that the introductory dialogue is off,
  no chapter is unlocked, and five cells keep the value they had before the call.
\<close>

definition emptyDocumentCells :: "json list \<Rightarrow> SavedCells \<Rightarrow> SavedCells" where
  "emptyDocumentCells defaultLog prev =
     (initialCells defaultLog)
       \<lparr>sv_showIntroDialogue := False,
        sv_unlockedChapters := [],
        sv_manualCooldowns := sv_manualCooldowns prev,
        sv_manualHarvestActive := sv_manualHarvestActive prev,
        sv_craftingProgress := sv_craftingProgress prev,
        sv_equippedTools := sv_equippedTools prev,
        sv_manuallyUnlockedResources := sv_manuallyUnlockedResources prev\<rparr>"

text \<open>
  A cell falls back when decoding the document leaves in it the value that decoding the
  empty object would.
\<close>

definition cellFallsBack :: "(SavedCells \<Rightarrow> 'a) \<Rightarrow> json list \<Rightarrow> json \<Rightarrow> SavedCells \<Rightarrow> bool" where
  "cellFallsBack cell defaultLog doc prev \<longleftrightarrow>
     cell (deserializeState defaultLog (Some doc) prev) = cell (emptyDocumentCells defaultLog prev)"

section \<open>Example states\<close>

text \<open>A session with two cabins and a city hall, one tenant housed and five waiting.\<close>

definition tenantsWaiting :: GameState where
  "tenantsWaiting =
     (initialState EN)
       \<lparr>facilityCounts := [''cabin'' \<mapsto> 2, ''city-hall'' \<mapsto> 1],
        pendingTenants := 5, tenantTimeout := 77, assignedTenants := 1, tenantMorale := [90]\<rparr>"

text \<open>A session holding twelve timber, with and without a craft in progress.\<close>

definition timberStocked :: GameState where
  "timberStocked =
     (initialState EN)
       \<lparr>resources := map (\<lambda>r. if key r = Wood then r\<lparr>amount := 12\<rparr> else r) INITIAL_RESOURCES\<rparr>"

definition craftRunning :: GameState where
  "craftRunning = timberStocked\<lparr>craftingRecipe := Some ''wooden-saw'', craftingProgress := 3\<rparr>"

text \<open>A session with the wooden saw equipped, and one whose timber harvest is cooling down.\<close>

definition sawEquipped :: GameState where
  "sawEquipped = (initialState EN)\<lparr>equippedTools := [Saw \<mapsto> ''wooden-saw'']\<rparr>"

definition timberCooling :: GameState where
  "timberCooling = sawEquipped\<lparr>manualCooldowns := (\<lambda>k. if k = Wood then 7 else 0)\<rparr>"

text \<open>A session holding eighty sunleaf and fifteen timber, with only the first chapter unlocked.\<close>

definition harvestStocked :: GameState where
  "harvestStocked =
     (initialState EN)
       \<lparr>resources :=
          map (\<lambda>r. if key r = Sunleaf then r\<lparr>amount := 80, capacity := 100\<rparr>
                    else if key r = Wood then r\<lparr>amount := 15\<rparr> else r) INITIAL_RESOURCES\<rparr>"

text \<open>A new session in which twenty sunleaf have been gathered: the goal of stage 0.\<close>

definition goalReached :: GameState where
  "goalReached =
     (initialState EN)
       \<lparr>showIntroDialogue := False,
        resources := map (\<lambda>r. if key r = Sunleaf then r\<lparr>amount := 20\<rparr> else r)
                       INITIAL_RESOURCES\<rparr>"

text \<open>
  Day 3 of a session (tick 8) whose wages were last settled on day 2, without automatic
  payment: two tenants, both with morale 40, one working on sunleaf and one on timber.
\<close>

definition lowMorale :: GameState where
  "lowMorale =
     (initialState EN)
       \<lparr>showIntroDialogue := False, tick := 8, lastPayDay := 2, autoPayWages := False,
        assignedTenants := 2, tenantMorale := [40, 40],
        resourceWorkers := (\<lambda>k. if k = Sunleaf \<or> k = Wood then 1 else 0)\<rparr>"

text \<open>
  The cells of a session in play, and a hand-written partial document: the stage index is
  present, the tick and the tutorial flag have the wrong type, everything else is absent.
\<close>

definition cellsInPlay :: SavedCells where
  "cellsInPlay =
     (initialCells [JStr ''Manual Sunleaf harvest complete, gained +3.''])
       \<lparr>sv_resources := map (\<lambda>r. if key r = Sunleaf then r\<lparr>amount := 3\<rparr> else r) INITIAL_RESOURCES,
        sv_tick := 9, sv_showIntroDialogue := False, sv_showTutorial := True,
        sv_manualCooldowns := keyedObject (\<lambda>k. JNum (if k = Sunleaf then 17 else 0)),
        sv_manualHarvestActive := keyedObject (\<lambda>k. JBool (k = Sunleaf)),
        sv_craftingRecipe := Some ''wooden-saw'', sv_craftingProgress := JNum 4,
        sv_assignedTenants := 2, sv_tenantMorale := JArr [JNum 100, JNum 90]\<rparr>"

definition partialDocument :: json where
  "partialDocument =
     JObj [(''stageIndex'', JNum 2), (''tick'', JStr ''soon''), (''showTutorial'', JStr ''no'')]"




text \<open>
  A game as it was saved on the last tick of day 3 (tick 11): a cabin, a city hall, one
  tenant, wages settled for the day by the automatic payment, three sunleaf left. And
  the state after \<^verbatim>\<open>loadGame\<close> has loaded that save over a session of another game that
  was left, by \<^verbatim>\<open>handleSaveAndExit\<close>, with ten tenants of morale 40: every cell is that of
  the save, except the morale array, which is that of the session left.
\<close>

definition savedEarlier :: GameState where
  "savedEarlier =
     (initialState EN)
       \<lparr>showIntroDialogue := False, tick := 11, lastPayDay := 3, autoPayWages := True,
        resources := map (\<lambda>r. if key r = Sunleaf then r\<lparr>amount := 3\<rparr> else r) INITIAL_RESOURCES,
        facilityCounts := [''cabin'' \<mapsto> 1, ''city-hall'' \<mapsto> 1],
        assignedTenants := 1, tenantMorale := [100]\<rparr>"

definition loadedOverSession :: GameState where
  "loadedOverSession = savedEarlier\<lparr>tenantMorale := replicate 10 40\<rparr>"

text \<open>
  The loaded game on the first tick of day 4, after the wage effect of that render; after
  the attrition effect of the same render, every roll falling below one half; and after
  the wage effect of the render that follows.
\<close>

definition loadedNextDay :: GameState where
  "loadedNextDay = wagesEffect (phaseTimer loadedOverSession)"

definition loadedAfterAttrition :: GameState where
  "loadedAfterAttrition = attritionEffect (\<lambda>n. True) loadedNextDay"

definition loadedAfterWages :: GameState where
  "loadedAfterWages = wagesEffect loadedAfterAttrition"

text \<open>The cells of that save and of the session left, as the codec sees them.\<close>

definition savedEarlierCells :: SavedCells where
  "savedEarlierCells =
     (initialCells [])
       \<lparr>sv_resources := map (\<lambda>r. if key r = Sunleaf then r\<lparr>amount := 3\<rparr> else r) INITIAL_RESOURCES,
        sv_tick := 11, sv_showIntroDialogue := False,
        sv_facilityCounts := JObj [(''cabin'', JNum 1), (''city-hall'', JNum 1)],
        sv_assignedTenants := 1, sv_tenantMorale := JArr [JNum 100],
        sv_autoPayWages := True, sv_lastPayDay := 3\<rparr>"

definition sessionLeftCells :: SavedCells where
  "sessionLeftCells =
     (initialCells [])
       \<lparr>sv_tick := 57, sv_showIntroDialogue := False,
        sv_facilityCounts := JObj [(''cabin'', JNum 5), (''city-hall'', JNum 1)],
        sv_assignedTenants := 10, sv_tenantMorale := JArr (replicate 10 (JNum 40)),
        sv_lastPayDay := 15\<rparr>"

section \<open>Frame lemmas\<close>

lemma pushLog_fields [simp]:
  "resources (pushLog e st) = resources st"
  "unlockedChapters (pushLog e st) = unlockedChapters st"
  "assignedTenants (pushLog e st) = assignedTenants st"
  "tenantMorale (pushLog e st) = tenantMorale st"
  "pendingAllocation (pushLog e st) = pendingAllocation st"
  "manualCooldowns (pushLog e st) = manualCooldowns st"
  "manualHarvestActive (pushLog e st) = manualHarvestActive st"
  by (simp_all add: pushLog_def)

lemma fold_pushLog_fields [simp]:
  "resources (fold (\<lambda>x s. pushLog (f x) s) xs s0) = resources s0"
  "unlockedChapters (fold (\<lambda>x s. pushLog (f x) s) xs s0) = unlockedChapters s0"
  "assignedTenants (fold (\<lambda>x s. pushLog (f x) s) xs s0) = assignedTenants s0"
  "tenantMorale (fold (\<lambda>x s. pushLog (f x) s) xs s0) = tenantMorale s0"
  "pendingAllocation (fold (\<lambda>x s. pushLog (f x) s) xs s0) = pendingAllocation s0"
  "manualCooldowns (fold (\<lambda>x s. pushLog (f x) s) xs s0) = manualCooldowns s0"
  "manualHarvestActive (fold (\<lambda>x s. pushLog (f x) s) xs s0) = manualHarvestActive s0"
  by (induction xs arbitrary: s0) simp_all

lemma fold_runTimeout_fields [simp]:
  "resources (fold (\<lambda>(d, i) s. runTimeout i s) ts s0) = resources s0"
  "unlockedChapters (fold (\<lambda>(d, i) s. runTimeout i s) ts s0) = unlockedChapters s0"
  "assignedTenants (fold (\<lambda>(d, i) s. runTimeout i s) ts s0) = assignedTenants s0"
  "tenantMorale (fold (\<lambda>(d, i) s. runTimeout i s) ts s0) = tenantMorale s0"
  "pendingAllocation (fold (\<lambda>(d, i) s. runTimeout i s) ts s0) = pendingAllocation s0"
  "manualCooldowns (fold (\<lambda>(d, i) s. runTimeout i s) ts s0) = manualCooldowns s0"
  by (induction ts arbitrary: s0) (simp_all add: runTimeout_def split: prod.splits)

lemma payWages_fields [simp]:
  "assignedTenants (snd (handlePayWages st)) = assignedTenants st"
  "tenantMorale (snd (handlePayWages st)) = tenantMorale st"
  "pendingAllocation (snd (handlePayWages st)) = pendingAllocation st"
  "unlockedChapters (snd (handlePayWages st)) = unlockedChapters st"
  by (simp_all add: handlePayWages_def Let_def)

lemma key_in_resource_keys: "k \<in> set resource_keys"
  by (cases k) (simp_all add: resource_keys_def)

lemmas simple_op_defs =
  phaseTimer_def boostTickEffect_def phaseLogEffect_def
  handleUnlockResource_def handleManualHarvest_def gainSkillExperience_def cooldownInterval_def
  handleExpand_def handleDemolish_def handleStartCraft_def handleStartToolCraft_def
  handleBuildFacility_def handleRecruitTenants_def
  handleAssignWorker_def handleUnassignWorker_def
  recruitCooldownInterval_def tenantTimeoutInterval_def
  registerMilestone_def handleDismissTutorial_def
  stageAdvanceEffect_def elapse_def closeIntroDialogue_def

lemmas other_op_defs =
  productionEffect_def boostRateEffect_def craftingInterval_def handleAllocateCapacity_def
  handleAssignTenants_def wagesEffect_def attritionEffect_def handleAction_def

section \<open>The resource ledger stays within its bounds\<close>

lemma isIntegral_of_int [simp]: "isIntegral (of_int n)"
  by (simp add: isIntegral_def)

lemma isIntegral_E: "isIntegral x \<Longrightarrow> \<exists>n. x = of_int n"
  by (metis isIntegral_def)

lemma isIntegral_add: "isIntegral x \<Longrightarrow> isIntegral y \<Longrightarrow> isIntegral (x + y)"
  by (metis isIntegral_E isIntegral_of_int of_int_add)

lemma isIntegral_max0: "isIntegral x \<Longrightarrow> isIntegral (max 0 x)"
  by (simp add: max_def) (simp add: isIntegral_def)

lemma floor_rat_numeral:
  "\<lfloor>(numeral a :: rat) / numeral b\<rfloor> = numeral a div numeral b"
  "\<lfloor>(1 :: rat) / numeral b\<rfloor> = 1 div numeral b"
  by (metis floor_divide_of_int_eq of_int_numeral, metis floor_divide_of_int_eq of_int_numeral of_int_1)

text \<open>Rounding to one decimal does not leave an interval whose upper end is a whole number.\<close>

lemma toFixed1_bounds:
  assumes "0 \<le> x" and "x \<le> c" and "isIntegral c"
  shows "0 \<le> toFixed1 x \<and> toFixed1 x \<le> c"
proof -
  obtain n where c: "c = of_int n" using assms(3) isIntegral_E by blast
  have nonneg: "0 \<le> \<lfloor>x * 10 + 1 / 2\<rfloor>" using assms(1) by simp
  have "x * 10 + 1 / 2 < of_int (10 * n + 1)" using assms(2) c by simp
  then have "\<lfloor>x * 10 + 1 / 2\<rfloor> < 10 * n + 1" by (simp only: floor_less_iff)
  then have "\<lfloor>x * 10 + 1 / 2\<rfloor> \<le> 10 * n" by simp
  then have "(of_int \<lfloor>x * 10 + 1 / 2\<rfloor> :: rat) \<le> of_int (10 * n)" by (simp only: of_int_le_iff)
  then have up: "(of_int \<lfloor>x * 10 + 1 / 2\<rfloor> :: rat) / 10 \<le> of_int n" by simp
  show ?thesis using assms(1) nonneg up c by (simp add: toFixed1_def)
qed

lemma applyResourceDelta_ok:
  "list_all resourceOk rs \<Longrightarrow> list_all resourceOk (applyResourceDelta rs d)"
proof -
  assume a: "list_all resourceOk rs"
  have one: "resourceOk r \<Longrightarrow>
      resourceOk (r\<lparr>amount := toFixed1 (min (capacity r) (max 0 (amount r + ch)))\<rparr>)" for r ch
    using toFixed1_bounds[of "min (capacity r) (max 0 (amount r + ch))" "capacity r"]
    by (simp add: resourceOk_def)
  show ?thesis using a one
    by (auto simp: applyResourceDelta_def list_all_iff Let_def split: option.splits)
qed

lemma applyRateDelta_ok:
  "list_all resourceOk rs \<Longrightarrow> list_all resourceOk (applyRateDelta rs d)"
  by (auto simp: applyRateDelta_def list_all_iff resourceOk_def split: option.splits)

lemma applyCapacityDelta_ok:
  assumes "list_all resourceOk rs" and "\<forall>(k, c) \<in> set d. 0 \<le> c \<and> isIntegral c"
  shows "list_all resourceOk (applyCapacityDelta rs d)"
proof -
  have one: "resourceOk r \<Longrightarrow> map_of d (key r) = Some ch \<Longrightarrow>
      resourceOk (r\<lparr>capacity := max 0 (capacity r + ch)\<rparr>)" for r ch
  proof -
    assume r: "resourceOk r" and m: "map_of d (key r) = Some ch"
    from m have "(key r, ch) \<in> set d" by (rule map_of_SomeD)
    with assms(2) have ch: "0 \<le> ch" "isIntegral ch" by auto
    show ?thesis using r ch isIntegral_max0[OF isIntegral_add[of "capacity r" ch]]
      by (simp add: resourceOk_def)
  qed
  show ?thesis using assms(1) one
    by (auto simp: applyCapacityDelta_def list_all_iff split: option.splits)
qed

lemma produce_ok: "resourceOk r \<Longrightarrow> resourceOk (produce st r)"
  by (simp add: produce_def resourceOk_def Let_def)

lemma attritionFilter_length:
  "length (fst (attritionFilter rolls n i ms)) + length (snd (attritionFilter rolls n i ms))
     = length ms"
  by (induction ms arbitrary: n i) simp_all

lemma find_RECIPES_boost:
  "find P RECIPES = Some recipe
     \<Longrightarrow> 0 \<le> capacityBoost recipe \<and> isIntegral (capacityBoost recipe)"
  by (auto simp: RECIPES_def isIntegral_def split: if_splits)

lemma ACTIONS_capacityDelta:
  "action \<in> set ACTIONS \<Longrightarrow> capacityDelta action = Some cd
     \<Longrightarrow> \<forall>(k, c) \<in> set cd. 0 \<le> c \<and> isIntegral c"
  by (auto simp: ACTIONS_def isIntegral_def)

lemma key_produce [simp]: "key (produce st r) = key r"
  by (simp add: produce_def Let_def)

lemma keys_preserved [simp]:
  "map key (applyResourceDelta rs d) = map key rs"
  "map key (applyRateDelta rs d) = map key rs"
  "map key (applyCapacityDelta rs d) = map key rs"
  by (auto simp: applyResourceDelta_def applyRateDelta_def applyCapacityDelta_def Let_def
      split: option.splits)

lemma key_if_upd:
  "key (if c then r\<lparr>amount := a\<rparr> else r) = key r"
  "key (if c then r\<lparr>capacity := b\<rparr> else r) = key r"
  by simp_all

lemmas key_simps = comp_def key_if_upd

lemma find_key_unique:
  "distinct (map key rs) \<Longrightarrow> find (\<lambda>r. key r = k) rs = Some s \<Longrightarrow> r \<in> set rs \<Longrightarrow> key r = k
     \<Longrightarrow> r = s"
  by (induction rs) (auto split: if_splits)

lemma payWages_ok:
  assumes "list_all resourceOk rs" and "distinct (map key rs)" and "0 \<le> w"
    and "find (\<lambda>r. key r = Sunleaf) rs = Some s" and "\<not> amount s < w"
  shows "list_all resourceOk
           (map (\<lambda>r. if key r = Sunleaf then r\<lparr>amount := amount r - w\<rparr> else r) rs)"
proof -
  have "resourceOk (r\<lparr>amount := amount r - w\<rparr>)" if "r \<in> set rs" "key r = Sunleaf" for r
  proof -
    have "r = s" using find_key_unique[OF assms(2) assms(4) that] .
    moreover have "resourceOk r" using assms(1) that(1) by (simp add: list_all_iff)
    ultimately show ?thesis using assms(3,5) by (simp add: resourceOk_def)
  qed
  then show ?thesis using assms(1) by (auto simp: list_all_iff)
qed

lemma payWages_resources:
  "list_all resourceOk (resources st) \<Longrightarrow> distinct (map key (resources st))
   \<Longrightarrow> 0 \<le> assignedTenants st
   \<Longrightarrow> list_all resourceOk (resources (snd (handlePayWages st)))
       \<and> distinct (map key (resources (snd (handlePayWages st))))"
proof -
  assume rs: "list_all resourceOk (resources st)" and d: "distinct (map key (resources st))"
    and t: "0 \<le> assignedTenants st"
  let ?w = "rat_of_int (assignedTenants st * WAGE_PER_TENANT_PER_DAY)"
  from t have w: "0 \<le> ?w" by (simp add: WAGE_PER_TENANT_PER_DAY_def)
  show ?thesis
  proof (cases "find (\<lambda>r. key r = Sunleaf) (resources st)")
    case None
    then show ?thesis using rs d by (simp add: handlePayWages_def Let_def)
  next
    case (Some s)
    show ?thesis
    proof (cases "amount s < ?w")
      case True
      then show ?thesis using rs d Some by (simp add: handlePayWages_def Let_def)
    next
      case False
      from Some False payWages_ok[OF rs d w Some False] d show ?thesis
        by (simp add: handlePayWages_def Let_def key_simps)
    qed
  qed
qed

lemma payWages_inv: "sessionInv st \<Longrightarrow> sessionInv (snd (handlePayWages st))"
  using payWages_resources[of st] by (simp add: sessionInv_def)

lemma allocate_inv: "sessionInv st \<Longrightarrow> sessionInv (handleAllocateCapacity k st)"
proof -
  assume inv: "sessionInv st"
  have one: "resourceOk r \<Longrightarrow> 0 \<le> b \<Longrightarrow> isIntegral b
      \<Longrightarrow> resourceOk (r\<lparr>capacity := capacity r + b\<rparr>)" for r b
    by (simp add: resourceOk_def isIntegral_add)
  show ?thesis using inv one
    by (auto simp: handleAllocateCapacity_def sessionInv_def list_all_iff key_simps
        split: option.splits)
qed

lemma production_inv: "sessionInv st \<Longrightarrow> sessionInv (productionEffect st)"
  using produce_ok by (auto simp: productionEffect_def sessionInv_def list_all_iff key_simps)

lemma boostRate_inv: "sessionInv st \<Longrightarrow> sessionInv (boostRateEffect st)"
  by (auto simp: boostRateEffect_def sessionInv_def list_all_iff resourceOk_def Let_def key_simps)

lemma crafting_inv: "sessionInv st \<Longrightarrow> sessionInv (craftingInterval st)"
  using find_RECIPES_boost
  by (auto simp: craftingInterval_def sessionInv_def pushLog_def split: option.splits)

lemma wages_inv: "sessionInv st \<Longrightarrow> sessionInv (wagesEffect st)"
  using payWages_inv[of st]
  by (auto simp: wagesEffect_def Let_def sessionInv_def)

lemma attrition_inv: "sessionInv st \<Longrightarrow> sessionInv (attritionEffect rolls st)"
  using attritionFilter_length[of rolls 0 0 "tenantMorale st"]
  by (auto simp: attritionEffect_def Let_def sessionInv_def)

lemma assign_inv: "sessionInv st \<Longrightarrow> sessionInv (handleAssignTenants st)"
  by (auto simp: handleAssignTenants_def Let_def sessionInv_def)

lemma action_inv:
  "action \<in> set ACTIONS \<Longrightarrow> sessionInv st \<Longrightarrow> sessionInv (handleAction action st)"
  using ACTIONS_capacityDelta[of action]
  by (auto simp: handleAction_def Let_def sessionInv_def
      intro!: applyResourceDelta_ok applyRateDelta_ok applyCapacityDelta_ok split: option.splits)

lemma step_inv: "step st st' \<Longrightarrow> sessionInv st \<Longrightarrow> sessionInv st'"
proof (induction rule: step.induct)
  case (step_production st) then show ?case by (rule production_inv)
next
  case (step_boostRate st) then show ?case by (rule boostRate_inv)
next
  case (step_crafting st) then show ?case by (rule crafting_inv)
next
  case (step_allocate st k) then show ?case by (rule allocate_inv)
next
  case (step_assignTenants st) then show ?case by (rule assign_inv)
next
  case (step_payWages st) then show ?case by (rule payWages_inv)
next
  case (step_wages st) then show ?case by (rule wages_inv)
next
  case (step_attrition st rolls) then show ?case by (rule attrition_inv)
next
  case (step_action action st) then show ?case by (rule action_inv)
qed (auto simp: simple_op_defs chapterUnlockEffect_def sessionInv_def Let_def
      intro!: applyResourceDelta_ok applyRateDelta_ok split: option.splits)

lemma steps_inv: "step\<^sup>*\<^sup>* st0 st \<Longrightarrow> sessionInv st0 \<Longrightarrow> sessionInv st"
  by (induction rule: rtranclp_induct) (auto intro: step_inv)

text \<open>
  In a session that starts from a well-formed state, as a new game does, and goes on by
  ticks, effects and player actions, each resource's amount is at least zero and at most
  its capacity. A well-formed state has one morale entry for each assigned tenant;
  loading a save is not among the steps.
\<close>

lemma amounts_within_capacity:
  assumes "sessionInv st0" and "step\<^sup>*\<^sup>* st0 st"
  shows "\<forall>r \<in> set (resources st). 0 \<le> amount r \<and> amount r \<le> capacity r"
  using steps_inv[OF assms(2) assms(1)]
  by (simp add: sessionInv_def list_all_iff resourceOk_def)

lemma new_game_well_formed: "sessionInv (initialState lang)"
  by (simp add: sessionInv_def initialState_def INITIAL_RESOURCES_def resourceOk_def
      isIntegral_def)

section \<open>Crafting\<close>

lemma craftingInterval_resources: "resources (craftingInterval st) = resources st"
  by (simp add: craftingInterval_def split: option.splits)

lemma craftingInterval_funpow_resources:
  "resources ((craftingInterval ^^ n) st) = resources st"
  by (induction n) (simp_all add: craftingInterval_resources)

text \<open>
  Claim C5. While a craft is in progress, starting an item craft or a tool craft returns
  the state unchanged. A craft that starts (recipe found, affordable, no craft in
  progress) occupies the slot and applies the cost to the ledger once; the resources are
  the same after any number of seconds of crafting, completion included.
\<close>

theorem C5_craft_cost_once:
  "(craftInProgress st \<longrightarrow> handleStartCraft rid st = st \<and> handleStartToolCraft rid st = st)
   \<and> (\<forall>recipe. \<not> craftInProgress st \<and> find (\<lambda>r. recipe_id r = rid) RECIPES = Some recipe
          \<and> canAffordRecipe st recipe \<longrightarrow>
        craftingRecipe (handleStartCraft rid st) = Some rid
        \<and> resources (handleStartCraft rid st) = applyResourceDelta (resources st) (recipe_cost recipe)
        \<and> (\<forall>n. resources ((craftingInterval ^^ n) (handleStartCraft rid st))
                = applyResourceDelta (resources st) (recipe_cost recipe)))
   \<and> (\<forall>tool. \<not> craftInProgress st \<and> find (\<lambda>r. tool_id r = rid) TOOL_RECIPES = Some tool
          \<and> canAffordToolRecipe st tool \<longrightarrow>
        craftingRecipe (handleStartToolCraft rid st) = Some rid
        \<and> resources (handleStartToolCraft rid st) = applyResourceDelta (resources st) (tool_cost tool)
        \<and> (\<forall>n. resources ((craftingInterval ^^ n) (handleStartToolCraft rid st))
                = applyResourceDelta (resources st) (tool_cost tool)))"
  by (simp add: handleStartCraft_def handleStartToolCraft_def craftingInterval_funpow_resources
      pushLog_def split: option.splits)

theorem C5_craft_cost_once_witness:
  "craftInProgress craftRunning
   \<and> handleStartCraft ''storage-chest'' craftRunning = craftRunning
   \<and> handleStartToolCraft ''storage-chest'' craftRunning = craftRunning
   \<and> \<not> craftInProgress timberStocked
   \<and> find (\<lambda>r. recipe_id r = ''storage-chest'') RECIPES = Some (hd RECIPES)
   \<and> canAffordRecipe timberStocked (hd RECIPES)
   \<and> map amount (resources (handleStartCraft ''storage-chest'' timberStocked)) = [0, 2, 0, 0, 0, 0]
   \<and> map amount (resources ((craftingInterval ^^ 60) (handleStartCraft ''storage-chest'' timberStocked)))
       = [0, 2, 0, 0, 0, 0]
   \<and> find (\<lambda>r. tool_id r = ''wooden-saw'') TOOL_RECIPES = Some (hd TOOL_RECIPES)
   \<and> canAffordToolRecipe timberStocked (hd TOOL_RECIPES)
   \<and> map amount (resources ((craftingInterval ^^ 30) (handleStartToolCraft ''wooden-saw'' timberStocked)))
       = [0, 7, 0, 0, 0, 0]"
proof -
  have a: "craftInProgress craftRunning"
    by (simp add: craftInProgress_def craftRunning_def)
  have b: "\<not> craftInProgress timberStocked"
    by (simp add: craftInProgress_def timberStocked_def initialState_def)
  have c: "find (\<lambda>r. recipe_id r = ''storage-chest'') RECIPES = Some (hd RECIPES)"
    by (simp add: RECIPES_def)
  have d: "canAffordRecipe timberStocked (hd RECIPES)"
    by (simp add: canAffordRecipe_def canAffordCost_def timberStocked_def RECIPES_def
        INITIAL_RESOURCES_def initialState_def)
  have e: "applyResourceDelta (resources timberStocked) (recipe_cost (hd RECIPES))
             = map (\<lambda>r. if key r = Wood then r\<lparr>amount := 2\<rparr> else r) INITIAL_RESOURCES"
    by (simp add: applyResourceDelta_def timberStocked_def RECIPES_def INITIAL_RESOURCES_def
        initialState_def toFixed1_def floor_rat_numeral)
  have f: "find (\<lambda>r. tool_id r = ''wooden-saw'') TOOL_RECIPES = Some (hd TOOL_RECIPES)"
    by (simp add: TOOL_RECIPES_def mk_tool_def)
  have g: "canAffordToolRecipe timberStocked (hd TOOL_RECIPES)"
    by (simp add: canAffordToolRecipe_def canAffordCost_def timberStocked_def TOOL_RECIPES_def
        mk_tool_def INITIAL_RESOURCES_def initialState_def)
  have h: "applyResourceDelta (resources timberStocked) (tool_cost (hd TOOL_RECIPES))
             = map (\<lambda>r. if key r = Wood then r\<lparr>amount := 7\<rparr> else r) INITIAL_RESOURCES"
    by (simp add: applyResourceDelta_def timberStocked_def TOOL_RECIPES_def mk_tool_def
        INITIAL_RESOURCES_def initialState_def toFixed1_def floor_rat_numeral)
  from C5_craft_cost_once[of craftRunning "''storage-chest''"]
       C5_craft_cost_once[of timberStocked "''storage-chest''"]
       C5_craft_cost_once[of timberStocked "''wooden-saw''"]
       a b c d e f g h
  show ?thesis by (simp add: INITIAL_RESOURCES_def)
qed

section \<open>Manual harvest\<close>

lemma gainSkill_fields [simp]:
  "manualCooldowns (gainSkillExperience t st) = manualCooldowns st"
  "manualHarvestActive (gainSkillExperience t st) = manualHarvestActive st"
  "resources (gainSkillExperience t st) = resources st"
  by (simp_all add: gainSkillExperience_def)

lemma harvest_rejected: "0 < manualCooldowns st k \<Longrightarrow> handleManualHarvest k st = st"
  by (simp add: handleManualHarvest_def)

lemma harvest_cooldowns:
  "manualCooldowns st k \<le> 0 \<Longrightarrow>
     manualCooldowns (handleManualHarvest k st) = (manualCooldowns st)(k := harvestCooldown st k)
     \<and> manualHarvestActive (handleManualHarvest k st) = (manualHarvestActive st)(k := True)"
  by (simp add: handleManualHarvest_def Let_def harvestCooldown_def split: option.splits)

lemma cooldownInterval_active:
  assumes "manualHarvestActive st k"
  shows "manualCooldowns (cooldownInterval st) k = max 0 (manualCooldowns st k - 1)
         \<and> (manualHarvestActive (cooldownInterval st) k \<longleftrightarrow> 1 < manualCooldowns st k)"
proof -
  have mem: "k \<in> set (filter (manualHarvestActive st) resource_keys)"
    using assms key_in_resource_keys by simp
  then have ne: "filter (manualHarvestActive st) resource_keys \<noteq> []"
    by (metis empty_iff empty_set)
  show ?thesis
    using ne mem assms unfolding cooldownInterval_def Let_def by auto
qed

lemma cooldown_window:
  assumes "manualHarvestActive st k" and "manualCooldowns st k = int N"
  shows "n \<le> N \<Longrightarrow> manualCooldowns ((cooldownInterval ^^ n) st) k = int N - int n
          \<and> (n < N \<longrightarrow> manualHarvestActive ((cooldownInterval ^^ n) st) k)"
proof (induction n)
  case 0
  then show ?case using assms by simp
next
  case (Suc n)
  then have ih: "manualCooldowns ((cooldownInterval ^^ n) st) k = int N - int n"
    and act: "manualHarvestActive ((cooldownInterval ^^ n) st) k" by auto
  from cooldownInterval_active[OF act] ih Suc.prems show ?case by auto
qed

text \<open>
  Claim C6. A cooldown is a count of seconds that is never negative. While the cooldown
  of a resource is not zero, a manual harvest of that resource returns the state
  unchanged. A harvest at cooldown zero sets the cooldown of that resource, and of no
  other, to max(5, 30 - cooldownReduction of the tool equipped for the resource) and
  marks it active; during that many seconds of countdown every further harvest of the
  resource is rejected, and at the end of them the cooldown is zero again.
\<close>

theorem C6_harvest_cooldown:
  "harvestCooldown st k = max 5 (30 - snd (getEquippedToolBonus st k))
   \<and> (0 \<le> manualCooldowns st k \<and> manualCooldowns st k \<noteq> 0 \<longrightarrow> handleManualHarvest k st = st)
   \<and> (manualCooldowns st k = 0 \<longrightarrow>
        manualCooldowns (handleManualHarvest k st) k = harvestCooldown st k
        \<and> manualHarvestActive (handleManualHarvest k st) k
        \<and> (\<forall>k'. k' \<noteq> k \<longrightarrow>
               manualCooldowns (handleManualHarvest k st) k' = manualCooldowns st k')
        \<and> (\<forall>n. int n < harvestCooldown st k \<longrightarrow>
               handleManualHarvest k ((cooldownInterval ^^ n) (handleManualHarvest k st))
                 = (cooldownInterval ^^ n) (handleManualHarvest k st))
        \<and> manualCooldowns
             ((cooldownInterval ^^ nat (harvestCooldown st k)) (handleManualHarvest k st)) k = 0)"
proof (intro conjI impI allI)
  show "harvestCooldown st k = max 5 (30 - snd (getEquippedToolBonus st k))"
    by (simp add: harvestCooldown_def MANUAL_HARVEST_COOLDOWN_SECONDS_def)
next
  assume "0 \<le> manualCooldowns st k \<and> manualCooldowns st k \<noteq> 0"
  then show "handleManualHarvest k st = st" by (simp add: harvest_rejected)
next
  assume z: "manualCooldowns st k = 0"
  let ?st' = "handleManualHarvest k st"
  from z harvest_cooldowns[of st k]
  have cd: "manualCooldowns ?st' = (manualCooldowns st)(k := harvestCooldown st k)"
    and act: "manualHarvestActive ?st' = (manualHarvestActive st)(k := True)" by simp_all
  show "manualCooldowns ?st' k = harvestCooldown st k" using cd by simp
  show a: "manualHarvestActive ?st' k" using act by simp
  have pos: "0 \<le> harvestCooldown st k" by (simp add: harvestCooldown_def)
  have w: "manualCooldowns ?st' k = int (nat (harvestCooldown st k))" using cd pos by simp
  show "manualCooldowns ((cooldownInterval ^^ nat (harvestCooldown st k)) ?st') k = 0"
    using cooldown_window[OF a w, of "nat (harvestCooldown st k)"] by simp
  { fix n assume n: "int n < harvestCooldown st k"
    then have "n \<le> nat (harvestCooldown st k)" by simp
    from cooldown_window[OF a w this] n
    have "0 < manualCooldowns ((cooldownInterval ^^ n) ?st') k" by simp
    then show "handleManualHarvest k ((cooldownInterval ^^ n) ?st') = (cooldownInterval ^^ n) ?st'"
      by (rule harvest_rejected) }
  { fix k' assume "k' \<noteq> k"
    then show "manualCooldowns ?st' k' = manualCooldowns st k'" using cd by simp }
qed

theorem C6_harvest_cooldown_witness:
  "0 \<le> manualCooldowns timberCooling Wood \<and> manualCooldowns timberCooling Wood \<noteq> 0
   \<and> handleManualHarvest Wood timberCooling = timberCooling
   \<and> manualCooldowns sawEquipped Wood = 0
   \<and> manualCooldowns (handleManualHarvest Wood sawEquipped) Wood = 25
   \<and> manualCooldowns (handleManualHarvest Wood sawEquipped) Stone = 0
   \<and> handleManualHarvest Wood ((cooldownInterval ^^ 24) (handleManualHarvest Wood sawEquipped))
       = (cooldownInterval ^^ 24) (handleManualHarvest Wood sawEquipped)
   \<and> manualCooldowns ((cooldownInterval ^^ 25) (handleManualHarvest Wood sawEquipped)) Wood = 0"
proof -
  have a: "manualCooldowns timberCooling Wood = 7"
    by (simp add: timberCooling_def)
  have b: "manualCooldowns sawEquipped Wood = 0" "manualCooldowns sawEquipped Stone = 0"
    by (simp_all add: sawEquipped_def initialState_def)
  have c: "snd (getEquippedToolBonus sawEquipped Wood) = 5"
    by (simp add: getEquippedToolBonus_def sawEquipped_def TOOL_RECIPES_def mk_tool_def)
  have d: "harvestCooldown sawEquipped Wood = 25"
    using C6_harvest_cooldown[of sawEquipped Wood] c by simp
  from C6_harvest_cooldown[of sawEquipped Wood] b
  have e: "\<forall>n. int n < harvestCooldown sawEquipped Wood \<longrightarrow>
             handleManualHarvest Wood ((cooldownInterval ^^ n) (handleManualHarvest Wood sawEquipped))
               = (cooldownInterval ^^ n) (handleManualHarvest Wood sawEquipped)"
    by blast
  have f: "handleManualHarvest Wood ((cooldownInterval ^^ 24) (handleManualHarvest Wood sawEquipped))
             = (cooldownInterval ^^ 24) (handleManualHarvest Wood sawEquipped)"
    using e[rule_format, of 24] d by simp
  from C6_harvest_cooldown[of timberCooling Wood] C6_harvest_cooldown[of sawEquipped Wood] a b d f
  show ?thesis by simp
qed

section \<open>Story chapters\<close>

lemma isTriggerMet_cong:
  "stageIndex a = stageIndex b \<Longrightarrow> resources a = resources b \<Longrightarrow> milestones a = milestones b
   \<Longrightarrow> completedPurchases a = completedPurchases b \<Longrightarrow> isTriggerMet a t = isTriggerMet b t"
  by (cases t) simp_all

lemma newlyUnlocked_after: "newlyUnlocked (chapterUnlockEffect st) = []"
proof (cases "STORY_CHAPTERS = [] \<or> newlyUnlocked st = []")
  case True
  then show ?thesis by (auto simp: chapterUnlockEffect_def newlyUnlocked_def)
next
  case False
  let ?st' = "chapterUnlockEffect st"
  have tr: "isTriggerMet ?st' t = isTriggerMet st t" for t
    by (rule isTriggerMet_cong) (simp_all add: chapterUnlockEffect_def pushLog_def Let_def)
  have un: "unlockedChapters ?st' = unlockedChapters st @ map chapter_id (newlyUnlocked st)"
    using False by (simp add: chapterUnlockEffect_def Let_def)
  show ?thesis
    unfolding newlyUnlocked_def[of ?st'] tr un
    by (auto simp: filter_empty_conv newlyUnlocked_def)
qed

lemma chapterUnlock_idem: "chapterUnlockEffect (chapterUnlockEffect st) = chapterUnlockEffect st"
  using newlyUnlocked_after[of st] by (simp add: chapterUnlockEffect_def[of "chapterUnlockEffect st"])

lemma step_unlocked:
  "step st st' \<Longrightarrow> unlockedChapters st' = unlockedChapters st
     \<or> unlockedChapters st' = unlockedChapters st @ map chapter_id (newlyUnlocked st)"
  by (induction rule: step.induct)
     (simp_all add: simple_op_defs other_op_defs chapterUnlockEffect_def Let_def
        split: option.splits prod.splits)

lemma steps_unlocked:
  "step\<^sup>*\<^sup>* st st' \<Longrightarrow> set (unlockedChapters st) \<subseteq> set (unlockedChapters st')"
proof (induction rule: rtranclp_induct)
  case base
  then show ?case by simp
next
  case (step y z)
  from step_unlocked[OF step.hyps(2)] step.IH show ?case by auto
qed

text \<open>
  Claim C7. One run of the chapter effect appends to unlockedChapters, in the order of the
  catalogue, the ids of all chapters that are not yet unlocked and whose trigger is met;
  when there are any, the last of them becomes the active chapter. Running the effect
  again changes nothing, and no step of the session removes an unlocked chapter.
\<close>

theorem C7_chapters_unlock_in_batch:
  "unlockedChapters (chapterUnlockEffect st)
     = unlockedChapters st
       @ map chapter_id
           (filter (\<lambda>chapter. chapter_id chapter \<notin> set (unlockedChapters st)
                               \<and> isTriggerMet st (trigger chapter)) STORY_CHAPTERS)
   \<and> (newlyUnlocked st \<noteq> [] \<longrightarrow>
        activeChapterId (chapterUnlockEffect st) = chapter_id (last (newlyUnlocked st)))
   \<and> chapterUnlockEffect (chapterUnlockEffect st) = chapterUnlockEffect st
   \<and> (\<forall>st'. step\<^sup>*\<^sup>* st st' \<longrightarrow> set (unlockedChapters st) \<subseteq> set (unlockedChapters st'))"
proof (intro conjI impI allI)
  show "unlockedChapters (chapterUnlockEffect st)
     = unlockedChapters st
       @ map chapter_id
           (filter (\<lambda>chapter. chapter_id chapter \<notin> set (unlockedChapters st)
                               \<and> isTriggerMet st (trigger chapter)) STORY_CHAPTERS)"
    by (simp add: chapterUnlockEffect_def newlyUnlocked_def Let_def)
  show "activeChapterId (chapterUnlockEffect st) = chapter_id (last (newlyUnlocked st))"
    if "newlyUnlocked st \<noteq> []"
    using that by (auto simp: chapterUnlockEffect_def newlyUnlocked_def pushLog_def Let_def)
  show "chapterUnlockEffect (chapterUnlockEffect st) = chapterUnlockEffect st"
    by (rule chapterUnlock_idem)
  show "set (unlockedChapters st) \<subseteq> set (unlockedChapters st')" if "step\<^sup>*\<^sup>* st st'" for st'
    using that by (rule steps_unlocked)
qed

theorem C7_chapters_unlock_in_batch_witness:
  "map chapter_id (newlyUnlocked harvestStocked) = [''chapter-2'', ''chapter-3'']
   \<and> unlockedChapters (chapterUnlockEffect harvestStocked)
       = [''chapter-1'', ''chapter-2'', ''chapter-3'']
   \<and> activeChapterId (chapterUnlockEffect harvestStocked) = ''chapter-3''
   \<and> step\<^sup>*\<^sup>* harvestStocked (handleManualHarvest Stone (chapterUnlockEffect harvestStocked))
   \<and> set [''chapter-1'']
       \<subseteq> set (unlockedChapters (handleManualHarvest Stone (chapterUnlockEffect harvestStocked)))"
proof -
  have a: "newlyUnlocked harvestStocked
             = [mk_chapter ''chapter-2'' 2 ''First Inspection'' (ResourceTrigger ''sunleaf'' 80),
                mk_chapter ''chapter-3'' 3 ''Market Errand'' (ResourceTrigger ''wood'' 15)]"
    by (simp add: newlyUnlocked_def harvestStocked_def STORY_CHAPTERS_def mk_chapter_def
        initialState_def initialChapterId_def INITIAL_RESOURCES_def)
  have b: "unlockedChapters harvestStocked = [''chapter-1'']"
    by (simp add: harvestStocked_def initialState_def initialChapterId_def STORY_CHAPTERS_def
        mk_chapter_def)
  have run: "step\<^sup>*\<^sup>* harvestStocked (handleManualHarvest Stone (chapterUnlockEffect harvestStocked))"
    by (meson rtranclp.rtrancl_into_rtrancl rtranclp.rtrancl_refl step_chapterUnlock
        step_manualHarvest)
  from C7_chapters_unlock_in_batch[of harvestStocked] a b run
  show ?thesis by (simp add: mk_chapter_def newlyUnlocked_def)
qed

section \<open>Tenant assignment\<close>

text \<open>
  Claim C8. With tenants pending and housing available, the assignment moves
  min(pendingTenants, availableHousing) tenants from pending to assigned, appends that
  many morale entries of 100, and sets tenantTimeout to 0, whether or not tenants remain
  pending.
\<close>

theorem C8_assign_tenants:
  assumes "pendingTenants st > 0" and "availableHousing st > 0"
  shows "pendingTenants (handleAssignTenants st)
           = pendingTenants st - min (pendingTenants st) (availableHousing st)
       \<and> assignedTenants (handleAssignTenants st)
           = assignedTenants st + min (pendingTenants st) (availableHousing st)
       \<and> tenantMorale (handleAssignTenants st)
           = tenantMorale st @ replicate (nat (min (pendingTenants st) (availableHousing st))) 100
       \<and> tenantTimeout (handleAssignTenants st) = 0"
  using assms by (simp add: handleAssignTenants_def pushLog_def Let_def)

theorem C8_assign_tenants_witness:
  "pendingTenants tenantsWaiting > 0 \<and> availableHousing tenantsWaiting = 3
   \<and> pendingTenants (handleAssignTenants tenantsWaiting) = 2
   \<and> assignedTenants (handleAssignTenants tenantsWaiting) = 4
   \<and> tenantMorale (handleAssignTenants tenantsWaiting) = [90, 100, 100, 100]
   \<and> tenantTimeout tenantsWaiting = 77
   \<and> tenantTimeout (handleAssignTenants tenantsWaiting) = 0"
proof -
  have a: "pendingTenants tenantsWaiting = 5" "assignedTenants tenantsWaiting = 1"
    "tenantMorale tenantsWaiting = [90]" "tenantTimeout tenantsWaiting = 77"
    by (simp_all add: tenantsWaiting_def)
  have b: "availableHousing tenantsWaiting = 3"
    by (simp add: tenantsWaiting_def availableHousing_def totalHousingCapacity_def FACILITIES_def
        facilityCount_def initialState_def)
  from C8_assign_tenants[of tenantsWaiting] a b
  show ?thesis by (simp add: numeral_eq_Suc)
qed

section \<open>Per-tick production\<close>

lemma mapVal_step:
  "mapVal (if boost = 0 then m
           else m(k' \<mapsto> (case m k' of None \<Rightarrow> 0 | Some r \<Rightarrow> r) + boost * c)) k
     = mapVal m k + (if k' = k then boost * c else 0)"
  by (auto simp: mapVal_def split: option.splits)

lemma passive_inner:
  "mapVal (fold (\<lambda>(k', boost) rates.
                  if boost = 0 then rates
                  else rates(k' \<mapsto> (case rates k' of None \<Rightarrow> 0 | Some r \<Rightarrow> r) + boost * c))
             es m) k
   = mapVal m k + (\<Sum>(k', boost)\<leftarrow>es. if k' = k then boost * c else 0)"
proof (induction es arbitrary: m)
  case Nil
  then show ?case by simp
next
  case (Cons e es)
  obtain k' boost where e: "e = (k', boost)" by (cases e)
  show ?case
    by (simp add: e Cons.IH mapVal_step split del: if_split)
qed

lemma inner_sum_zero:
  "c = 0 \<Longrightarrow> (\<Sum>(k', boost)\<leftarrow>es. if k' = k then boost * c else (0::rat)) = 0"
  by (induction es) auto

lemma passive_outer:
  "mapVal (fold (\<lambda>district rates.
             if buildingCount district = 0 then rates
             else fold (\<lambda>(k, boost) rates.
                          if boost = 0 then rates
                          else rates(k \<mapsto> (case rates k of None \<Rightarrow> 0 | Some r \<Rightarrow> r)
                                           + boost * of_int (buildingCount district)))
                    (productionBoost district) rates) ds m) k
   = mapVal m k + specPassiveRate ds k"
proof (induction ds arbitrary: m)
  case Nil
  then show ?case by (simp add: specPassiveRate_def)
next
  case (Cons d ds)
  show ?case
  proof (cases "buildingCount d = 0")
    case True
    then show ?thesis
      using inner_sum_zero[of "rat_of_int (buildingCount d)" k "productionBoost d"]
      by (simp add: Cons.IH specPassiveRate_def)
  next
    case False
    then show ?thesis
      by (simp add: Cons.IH passive_inner specPassiveRate_def)
  qed
qed

text \<open>
  The object built by \<^verbatim>\<open>passiveRates\<close> holds, for each resource, the sum over the
  districts of productionBoost times buildingCount.
\<close>

lemma passiveRates_spec:
  "(case passiveRates ds k of None \<Rightarrow> 0 | Some r \<Rightarrow> r) = specPassiveRate ds k"
  using passive_outer[of ds Map.empty k] by (simp add: passiveRates_def mapVal_def)

lemma seasonMultiplier_table:
  "i < 4 \<Longrightarrow> seasonMultiplier i = SUNLEAF_SEASON_MULTIPLIERS ! i"
proof -
  assume "i < 4"
  then consider "i = 0" | "i = 1" | "i = 2" | "i = 3" by linarith
  then show ?thesis
    by cases (simp_all add: seasonMultiplier_def SUNLEAF_SEASON_MULTIPLIERS_def)
qed

lemma totalRate_spec:
  "seasonIndex (tick st) < 4 \<Longrightarrow> totalRate st r = specTotalRate st r"
  by (simp add: totalRate_def specTotalRate_def Let_def passiveRates_spec seasonMultiplier_table)

text \<open>
  The last day of a year of 365 days has season index 4, outside the table of four
  multipliers (four seasons of 91 days cover 364 days); the production then uses 1.
\<close>

lemma season_index_day_365:
  "dayCount 1456 = 365 \<and> seasonIndex 1456 = 4 \<and> seasonMultiplier (seasonIndex 1456) = 1"
  by (simp add: seasonIndex_def dayCount_def cycleCount_def PHASES_length_def DAYS_PER_YEAR_def
      DAYS_PER_SEASON_def seasonMultiplier_def SUNLEAF_SEASON_MULTIPLIERS_def)

text \<open>
  One run of the production effect. On tick 0 it changes nothing. On every other tick it
  maps \<open>produce\<close> over the resources; on a day whose season index is in the table (0 to
  3), a resource whose total rate (rate times assigned workers plus passive district
  rate, times the season multiplier of the table for sunleaf) is positive advances by that
  rate divided by 4 and is clamped into [0, capacity], and a resource whose total rate is
  zero or negative is left unchanged.
\<close>

lemma production_run:
  "(tick st = 0 \<longrightarrow> productionEffect st = st)
   \<and> (tick st \<noteq> 0 \<longrightarrow> resources (productionEffect st) = map (produce st) (resources st))
   \<and> (seasonIndex (tick st) < 4 \<longrightarrow>
        produce st r = (if 0 < specTotalRate st r then specProduce st r else r))"
  by (auto simp: productionEffect_def produce_def specProduce_def totalRate_spec Let_def)

subsection \<open>Runs of the production effect within one tick\<close>

lemmas calendar_defs = seasonIndex_def dayCount_def cycleCount_def PHASES_length_def
  DAYS_PER_YEAR_def DAYS_PER_SEASON_def






section \<open>Tutorial stage advance\<close>

lemma goalsMet_stageAdvance: "goalsMet (stageAdvanceEffect st) = goalsMet st"
  by (simp add: goalsMet_def stageAdvanceEffect_def Let_def pushLog_def)

lemma stageAdvance_enabled:
  assumes "goalsMet st" and "stageIndex st < length TUTORIAL_STAGES - 1"
  shows "stageAdvanceEffect st
           = (if nextStageRef st \<noteq> stageIndex st + 1
              then pushLog (language st, StageOpened (stageIndex st + 1))
                     (st\<lparr>nextStageRef := stageIndex st + 1\<rparr>)
              else st)
             \<lparr>pendingTimeouts := pendingTimeouts st @ [(750, stageIndex st + 1)]\<rparr>"
proof -
  have "stageIndex st < length TUTORIAL_STAGES" using assms(2) by simp
  then show ?thesis using assms by (simp add: stageAdvanceEffect_def Let_def pushLog_def)
qed

lemma stageAdvance_twice:
  assumes "goalsMet st" and "stageIndex st < length TUTORIAL_STAGES - 1"
  shows "stageAdvanceEffect (stageAdvanceEffect st)
           = (stageAdvanceEffect st)
               \<lparr>pendingTimeouts :=
                  pendingTimeouts st @ [(750, stageIndex st + 1), (750, stageIndex st + 1)]\<rparr>"
proof -
  let ?st' = "stageAdvanceEffect st"
  have g: "goalsMet ?st'" using assms(1) by (simp add: goalsMet_stageAdvance)
  have i: "stageIndex ?st' = stageIndex st"
    by (simp add: stageAdvance_enabled[OF assms] pushLog_def)
  have r: "nextStageRef ?st' = stageIndex st + 1"
    by (simp add: stageAdvance_enabled[OF assms] pushLog_def)
  have p: "pendingTimeouts ?st' = pendingTimeouts st @ [(750, stageIndex st + 1)]"
    by (simp add: stageAdvance_enabled[OF assms] pushLog_def)
  have lt: "stageIndex ?st' < length TUTORIAL_STAGES - 1" using assms(2) i by simp
  show ?thesis
    using stageAdvance_enabled[OF g lt] i r p by simp
qed

text \<open>
  Claim C4, as stated, fails: with the goal of stage 0 met, two evaluations of the effect
  before the delay elapses leave two scheduled callbacks, not one.
\<close>

theorem C4_scheduled_twice_counterexample:
  "goalsMet goalReached \<and> stageIndex goalReached = 0 \<and> pendingTimeouts goalReached = []
   \<and> pendingTimeouts (stageAdvanceEffect (stageAdvanceEffect goalReached)) = [(750, 1), (750, 1)]"
proof -
  have g: "goalsMet goalReached"
    by (simp add: goalsMet_def goalMet_def goalReached_def initialState_def TUTORIAL_STAGES_def
        INITIAL_RESOURCES_def)
  have i: "stageIndex goalReached = 0" "pendingTimeouts goalReached = []"
    by (simp_all add: goalReached_def initialState_def)
  have lt: "stageIndex goalReached < length TUTORIAL_STAGES - 1"
    by (simp add: i TUTORIAL_STAGES_def)
  show ?thesis using g i stageAdvance_twice[OF g lt] by simp
qed

text \<open>
  Claim C4, amended. When every goal of the active non-terminal stage is met, an
  evaluation of the effect does not change the stage index; it schedules a callback 750 ms
  ahead that will set the next stage index, once per evaluation. The marker deduplicates
  the log line only: the first evaluation logs the advance unless the marker already holds
  the next index, a second evaluation logs nothing and schedules a second callback for
  the same index. With no other callback pending, the stage index is unchanged before
  750 ms have passed and is the next index once they have, however many callbacks ran.
\<close>

theorem C4_stage_advance_deferred:
  assumes "goalsMet st" and "stageIndex st < length TUTORIAL_STAGES - 1"
  shows "stageIndex (stageAdvanceEffect st) = stageIndex st
       \<and> showTutorial (stageAdvanceEffect st) = showTutorial st
       \<and> pendingTimeouts (stageAdvanceEffect st) = pendingTimeouts st @ [(750, stageIndex st + 1)]
       \<and> nextStageRef (stageAdvanceEffect st) = stageIndex st + 1
       \<and> logLines (stageAdvanceEffect st)
           = (if nextStageRef st = stageIndex st + 1 then logLines st
              else take 6 ((language st, StageOpened (stageIndex st + 1)) # logLines st))
       \<and> logLines (stageAdvanceEffect (stageAdvanceEffect st)) = logLines (stageAdvanceEffect st)
       \<and> pendingTimeouts (stageAdvanceEffect (stageAdvanceEffect st))
           = pendingTimeouts st @ [(750, stageIndex st + 1), (750, stageIndex st + 1)]
       \<and> (pendingTimeouts st = [] \<longrightarrow>
            (\<forall>ms. ms < 750 \<longrightarrow>
               stageIndex (elapse ms (stageAdvanceEffect (stageAdvanceEffect st))) = stageIndex st)
            \<and> stageIndex (elapse 750 (stageAdvanceEffect st)) = stageIndex st + 1
            \<and> stageIndex (elapse 750 (stageAdvanceEffect (stageAdvanceEffect st))) = stageIndex st + 1
            \<and> showTutorial (elapse 750 (stageAdvanceEffect (stageAdvanceEffect st)))
            \<and> pendingTimeouts (elapse 750 (stageAdvanceEffect (stageAdvanceEffect st))) = [])"
  unfolding stageAdvance_twice[OF assms]
  by (simp add: stageAdvance_enabled[OF assms] pushLog_def elapse_def runTimeout_def)

theorem C4_stage_advance_deferred_witness:
  "goalsMet goalReached \<and> stageIndex goalReached < length TUTORIAL_STAGES - 1
   \<and> stageIndex (stageAdvanceEffect goalReached) = 0
   \<and> pendingTimeouts (stageAdvanceEffect goalReached) = [(750, 1)]
   \<and> length (logLines (stageAdvanceEffect goalReached)) = 4
   \<and> logLines (stageAdvanceEffect (stageAdvanceEffect goalReached))
       = logLines (stageAdvanceEffect goalReached)
   \<and> stageIndex (elapse 749 (stageAdvanceEffect (stageAdvanceEffect goalReached))) = 0
   \<and> stageIndex (elapse 750 (stageAdvanceEffect (stageAdvanceEffect goalReached))) = 1"
proof -
  have g: "goalsMet goalReached"
    by (simp add: goalsMet_def goalMet_def goalReached_def initialState_def TUTORIAL_STAGES_def
        INITIAL_RESOURCES_def)
  have i: "stageIndex goalReached = 0" "pendingTimeouts goalReached = []"
    "nextStageRef goalReached = 0" "length (logLines goalReached) = 3"
    by (simp_all add: goalReached_def initialState_def localizedDefaults_def)
  have lt: "stageIndex goalReached < length TUTORIAL_STAGES - 1"
    by (simp add: i TUTORIAL_STAGES_def)
  from C4_stage_advance_deferred[OF g lt] g lt i show ?thesis by simp
qed

section \<open>Attrition\<close>

lemma removeExcessWorkers_other:
  "k \<notin> set ks \<Longrightarrow> removeExcessWorkers ks w n k = w k"
  by (induction ks arbitrary: w n) (auto simp: Let_def)

lemma removeExcessWorkers_nonneg:
  "(\<And>k. 0 \<le> w k) \<Longrightarrow> 0 \<le> removeExcessWorkers ks w n k"
proof (induction ks arbitrary: w n)
  case Nil
  then show ?case by simp
next
  case (Cons a ks)
  show ?case
  proof (cases "n \<le> 0")
    case True
    then show ?thesis using Cons.prems by simp
  next
    case False
    have "0 \<le> (w(a := w a - min (w a) n)) k" for k using Cons.prems[of k] by simp
    then show ?thesis using False Cons.IH by (simp add: Let_def)
  qed
qed

lemma sum_list_upd_other:
  "a \<notin> set ks \<Longrightarrow> (\<Sum>k\<leftarrow>ks. (w(a := v)) k) = (\<Sum>k\<leftarrow>ks. w k)" for w :: "ResourceKey \<Rightarrow> int"
  by (induction ks) auto

lemma sum_list_nonneg_workers:
  "(\<And>k. 0 \<le> w k) \<Longrightarrow> 0 \<le> (\<Sum>k\<leftarrow>ks. w k)" for w :: "ResourceKey \<Rightarrow> int"
  by (induction ks) (auto simp: add_nonneg_nonneg)

text \<open>
  The loop over the resource keys takes away exactly the excess, as far as there are
  workers to take, and never more from a resource than it has.
\<close>

lemma removeExcessWorkers_total:
  "distinct ks \<Longrightarrow> (\<And>k. 0 \<le> w k) \<Longrightarrow> 0 \<le> n
     \<Longrightarrow> (\<Sum>k\<leftarrow>ks. removeExcessWorkers ks w n k) = (\<Sum>k\<leftarrow>ks. w k) - min n (\<Sum>k\<leftarrow>ks. w k)"
proof (induction ks arbitrary: w n)
  case Nil
  then show ?case by simp
next
  case (Cons a ks)
  have S: "0 \<le> (\<Sum>k\<leftarrow>ks. w k)" using Cons.prems(2) by (rule sum_list_nonneg_workers)
  show ?case
  proof (cases "n \<le> 0")
    case True
    then have "n = 0" using Cons.prems(3) by simp
    then show ?thesis using S Cons.prems(2)[of a] by simp
  next
    case False
    let ?r = "min (w a) n"
    let ?w' = "w(a := w a - ?r)"
    have a: "a \<notin> set ks" and d: "distinct ks" using Cons.prems(1) by simp_all
    have w': "0 \<le> ?w' k" for k using Cons.prems(2)[of k] by simp
    have n': "0 \<le> n - ?r" by simp
    have head: "removeExcessWorkers ks ?w' (n - ?r) a = w a - ?r"
      using removeExcessWorkers_other[OF a, of ?w' "n - ?r"] by simp
    have ih: "(\<Sum>k\<leftarrow>ks. removeExcessWorkers ks ?w' (n - ?r) k)
                = (\<Sum>k\<leftarrow>ks. ?w' k) - min (n - ?r) (\<Sum>k\<leftarrow>ks. ?w' k)"
      by (rule Cons.IH[OF d _ n']) (rule w')
    have same: "(\<Sum>k\<leftarrow>ks. ?w' k) = (\<Sum>k\<leftarrow>ks. w k)"
      by (rule sum_list_upd_other[OF a])
    have tail: "(\<Sum>k\<leftarrow>ks. removeExcessWorkers ks ?w' (n - ?r) k)
                  = (\<Sum>k\<leftarrow>ks. w k) - min (n - ?r) (\<Sum>k\<leftarrow>ks. w k)"
      using ih unfolding same .
    have unfold: "removeExcessWorkers (a # ks) w n = removeExcessWorkers ks ?w' (n - ?r)"
      using False by (simp add: Let_def)
    show ?thesis
      unfolding unfold using head tail S Cons.prems(2)[of a] by (simp add: min_def)
  qed
qed

lemma attritionFilter_keeps_content:
  "filter (\<lambda>m. \<not> m < 50) (fst (attritionFilter rolls n i ms)) = filter (\<lambda>m. \<not> m < 50) ms"
  by (induction ms arbitrary: n i) simp_all

text \<open>
  One run of the attrition effect with at least one departure: the tenant count drops by
  the number of departures, the morale array loses as many entries and keeps every entry
  of 50 or more, and no worker count becomes negative.
\<close>

lemma attrition_run_departures:
  assumes "assignedTenants st \<noteq> 0" and "tenantMorale st \<noteq> []"
    and "int (dayCount (tick st)) \<noteq> lastPayDay st"
    and "snd (attritionFilter rolls 0 0 (tenantMorale st)) \<noteq> []"
    and "\<And>k. 0 \<le> resourceWorkers st k"
  shows "assignedTenants (attritionEffect rolls st)
           = assignedTenants st - int (length (snd (attritionFilter rolls 0 0 (tenantMorale st))))
       \<and> tenantMorale (attritionEffect rolls st) = fst (attritionFilter rolls 0 0 (tenantMorale st))
       \<and> length (tenantMorale (attritionEffect rolls st))
           = length (tenantMorale st) - length (snd (attritionFilter rolls 0 0 (tenantMorale st)))
       \<and> filter (\<lambda>m. \<not> m < 50) (tenantMorale (attritionEffect rolls st))
           = filter (\<lambda>m. \<not> m < 50) (tenantMorale st)
       \<and> 0 \<le> resourceWorkers (attritionEffect rolls st) k"
  using assms attritionFilter_length[of rolls 0 0 "tenantMorale st"]
    removeExcessWorkers_nonneg[of "resourceWorkers st" resource_keys _ k]
  by (simp add: attritionEffect_def Let_def pushLog_def attritionFilter_keeps_content)

text \<open>
  Claim C9: the code does not run the attrition once per new day. On day 3 of the example,
  wages were last settled on day 2 and are not paid automatically: the wage effect changes
  nothing, so \<open>lastPayDay\<close> stays behind the day. A first run of the attrition effect (rolls:
  leave, stay) removes one of the two tenants of morale 40. That run changed
  \<open>tenantMorale\<close>, a dependency of the effect, so the effect runs again on the same tick,
  with fresh rolls, and the tenant who stayed is rolled a second time and leaves.
\<close>

theorem C9_attrition_repeats_within_day:
  "dayCount (tick lowMorale) = 3 \<and> lastPayDay lowMorale = 2
   \<and> wagesEffect lowMorale = lowMorale
   \<and> tenantMorale (attritionEffect (\<lambda>n. n = 0) lowMorale) = [40]
   \<and> assignedTenants (attritionEffect (\<lambda>n. n = 0) lowMorale) = 1
   \<and> map (resourceWorkers (attritionEffect (\<lambda>n. n = 0) lowMorale)) resource_keys
       = [0, 1, 0, 0, 0, 0]
   \<and> tick (attritionEffect (\<lambda>n. n = 0) lowMorale) = tick lowMorale
   \<and> lastPayDay (attritionEffect (\<lambda>n. n = 0) lowMorale) = lastPayDay lowMorale
   \<and> tenantMorale (attritionEffect (\<lambda>n. True) (attritionEffect (\<lambda>n. n = 0) lowMorale)) = []
   \<and> assignedTenants (attritionEffect (\<lambda>n. True) (attritionEffect (\<lambda>n. n = 0) lowMorale)) = 0
   \<and> map (resourceWorkers (attritionEffect (\<lambda>n. True) (attritionEffect (\<lambda>n. n = 0) lowMorale)))
         resource_keys
       = [0, 0, 0, 0, 0, 0]"
  by (simp add: lowMorale_def attritionEffect_def wagesEffect_def dayCount_def cycleCount_def
      PHASES_length_def totalAssignedWorkers_def resource_keys_def pushLog_def initialState_def
      Let_def)

section \<open>The persistence codec\<close>

lemma fallbacks:
  "\<not> isNumber x \<Longrightarrow> numberOr x n = n"
  "\<not> isNumber x \<Longrightarrow> whenNumber x f d = d"
  "\<not> isString x \<Longrightarrow> stringOr x s = s"
  "\<not> isString x \<Longrightarrow> stringOrNull x = None"
  "\<not> isArray x \<Longrightarrow> arrayOr x xs = xs"
  "\<not> isArray x \<Longrightarrow> whenArray x g d' = d'"
  "\<not> isTruthyObject x \<Longrightarrow> objectOr x j = j"
  "\<not> isTruthyObject x \<Longrightarrow> whenObject x h d'' = d''"
  by (cases x rule: isNumber.cases; simp add: isTruthyObject_def)+

lemma objectOr_truthy: "isTruthyObject (Some x) \<Longrightarrow> objectOr (Some x) d = x"
  by (cases x) (simp_all add: isTruthyObject_def)

lemma whenObject_truthy: "isTruthyObject (Some x) \<Longrightarrow> whenObject (Some x) f d = f x"
  by (cases x) (simp_all add: isTruthyObject_def)

lemma stringOrNull_json [simp]: "stringOrNull (Some (stringOrNullJson s)) = s"
  by (cases s) simp_all

lemma isArray_E: "isArray (Some x) \<Longrightarrow> \<exists>xs. x = JArr xs"
  by (cases x) simp_all

subsection \<open>Entries matched by key\<close>

lemma resources_roundtrip:
  assumes "map key rs = map key INITIAL_RESOURCES"
  shows "map (reconcileResource (map resourceJson rs)) INITIAL_RESOURCES = rs"
proof -
  from assms obtain r1 r2 r3 r4 r5 r6 where rs: "rs = [r1, r2, r3, r4, r5, r6]"
    and k: "key r1 = Sunleaf" "key r2 = Wood" "key r3 = Stone" "key r4 = Science"
      "key r5 = Energy" "key r6 = Execution"
    by (auto simp: INITIAL_RESOURCES_def map_eq_Cons_conv)
  show ?thesis
    using k by (simp add: rs INITIAL_RESOURCES_def reconcileResource_def findByProp_def
        resourceJson_def)
qed

lemma districts_roundtrip:
  assumes "map sd_id ds = map sd_id savedDISTRICTS"
  shows "map (reconcileDistrict (map districtJson ds)) savedDISTRICTS = ds"
proof -
  from assms obtain d1 d2 d3 d4 d5 where ds: "ds = [d1, d2, d3, d4, d5]"
    and k: "sd_id d1 = ''terraced-fields''" "sd_id d2 = ''lumber-groves''"
      "sd_id d3 = ''aurora-forge''" "sd_id d4 = ''moonwater-archives''" "sd_id d5 = ''sky-harbor''"
    by (auto simp: savedDISTRICTS_def DISTRICTS_def mk_district_def map_eq_Cons_conv)
  show ?thesis
    using k by (simp add: ds savedDISTRICTS_def DISTRICTS_def mk_district_def reconcileDistrict_def
        findByProp_def districtJson_def)
qed

lemma isSkillObject_E:
  "isSkillObject skill j \<Longrightarrow>
     \<exists>lv ex. j = JObj [(''type'', JStr (skillName (skill_type skill))), (''level'', JNum lv),
                        (''experience'', JNum ex), (''maxLevel'', JNum (of_int (maxLevel skill)))]
             \<and> lv \<le> of_int MAX_SKILL_LEVEL"
  by (induction skill j rule: isSkillObject.induct) simp_all

lemma skills_roundtrip:
  assumes "list_all2 isSkillObject INITIAL_SKILLS items"
  shows "map (reconcileSkill items) INITIAL_SKILLS = items"
proof -
  from assms obtain j1 j2 where items: "items = [j1, j2]"
    and a: "isSkillObject (INITIAL_SKILLS ! 0) j1" and b: "isSkillObject (INITIAL_SKILLS ! 1) j2"
    by (auto simp: INITIAL_SKILLS_def list_all2_Cons1)
  from isSkillObject_E[OF a] isSkillObject_E[OF b] show ?thesis
    by (auto simp: items INITIAL_SKILLS_def reconcileSkill_def findByProp_def min_def)
qed

lemma facilityCounts_roundtrip:
  assumes "map fst counts = map fst savedFACILITY_COUNTS"
  shows "objSpread savedFACILITY_COUNTS (JObj counts) = counts"
proof -
  from assms obtain a b where "counts = [(''cabin'', a), (''city-hall'', b)]"
    by (auto simp: savedFACILITY_COUNTS_def FACILITIES_def map_eq_Cons_conv)
  then show ?thesis
    by (simp add: objSpread_def savedFACILITY_COUNTS_def FACILITIES_def)
qed

lemma resourceWorkers_roundtrip:
  "decodeResourceWorkers (Some (keyedObject (\<lambda>k. JNum (w k)))) = w"
proof
  fix k show "decodeResourceWorkers (Some (keyedObject (\<lambda>k. JNum (w k)))) k = w k"
    by (cases k) (simp_all add: decodeResourceWorkers_def keyedObject_def resource_keys_def)
qed

lemma reconcileResource_key [simp]: "key (reconcileResource items r) = key r"
  by (simp add: reconcileResource_def split: option.splits)

subsection \<open>Decoding a document\<close>

lemma decode_own_document:
  "deserializeState d (Some (serializeState lang c)) prev =
     \<lparr>sv_resources = map (reconcileResource (map resourceJson (sv_resources c))) INITIAL_RESOURCES,
      sv_tick = sv_tick c,
      sv_stageIndex = sv_stageIndex c,
      sv_showTutorial = sv_showTutorial c,
      sv_showIntroDialogue = sv_showIntroDialogue c,
      sv_introIndex = sv_introIndex c,
      sv_unlockedChapters = sv_unlockedChapters c,
      sv_activeChapterId = sv_activeChapterId c,
      sv_milestones = sv_milestones c,
      sv_completedPurchases = sv_completedPurchases c,
      sv_purchaseCounts = objectOr (Some (sv_purchaseCounts c)) (JObj []),
      sv_civilizationLevel = sv_civilizationLevel c,
      sv_manualCooldowns = objectOr (Some (sv_manualCooldowns c)) (sv_manualCooldowns prev),
      sv_manualHarvestActive =
        objectOr (Some (sv_manualHarvestActive c)) (sv_manualHarvestActive prev),
      sv_log = take 6 (sv_log c),
      sv_districts = map (reconcileDistrict (map districtJson (sv_districts c))) savedDISTRICTS,
      sv_craftingRecipe = sv_craftingRecipe c,
      sv_craftingProgress = sv_craftingProgress c,
      sv_equippedTools = objectOr (Some (sv_equippedTools c)) (sv_equippedTools prev),
      sv_facilityCounts =
        whenObject (Some (sv_facilityCounts c))
          (\<lambda>counts. JObj (objSpread savedFACILITY_COUNTS counts)) (JObj savedFACILITY_COUNTS),
      sv_selectedFacilityId = sv_selectedFacilityId c,
      sv_tenantRecruitCooldown = sv_tenantRecruitCooldown c,
      sv_pendingTenants = sv_pendingTenants c,
      sv_tenantTimeout = sv_tenantTimeout c,
      sv_assignedTenants = sv_assignedTenants c,
      sv_tenantMorale = JArr (arrayOr (Some (sv_tenantMorale c)) []),
      sv_autoPayWages = sv_autoPayWages c,
      sv_lastPayDay = sv_lastPayDay c,
      sv_skills =
        whenArray (Some (sv_skills c))
          (\<lambda>items. JArr (map (reconcileSkill items) INITIAL_SKILLS))
          (JArr (map skillJson INITIAL_SKILLS)),
      sv_resourceWorkers = sv_resourceWorkers c,
      sv_manuallyUnlockedResources = sv_manuallyUnlockedResources c\<rparr>"
  by (simp add: deserializeState_def serializeState_def resourceWorkers_roundtrip)

lemma codec_round_trip:
  assumes "wellFormedCells c"
  shows "deserializeState d (Some (serializeState lang c)) prev = c"
proof -
  from assms have
    r: "map key (sv_resources c) = map key INITIAL_RESOURCES" and
    ds: "map sd_id (sv_districts c) = map sd_id savedDISTRICTS" and
    lg: "length (sv_log c) \<le> 6" and
    o1: "isTruthyObject (Some (sv_purchaseCounts c))" and
    o2: "isTruthyObject (Some (sv_manualCooldowns c))" and
    o3: "isTruthyObject (Some (sv_manualHarvestActive c))" and
    o4: "isTruthyObject (Some (sv_equippedTools c))" and
    tm: "isArray (Some (sv_tenantMorale c))"
    by (simp_all add: wellFormedCells_def)
  from assms obtain items where sk: "sv_skills c = JArr items"
    and sk2: "list_all2 isSkillObject INITIAL_SKILLS items"
    by (auto simp: wellFormedCells_def split: json.splits)
  from assms obtain counts where fc: "sv_facilityCounts c = JObj counts"
    and fc2: "map fst counts = map fst savedFACILITY_COUNTS"
    by (auto simp: wellFormedCells_def split: json.splits)
  from tm obtain ms where ms: "sv_tenantMorale c = JArr ms" using isArray_E by blast
  show ?thesis
    unfolding decode_own_document
    by (rule SavedCells.equality)
       (simp_all add: resources_roundtrip[OF r] districts_roundtrip[OF ds] sk
          skills_roundtrip[OF sk2] fc facilityCounts_roundtrip[OF fc2] ms lg
          objectOr_truthy[OF o1] objectOr_truthy[OF o2] objectOr_truthy[OF o3]
          objectOr_truthy[OF o4])
qed

lemma decode_object:
  assumes "isTruthyObject (Some doc)"
  shows "deserializeState d (Some doc) prev =
            \<lparr>sv_resources =
               whenArray (propOf doc ''resources'')
                 (\<lambda>items. map (reconcileResource items) INITIAL_RESOURCES) INITIAL_RESOURCES,
             sv_tick = numberOr (propOf doc ''tick'') 0,
             sv_stageIndex = numberOr (propOf doc ''stageIndex'') 0,
             sv_showTutorial = truthy (propOf doc ''showTutorial''),
             sv_showIntroDialogue = truthy (propOf doc ''showIntroDialogue''),
             sv_introIndex = numberOr (propOf doc ''introIndex'') 0,
             sv_unlockedChapters = arrayOr (propOf doc ''unlockedChapters'') [],
             sv_activeChapterId = stringOr (propOf doc ''activeChapterId'') initialChapterId,
             sv_milestones = arrayOr (propOf doc ''milestones'') [],
             sv_completedPurchases = arrayOr (propOf doc ''completedPurchases'') [],
             sv_purchaseCounts = objectOr (propOf doc ''purchaseCounts'') (JObj []),
             sv_civilizationLevel = numberOr (propOf doc ''civilizationLevel'') 0,
             sv_manualCooldowns =
               objectOr (propOf doc ''manualCooldowns'') (sv_manualCooldowns prev),
             sv_manualHarvestActive =
               objectOr (propOf doc ''manualHarvestActive'')
                 (objectOr (propOf doc ''manualHarvestPending'') (sv_manualHarvestActive prev)),
             sv_log = whenArray (propOf doc ''log'') (take 6) d,
             sv_districts =
               whenArray (propOf doc ''districts'')
                 (\<lambda>items. map (reconcileDistrict items) savedDISTRICTS) savedDISTRICTS,
             sv_craftingRecipe = stringOrNull (propOf doc ''craftingRecipe''),
             sv_craftingProgress =
               (case propOf doc ''craftingProgress'' of
                  None \<Rightarrow> sv_craftingProgress prev
                | Some v \<Rightarrow> v),
             sv_equippedTools = objectOr (propOf doc ''equippedTools'') (sv_equippedTools prev),
             sv_facilityCounts =
               whenObject (propOf doc ''facilityCounts'')
                 (\<lambda>counts. JObj (objSpread savedFACILITY_COUNTS counts)) (JObj savedFACILITY_COUNTS),
             sv_selectedFacilityId = stringOrNull (propOf doc ''selectedFacilityId''),
             sv_tenantRecruitCooldown = numberOr (propOf doc ''tenantRecruitCooldown'') 0,
             sv_pendingTenants = numberOr (propOf doc ''pendingTenants'') 0,
             sv_tenantTimeout = numberOr (propOf doc ''tenantTimeout'') 0,
             sv_assignedTenants = numberOr (propOf doc ''assignedTenants'') 0,
             sv_tenantMorale = JArr (arrayOr (propOf doc ''tenantMorale'') []),
             sv_autoPayWages = truthy (propOf doc ''autoPayWages''),
             sv_lastPayDay = numberOr (propOf doc ''lastPayDay'') 0,
             sv_skills =
               whenArray (propOf doc ''skills'')
                 (\<lambda>items. JArr (map (reconcileSkill items) INITIAL_SKILLS))
                 (JArr (map skillJson INITIAL_SKILLS)),
             sv_resourceWorkers = decodeResourceWorkers (propOf doc ''resourceWorkers''),
             sv_manuallyUnlockedResources =
               arrayOr (propOf doc ''manuallyUnlockedResources'')
                 (sv_manuallyUnlockedResources prev)\<rparr>"
  using assms unfolding deserializeState_def isTruthyObject_def by simp

lemma empty_document:
  "deserializeState d (Some (JObj [])) prev = emptyDocumentCells d prev"
  by (simp add: deserializeState_def emptyDocumentCells_def initialCells_def
      decodeResourceWorkers_def)

lemma not_object_document:
  "\<not> isTruthyObject (Some doc) \<Longrightarrow> deserializeState d (Some doc) prev = prev"
  by (auto simp: deserializeState_def isTruthyObject_def)

lemma decoded_cells:
  assumes "isTruthyObject (Some doc)"
  shows
    "map key (sv_resources (deserializeState d (Some doc) prev)) = map key INITIAL_RESOURCES
      \<and> (\<not> isArray (propOf doc ''resources'') \<longrightarrow> cellFallsBack sv_resources d doc prev)
      \<and> (\<not> isNumber (propOf doc ''tick'') \<longrightarrow> cellFallsBack sv_tick d doc prev)
      \<and> (\<not> isNumber (propOf doc ''stageIndex'') \<longrightarrow> cellFallsBack sv_stageIndex d doc prev)
      \<and> (\<not> isNumber (propOf doc ''introIndex'') \<longrightarrow> cellFallsBack sv_introIndex d doc prev)
      \<and> (\<not> isArray (propOf doc ''unlockedChapters'')
           \<longrightarrow> cellFallsBack sv_unlockedChapters d doc prev)
      \<and> (\<not> isString (propOf doc ''activeChapterId'')
           \<longrightarrow> cellFallsBack sv_activeChapterId d doc prev)
      \<and> (\<not> isArray (propOf doc ''milestones'') \<longrightarrow> cellFallsBack sv_milestones d doc prev)
      \<and> (\<not> isArray (propOf doc ''completedPurchases'')
           \<longrightarrow> cellFallsBack sv_completedPurchases d doc prev)
      \<and> (\<not> isTruthyObject (propOf doc ''purchaseCounts'')
           \<longrightarrow> cellFallsBack sv_purchaseCounts d doc prev)
      \<and> (\<not> isNumber (propOf doc ''civilizationLevel'')
           \<longrightarrow> cellFallsBack sv_civilizationLevel d doc prev)
      \<and> (\<not> isTruthyObject (propOf doc ''manualCooldowns'')
           \<longrightarrow> cellFallsBack sv_manualCooldowns d doc prev)
      \<and> (\<not> isTruthyObject (propOf doc ''manualHarvestActive'')
           \<and> \<not> isTruthyObject (propOf doc ''manualHarvestPending'')
           \<longrightarrow> cellFallsBack sv_manualHarvestActive d doc prev)
      \<and> (\<not> isArray (propOf doc ''log'') \<longrightarrow> cellFallsBack sv_log d doc prev)
      \<and> (\<not> isArray (propOf doc ''districts'') \<longrightarrow> cellFallsBack sv_districts d doc prev)
      \<and> (\<not> isString (propOf doc ''craftingRecipe'')
           \<longrightarrow> cellFallsBack sv_craftingRecipe d doc prev)
      \<and> (propOf doc ''craftingProgress'' = None
           \<longrightarrow> cellFallsBack sv_craftingProgress d doc prev)
      \<and> (\<not> isTruthyObject (propOf doc ''equippedTools'')
           \<longrightarrow> cellFallsBack sv_equippedTools d doc prev)
      \<and> (\<not> isTruthyObject (propOf doc ''facilityCounts'')
           \<longrightarrow> cellFallsBack sv_facilityCounts d doc prev)
      \<and> (\<not> isString (propOf doc ''selectedFacilityId'')
           \<longrightarrow> cellFallsBack sv_selectedFacilityId d doc prev)
      \<and> (\<not> isNumber (propOf doc ''tenantRecruitCooldown'')
           \<longrightarrow> cellFallsBack sv_tenantRecruitCooldown d doc prev)
      \<and> (\<not> isNumber (propOf doc ''pendingTenants'')
           \<longrightarrow> cellFallsBack sv_pendingTenants d doc prev)
      \<and> (\<not> isNumber (propOf doc ''tenantTimeout'')
           \<longrightarrow> cellFallsBack sv_tenantTimeout d doc prev)
      \<and> (\<not> isNumber (propOf doc ''assignedTenants'')
           \<longrightarrow> cellFallsBack sv_assignedTenants d doc prev)
      \<and> (\<not> isArray (propOf doc ''tenantMorale'')
           \<longrightarrow> cellFallsBack sv_tenantMorale d doc prev)
      \<and> (\<not> isNumber (propOf doc ''lastPayDay'') \<longrightarrow> cellFallsBack sv_lastPayDay d doc prev)
      \<and> (\<not> isArray (propOf doc ''skills'') \<longrightarrow> cellFallsBack sv_skills d doc prev)
      \<and> (\<not> isTruthyObject (propOf doc ''resourceWorkers'')
           \<longrightarrow> cellFallsBack sv_resourceWorkers d doc prev)
      \<and> (\<not> isArray (propOf doc ''manuallyUnlockedResources'')
           \<longrightarrow> cellFallsBack sv_manuallyUnlockedResources d doc prev)
      \<and> sv_showTutorial (deserializeState d (Some doc) prev)
           = truthy (propOf doc ''showTutorial'')
      \<and> sv_showIntroDialogue (deserializeState d (Some doc) prev)
           = truthy (propOf doc ''showIntroDialogue'')
      \<and> sv_autoPayWages (deserializeState d (Some doc) prev)
           = truthy (propOf doc ''autoPayWages'')
      \<and> (\<forall>v. propOf doc ''craftingProgress'' = Some v
             \<longrightarrow> sv_craftingProgress (deserializeState d (Some doc) prev) = v)"
proof -
  have "map key (sv_resources (deserializeState d (Some doc) prev)) = map key INITIAL_RESOURCES"
    unfolding decode_object[OF assms]
    by (cases "propOf doc ''resources''" rule: isArray.cases) (simp_all add: comp_def)
  then show ?thesis
    unfolding cellFallsBack_def decode_object[OF assms]
    by (simp add: emptyDocumentCells_def initialCells_def fallbacks decodeResourceWorkers_def)
qed

subsection \<open>The decoder behind the menu\<close>

lemma isString_stringOrNullJson [simp]: "isString (Some (stringOrNullJson s)) \<longleftrightarrow> s \<noteq> None"
  by (cases s) simp_all

lemma districts_load_roundtrip:
  assumes "map sd_id ds = map sd_id savedDISTRICTS"
  shows "map (reconcileDistrictLoad (map districtJson ds)) savedDISTRICTS = ds"
proof -
  from assms obtain d1 d2 d3 d4 d5 where ds: "ds = [d1, d2, d3, d4, d5]"
    and k: "sd_id d1 = ''terraced-fields''" "sd_id d2 = ''lumber-groves''"
      "sd_id d3 = ''aurora-forge''" "sd_id d4 = ''moonwater-archives''" "sd_id d5 = ''sky-harbor''"
    by (auto simp: savedDISTRICTS_def DISTRICTS_def mk_district_def map_eq_Cons_conv)
  show ?thesis
    using k by (simp add: ds savedDISTRICTS_def DISTRICTS_def mk_district_def
        reconcileDistrictLoad_def findByProp_def districtJson_def)
qed

lemma load_own_document:
  "loadGame d (Some (serializeState lang c)) prev =
     (True,
      \<lparr>sv_resources = map (reconcileResource (map resourceJson (sv_resources c))) INITIAL_RESOURCES,
       sv_tick = sv_tick c,
       sv_stageIndex = sv_stageIndex c,
       sv_showTutorial = sv_showTutorial c,
       sv_showIntroDialogue = sv_showIntroDialogue c,
       sv_introIndex = sv_introIndex c,
       sv_unlockedChapters = sv_unlockedChapters c,
       sv_activeChapterId = sv_activeChapterId c,
       sv_milestones = sv_milestones c,
       sv_completedPurchases = sv_completedPurchases c,
       sv_purchaseCounts = objectOr (Some (sv_purchaseCounts c)) (JObj []),
       sv_civilizationLevel = sv_civilizationLevel c,
       sv_manualCooldowns = objectOr (Some (sv_manualCooldowns c)) (sv_manualCooldowns prev),
       sv_manualHarvestActive =
         objectOr (Some (sv_manualHarvestActive c)) (sv_manualHarvestActive prev),
       sv_log = take 6 (sv_log c),
       sv_districts =
         map (reconcileDistrictLoad (map districtJson (sv_districts c))) savedDISTRICTS,
       sv_craftingRecipe = sv_craftingRecipe c,
       sv_craftingProgress = JNum (numberOr (Some (sv_craftingProgress c)) 0),
       sv_equippedTools = objectOr (Some (sv_equippedTools c)) (sv_equippedTools prev),
       sv_facilityCounts = objectOr (Some (sv_facilityCounts c)) (sv_facilityCounts prev),
       sv_selectedFacilityId =
         (if sv_selectedFacilityId c \<noteq> None then sv_selectedFacilityId c
          else sv_selectedFacilityId prev),
       sv_tenantRecruitCooldown = sv_tenantRecruitCooldown c,
       sv_pendingTenants = sv_pendingTenants c,
       sv_tenantTimeout = sv_tenantTimeout c,
       sv_assignedTenants = sv_assignedTenants c,
       sv_tenantMorale = whenNumber (Some (sv_tenantMorale c)) JNum (sv_tenantMorale prev),
       sv_autoPayWages = sv_autoPayWages c,
       sv_lastPayDay = sv_lastPayDay c,
       sv_skills = whenArray (Some (sv_skills c)) JArr (JArr (map skillJson INITIAL_SKILLS)),
       sv_resourceWorkers = sv_resourceWorkers c,
       sv_manuallyUnlockedResources = sv_manuallyUnlockedResources c\<rparr>)"
  by (simp add: loadGame_def serializeState_def resourceWorkers_roundtrip)

text \<open>
  \<^verbatim>\<open>loadGame\<close> on the document of well-formed cells whose crafting progress is a number:
  every cell is restored, except that a save without a selected facility leaves the
  selection of the running session, and except the morale array. The decoder tests the
  morale field with \<^verbatim>\<open>typeof parsed.tenantMorale === "number"\<close>, which an array never
  passes: the number of tenants is loaded, their morale is not, and the morale cell keeps
  what the session held before the load.
\<close>

lemma loadGame_round_trip:
  assumes "wellFormedCells c" and "isNumber (Some (sv_craftingProgress c))"
  shows "loadGame d (Some (serializeState lang c)) prev =
           (True,
            c\<lparr>sv_tenantMorale := sv_tenantMorale prev,
              sv_selectedFacilityId :=
                (if sv_selectedFacilityId c \<noteq> None then sv_selectedFacilityId c
                 else sv_selectedFacilityId prev)\<rparr>)"
proof -
  from assms have
    r: "map key (sv_resources c) = map key INITIAL_RESOURCES" and
    ds: "map sd_id (sv_districts c) = map sd_id savedDISTRICTS" and
    lg: "length (sv_log c) \<le> 6" and
    o1: "isTruthyObject (Some (sv_purchaseCounts c))" and
    o2: "isTruthyObject (Some (sv_manualCooldowns c))" and
    o3: "isTruthyObject (Some (sv_manualHarvestActive c))" and
    o4: "isTruthyObject (Some (sv_equippedTools c))" and
    tm: "isArray (Some (sv_tenantMorale c))"
    by (simp_all add: wellFormedCells_def)
  from assms obtain items where sk: "sv_skills c = JArr items"
    by (auto simp: wellFormedCells_def split: json.splits)
  from assms obtain counts where fc: "sv_facilityCounts c = JObj counts"
    by (auto simp: wellFormedCells_def split: json.splits)
  from tm obtain ms where ms: "sv_tenantMorale c = JArr ms" using isArray_E by blast
  from assms(2) obtain n where cp: "sv_craftingProgress c = JNum n"
    by (cases "sv_craftingProgress c") simp_all
  show ?thesis
    unfolding load_own_document
    by (rule arg_cong[where f = "Pair True"], rule SavedCells.equality)
       (simp_all add: resources_roundtrip[OF r] districts_load_roundtrip[OF ds] sk fc ms lg cp
          objectOr_truthy[OF o1] objectOr_truthy[OF o2] objectOr_truthy[OF o3]
          objectOr_truthy[OF o4])
qed

text \<open>With two tenants saved and none in the running session, the load gives two tenants and an empty morale array.\<close>

lemma loadGame_morale_lost:
  "sv_assignedTenants (snd (loadGame [] (Some (serializeState EN cellsInPlay)) (initialCells []))) = 2
   \<and> sv_tenantMorale (snd (loadGame [] (Some (serializeState EN cellsInPlay)) (initialCells [])))
       = JArr []
   \<and> sv_tenantMorale cellsInPlay = JArr [JNum 100, JNum 90]"
  unfolding load_own_document
  by (simp add: cellsInPlay_def initialCells_def)

text \<open>
  Claim C1 as stated fails on partial documents. The decoder's value for an absent field
  is not always the initial one: decoding the empty object turns the introductory
  dialogue off, where a new game shows it, and leaves no chapter unlocked, where a new
  game has the first chapter unlocked. Five cells are not set at all when their field is
  absent and keep the value of the running session, here the cooldowns. A Boolean cell
  is never tested for its type: the string \<^verbatim>\<open>"no"\<close> turns the tutorial on.
\<close>

theorem C1_partial_document_counterexample:
  "sv_showIntroDialogue (initialCells [])
   \<and> \<not> sv_showIntroDialogue (deserializeState [] (Some (JObj [])) cellsInPlay)
   \<and> sv_unlockedChapters (initialCells []) = [JStr ''chapter-1'']
   \<and> sv_unlockedChapters (deserializeState [] (Some (JObj [])) cellsInPlay) = []
   \<and> sv_manualCooldowns (deserializeState [] (Some (JObj [])) cellsInPlay)
       = sv_manualCooldowns cellsInPlay
   \<and> sv_manualCooldowns cellsInPlay \<noteq> sv_manualCooldowns (initialCells [])
   \<and> \<not> sv_showTutorial (initialCells [])
   \<and> propOf partialDocument ''showTutorial'' = Some (JStr ''no'')
   \<and> sv_showTutorial (deserializeState [] (Some partialDocument) (initialCells []))"
  by (simp add: deserializeState_def initialCells_def cellsInPlay_def partialDocument_def
      initialChapterId_def STORY_CHAPTERS_def mk_chapter_def keyedObject_def resource_keys_def)

text \<open>
  Claim C1, amended. For cells of the shape the program keeps (\<open>wellFormedCells\<close>),
  decoding the document that \<^verbatim>\<open>serializeState\<close> builds gives back every cell, whatever the
  cells held before. \<^verbatim>\<open>loadGame\<close> succeeds on that document when the crafting progress is a
  number and, the morale array apart, gives back every cell but the selected facility,
  which it gives back when the save has one and leaves alone otherwise. Decoding never
  fails: without a parsed document, or with a document that is not an object, both
  decoders leave the cells as they were, and \<^verbatim>\<open>loadGame\<close> reports failure. For a document
  that is an
  object, the resources are those of the catalogue in its order; each cell whose field
  is absent or fails the decoder's type test has the value that decoding the empty
  object gives it (\<open>emptyDocumentCells\<close>: the initial value, except that the introductory
  dialogue is off, no chapter is unlocked, and cooldowns, active harvests, crafting
  progress, equipped tools and manually unlocked resources keep the value they had);
  the three Boolean cells are the truthiness of their fields; and the crafting progress
  is copied from its field unchecked whenever the field is present.
\<close>

theorem C1_codec_round_trip_and_fallbacks:
  "(wellFormedCells c \<longrightarrow> deserializeState d (Some (serializeState lang c)) prev = c)
   \<and> (wellFormedCells c \<and> isNumber (Some (sv_craftingProgress c)) \<longrightarrow>
        fst (loadGame d (Some (serializeState lang c)) prev)
        \<and> (snd (loadGame d (Some (serializeState lang c)) prev))
              \<lparr>sv_tenantMorale := sv_tenantMorale c\<rparr>
            = c\<lparr>sv_selectedFacilityId :=
                   (if sv_selectedFacilityId c \<noteq> None then sv_selectedFacilityId c
                    else sv_selectedFacilityId prev)\<rparr>)
   \<and> deserializeState d None prev = prev
   \<and> fst (loadGame d None prev) = False \<and> snd (loadGame d None prev) = prev
   \<and> (\<not> isTruthyObject (Some doc) \<longrightarrow> deserializeState d (Some doc) prev = prev)
   \<and> (\<not> isTruthyObject (Some doc) \<longrightarrow> loadGame d (Some doc) prev = (False, prev))
   \<and> deserializeState d (Some (JObj [])) prev = emptyDocumentCells d prev
   \<and> (isTruthyObject (Some doc) \<longrightarrow>
        map key (sv_resources (deserializeState d (Some doc) prev)) = map key INITIAL_RESOURCES
      \<and> (\<not> isArray (propOf doc ''resources'') \<longrightarrow> cellFallsBack sv_resources d doc prev)
      \<and> (\<not> isNumber (propOf doc ''tick'') \<longrightarrow> cellFallsBack sv_tick d doc prev)
      \<and> (\<not> isNumber (propOf doc ''stageIndex'') \<longrightarrow> cellFallsBack sv_stageIndex d doc prev)
      \<and> (\<not> isNumber (propOf doc ''introIndex'') \<longrightarrow> cellFallsBack sv_introIndex d doc prev)
      \<and> (\<not> isArray (propOf doc ''unlockedChapters'')
           \<longrightarrow> cellFallsBack sv_unlockedChapters d doc prev)
      \<and> (\<not> isString (propOf doc ''activeChapterId'')
           \<longrightarrow> cellFallsBack sv_activeChapterId d doc prev)
      \<and> (\<not> isArray (propOf doc ''milestones'') \<longrightarrow> cellFallsBack sv_milestones d doc prev)
      \<and> (\<not> isArray (propOf doc ''completedPurchases'')
           \<longrightarrow> cellFallsBack sv_completedPurchases d doc prev)
      \<and> (\<not> isTruthyObject (propOf doc ''purchaseCounts'')
           \<longrightarrow> cellFallsBack sv_purchaseCounts d doc prev)
      \<and> (\<not> isNumber (propOf doc ''civilizationLevel'')
           \<longrightarrow> cellFallsBack sv_civilizationLevel d doc prev)
      \<and> (\<not> isTruthyObject (propOf doc ''manualCooldowns'')
           \<longrightarrow> cellFallsBack sv_manualCooldowns d doc prev)
      \<and> (\<not> isTruthyObject (propOf doc ''manualHarvestActive'')
           \<and> \<not> isTruthyObject (propOf doc ''manualHarvestPending'')
           \<longrightarrow> cellFallsBack sv_manualHarvestActive d doc prev)
      \<and> (\<not> isArray (propOf doc ''log'') \<longrightarrow> cellFallsBack sv_log d doc prev)
      \<and> (\<not> isArray (propOf doc ''districts'') \<longrightarrow> cellFallsBack sv_districts d doc prev)
      \<and> (\<not> isString (propOf doc ''craftingRecipe'')
           \<longrightarrow> cellFallsBack sv_craftingRecipe d doc prev)
      \<and> (propOf doc ''craftingProgress'' = None
           \<longrightarrow> cellFallsBack sv_craftingProgress d doc prev)
      \<and> (\<not> isTruthyObject (propOf doc ''equippedTools'')
           \<longrightarrow> cellFallsBack sv_equippedTools d doc prev)
      \<and> (\<not> isTruthyObject (propOf doc ''facilityCounts'')
           \<longrightarrow> cellFallsBack sv_facilityCounts d doc prev)
      \<and> (\<not> isString (propOf doc ''selectedFacilityId'')
           \<longrightarrow> cellFallsBack sv_selectedFacilityId d doc prev)
      \<and> (\<not> isNumber (propOf doc ''tenantRecruitCooldown'')
           \<longrightarrow> cellFallsBack sv_tenantRecruitCooldown d doc prev)
      \<and> (\<not> isNumber (propOf doc ''pendingTenants'')
           \<longrightarrow> cellFallsBack sv_pendingTenants d doc prev)
      \<and> (\<not> isNumber (propOf doc ''tenantTimeout'')
           \<longrightarrow> cellFallsBack sv_tenantTimeout d doc prev)
      \<and> (\<not> isNumber (propOf doc ''assignedTenants'')
           \<longrightarrow> cellFallsBack sv_assignedTenants d doc prev)
      \<and> (\<not> isArray (propOf doc ''tenantMorale'')
           \<longrightarrow> cellFallsBack sv_tenantMorale d doc prev)
      \<and> (\<not> isNumber (propOf doc ''lastPayDay'') \<longrightarrow> cellFallsBack sv_lastPayDay d doc prev)
      \<and> (\<not> isArray (propOf doc ''skills'') \<longrightarrow> cellFallsBack sv_skills d doc prev)
      \<and> (\<not> isTruthyObject (propOf doc ''resourceWorkers'')
           \<longrightarrow> cellFallsBack sv_resourceWorkers d doc prev)
      \<and> (\<not> isArray (propOf doc ''manuallyUnlockedResources'')
           \<longrightarrow> cellFallsBack sv_manuallyUnlockedResources d doc prev)
      \<and> sv_showTutorial (deserializeState d (Some doc) prev)
           = truthy (propOf doc ''showTutorial'')
      \<and> sv_showIntroDialogue (deserializeState d (Some doc) prev)
           = truthy (propOf doc ''showIntroDialogue'')
      \<and> sv_autoPayWages (deserializeState d (Some doc) prev)
           = truthy (propOf doc ''autoPayWages'')
      \<and> (\<forall>v. propOf doc ''craftingProgress'' = Some v
             \<longrightarrow> sv_craftingProgress (deserializeState d (Some doc) prev) = v))"
proof -
  have roundTrip:
    "wellFormedCells c \<longrightarrow> deserializeState d (Some (serializeState lang c)) prev = c"
    by (rule impI) (rule codec_round_trip)
  have load:
    "wellFormedCells c \<and> isNumber (Some (sv_craftingProgress c)) \<longrightarrow>
       fst (loadGame d (Some (serializeState lang c)) prev)
       \<and> (snd (loadGame d (Some (serializeState lang c)) prev))
             \<lparr>sv_tenantMorale := sv_tenantMorale c\<rparr>
           = c\<lparr>sv_selectedFacilityId :=
                  (if sv_selectedFacilityId c \<noteq> None then sv_selectedFacilityId c
                   else sv_selectedFacilityId prev)\<rparr>"
  proof
    assume "wellFormedCells c \<and> isNumber (Some (sv_craftingProgress c))"
    then have wf: "wellFormedCells c" and cp: "isNumber (Some (sv_craftingProgress c))"
      by simp_all
    show "fst (loadGame d (Some (serializeState lang c)) prev)
       \<and> (snd (loadGame d (Some (serializeState lang c)) prev))
             \<lparr>sv_tenantMorale := sv_tenantMorale c\<rparr>
           = c\<lparr>sv_selectedFacilityId :=
                  (if sv_selectedFacilityId c \<noteq> None then sv_selectedFacilityId c
                   else sv_selectedFacilityId prev)\<rparr>"
      unfolding loadGame_round_trip[OF wf cp] by simp
  qed
  have noDocument: "deserializeState d None prev = prev"
    by (simp add: deserializeState_def)
  have noSave: "fst (loadGame d None prev) = False" "snd (loadGame d None prev) = prev"
    by (simp_all add: loadGame_def)
  have notObject: "\<not> isTruthyObject (Some doc) \<longrightarrow> deserializeState d (Some doc) prev = prev"
    by (rule impI) (rule not_object_document)
  have notLoaded: "\<not> isTruthyObject (Some doc) \<longrightarrow> loadGame d (Some doc) prev = (False, prev)"
    by (auto simp: loadGame_def isTruthyObject_def)
  have emptyObject: "deserializeState d (Some (JObj [])) prev = emptyDocumentCells d prev"
    by (rule empty_document)
  show ?thesis
    by (rule conjI[OF roundTrip conjI[OF load conjI[OF noDocument conjI[OF noSave(1)
          conjI[OF noSave(2) conjI[OF notObject conjI[OF notLoaded conjI[OF emptyObject]]]]]]]])
       (rule impI, rule decoded_cells)
qed

theorem C1_codec_round_trip_and_fallbacks_witness:
  "wellFormedCells cellsInPlay
   \<and> deserializeState [] (Some (serializeState ZH cellsInPlay)) (initialCells []) = cellsInPlay
   \<and> isNumber (Some (sv_craftingProgress cellsInPlay))
   \<and> fst (loadGame [] (Some (serializeState ZH cellsInPlay)) (initialCells []))
   \<and> isTruthyObject (Some partialDocument)
   \<and> \<not> isNumber (propOf partialDocument ''tick'')
   \<and> cellFallsBack sv_tick [] partialDocument cellsInPlay
   \<and> sv_tick (emptyDocumentCells [] cellsInPlay) = 0
   \<and> \<not> isTruthyObject (propOf partialDocument ''manualCooldowns'')
   \<and> cellFallsBack sv_manualCooldowns [] partialDocument cellsInPlay
   \<and> sv_manualCooldowns (emptyDocumentCells [] cellsInPlay) = sv_manualCooldowns cellsInPlay
   \<and> sv_showTutorial (deserializeState [] (Some partialDocument) cellsInPlay)
       = truthy (propOf partialDocument ''showTutorial'')"
proof -
  note whole = C1_codec_round_trip_and_fallbacks
    [of cellsInPlay "[]" ZH "initialCells []" partialDocument]
  note part = C1_codec_round_trip_and_fallbacks
    [of cellsInPlay "[]" ZH cellsInPlay partialDocument]
  have wf: "wellFormedCells cellsInPlay"
    by (simp add: wellFormedCells_def cellsInPlay_def initialCells_def INITIAL_RESOURCES_def
        INITIAL_SKILLS_def skillJson_def MAX_SKILL_LEVEL_def isTruthyObject_def keyedObject_def
        comp_def)
  have obj: "isTruthyObject (Some partialDocument)"
    by (simp add: partialDocument_def isTruthyObject_def)
  have tick: "\<not> isNumber (propOf partialDocument ''tick'')"
    and cool: "\<not> isTruthyObject (propOf partialDocument ''manualCooldowns'')"
    by (simp_all add: partialDocument_def isTruthyObject_def)
  have kept: "sv_tick (emptyDocumentCells [] cellsInPlay) = 0"
    "sv_manualCooldowns (emptyDocumentCells [] cellsInPlay) = sv_manualCooldowns cellsInPlay"
    by (simp_all add: emptyDocumentCells_def initialCells_def)
  from whole wf
  have trip:
    "deserializeState [] (Some (serializeState ZH cellsInPlay)) (initialCells []) = cellsInPlay"
    by simp
  have cp: "isNumber (Some (sv_craftingProgress cellsInPlay))"
    by (simp add: cellsInPlay_def)
  from whole wf cp
  have loaded: "fst (loadGame [] (Some (serializeState ZH cellsInPlay)) (initialCells []))"
    by simp
  from part obj tick cool
  have "cellFallsBack sv_tick [] partialDocument cellsInPlay"
    and "cellFallsBack sv_manualCooldowns [] partialDocument cellsInPlay"
    and "sv_showTutorial (deserializeState [] (Some partialDocument) cellsInPlay)
          = truthy (propOf partialDocument ''showTutorial'')"
    by simp_all
  with wf obj tick cool kept trip cp loaded show ?thesis
    by simp
qed

section \<open>A save loaded over a running session\<close>

lemma loaded_cells:
  "fst (loadGame [] (Some (serializeState EN savedEarlierCells)) sessionLeftCells)
   \<and> sv_resources (snd (loadGame [] (Some (serializeState EN savedEarlierCells)) sessionLeftCells))
       = resources loadedOverSession
   \<and> sv_tick (snd (loadGame [] (Some (serializeState EN savedEarlierCells)) sessionLeftCells))
       = of_nat (tick loadedOverSession)
   \<and> sv_autoPayWages (snd (loadGame [] (Some (serializeState EN savedEarlierCells)) sessionLeftCells))
       = autoPayWages loadedOverSession
   \<and> sv_lastPayDay (snd (loadGame [] (Some (serializeState EN savedEarlierCells)) sessionLeftCells))
       = of_int (lastPayDay loadedOverSession)
   \<and> sv_assignedTenants (snd (loadGame [] (Some (serializeState EN savedEarlierCells)) sessionLeftCells))
       = of_int (assignedTenants loadedOverSession)
   \<and> sv_tenantMorale (snd (loadGame [] (Some (serializeState EN savedEarlierCells)) sessionLeftCells))
       = JArr (map (\<lambda>morale. JNum (of_int morale)) (tenantMorale loadedOverSession))
   \<and> sv_tenantMorale savedEarlierCells = JArr [JNum 100]"
  unfolding load_own_document
  by (simp add: savedEarlierCells_def sessionLeftCells_def initialCells_def
      loadedOverSession_def savedEarlier_def initialState_def resources_roundtrip
      INITIAL_RESOURCES_def reconcileResource_def resourceJson_def findByProp_def)

lemma loaded_start:
  "list_all (\<lambda>r. 0 \<le> amount r \<and> amount r \<le> capacity r) (resources loadedOverSession)
   \<and> assignedTenants loadedOverSession = 1
   \<and> length (tenantMorale loadedOverSession) = 10"
  by (simp add: loadedOverSession_def savedEarlier_def initialState_def INITIAL_RESOURCES_def)

lemma loaded_next_day:
  "loadedNextDay =
     loadedOverSession\<lparr>tick := 12,
        logLines := take 6 ((EN, WagesInsufficient 5 (Some 3)) # logLines loadedOverSession)\<rparr>"
  by (simp add: loadedNextDay_def wagesEffect_def handlePayWages_def phaseTimer_def pushLog_def
      loadedOverSession_def savedEarlier_def initialState_def INITIAL_RESOURCES_def
      calendar_defs WAGE_PER_TENANT_PER_DAY_def Let_def)

lemma all_leave:
  "attritionFilter (\<lambda>n. True) n i (replicate k 40) = ([], [i ..< i + k])"
  by (induction k arbitrary: n i) (simp_all add: upt_rec)

lemma loaded_after_attrition:
  "assignedTenants loadedAfterAttrition = - 9
   \<and> tenantMorale loadedAfterAttrition = []
   \<and> resources loadedAfterAttrition = resources loadedOverSession
   \<and> tick loadedAfterAttrition = 12
   \<and> lastPayDay loadedAfterAttrition = 3
   \<and> autoPayWages loadedAfterAttrition"
  unfolding loadedAfterAttrition_def loaded_next_day
  by (simp add: attritionEffect_def all_leave pushLog_def Let_def
      loadedOverSession_def savedEarlier_def initialState_def calendar_defs)

lemma loaded_after_wages:
  "map amount (resources loadedAfterWages) = [48, 0, 0, 0, 0, 0]
   \<and> map capacity (resources loadedAfterWages) = [40, 40, 30, 25, 20, 10]
   \<and> tick loadedAfterWages = 12"
  unfolding loadedAfterWages_def
  using loaded_after_attrition
  by (simp add: wagesEffect_def handlePayWages_def pushLog_def Let_def calendar_defs
      WAGE_PER_TENANT_PER_DAY_def loadedOverSession_def savedEarlier_def initialState_def
      INITIAL_RESOURCES_def)

lemma loaded_steps: "step\<^sup>*\<^sup>* loadedOverSession loadedAfterWages"
proof -
  have "step loadedOverSession (phaseTimer loadedOverSession)" by (rule step_phaseTimer)
  moreover have "step (phaseTimer loadedOverSession) loadedNextDay"
    unfolding loadedNextDay_def by (rule step_wages)
  moreover have "step loadedNextDay loadedAfterAttrition"
    unfolding loadedAfterAttrition_def by (rule step_attrition)
  moreover have "step loadedAfterAttrition loadedAfterWages"
    unfolding loadedAfterWages_def by (rule step_wages)
  ultimately show ?thesis by (meson rtranclp.rtrancl_into_rtrancl rtranclp.rtrancl_refl)
qed

text \<open>
  Claim C2 states what the program is meant to keep, and the program does not keep it
  once a save has been loaded over a running session. \<^verbatim>\<open>loadGame\<close> restores the number of
  tenants and leaves the morale array of the session that was left, so that there can be
  more morale entries than tenants. Here the save has one tenant and three sunleaf, and
  the session left had ten tenants of morale 40; the loaded state meets the bounds. On
  the first tick of the next day the automatic payment of the wage of 5 fails, all ten
  entries are rolled out by the attrition effect and the number of tenants is 1 - 10 =
  -9. The render that follows pays the wage of -45: the sunleaf stand at 48 with a
  capacity of 40.
\<close>

theorem C2_bounds_broken_after_load:
  "fst (loadGame [] (Some (serializeState EN savedEarlierCells)) sessionLeftCells)
   \<and> sv_resources (snd (loadGame [] (Some (serializeState EN savedEarlierCells)) sessionLeftCells))
       = resources loadedOverSession
   \<and> sv_assignedTenants (snd (loadGame [] (Some (serializeState EN savedEarlierCells)) sessionLeftCells))
       = of_int (assignedTenants loadedOverSession)
   \<and> sv_tenantMorale (snd (loadGame [] (Some (serializeState EN savedEarlierCells)) sessionLeftCells))
       = JArr (map (\<lambda>morale. JNum (of_int morale)) (tenantMorale loadedOverSession))
   \<and> sv_tenantMorale savedEarlierCells = JArr [JNum 100]
   \<and> list_all (\<lambda>r. 0 \<le> amount r \<and> amount r \<le> capacity r) (resources loadedOverSession)
   \<and> assignedTenants loadedOverSession = 1
   \<and> length (tenantMorale loadedOverSession) = 10
   \<and> resources loadedNextDay = resources loadedOverSession
   \<and> assignedTenants loadedAfterAttrition = - 9
   \<and> step\<^sup>*\<^sup>* loadedOverSession loadedAfterWages
   \<and> map amount (resources loadedAfterWages) = [48, 0, 0, 0, 0, 0]
   \<and> map capacity (resources loadedAfterWages) = [40, 40, 30, 25, 20, 10]"
proof -
  have unpaid: "resources loadedNextDay = resources loadedOverSession"
    unfolding loaded_next_day by simp
  from loaded_cells loaded_start unpaid loaded_after_attrition loaded_steps loaded_after_wages
  show ?thesis
    by simp
qed

theorem C2_bounds_broken_after_load_witness:
  "list_all (\<lambda>r. 0 \<le> amount r \<and> amount r \<le> capacity r) (resources loadedOverSession)
   \<and> \<not> list_all (\<lambda>r. 0 \<le> amount r \<and> amount r \<le> capacity r) (resources loadedAfterWages)"
proof -
  from C2_bounds_broken_after_load
  have within: "list_all (\<lambda>r. 0 \<le> amount r \<and> amount r \<le> capacity r)
      (resources loadedOverSession)"
    and amounts: "map amount (resources loadedAfterWages) = [48, 0, 0, 0, 0, 0]"
    and capacities: "map capacity (resources loadedAfterWages) = [40, 40, 30, 25, 20, 10]"
    by simp_all
  from amounts obtain r rs where split: "resources loadedAfterWages = r # rs"
    and a: "amount r = 48"
    by (auto simp: map_eq_Cons_conv)
  from capacities split have c: "capacity r = 40"
    by simp
  from split a c have "\<not> list_all (\<lambda>r. 0 \<le> amount r \<and> amount r \<le> capacity r)
      (resources loadedAfterWages)"
    by simp
  with within show ?thesis
    by simp
qed

section \<open>Properties of the persistence backend\<close>

text \<open>
  Claim C10. GetAllSaves and GetLastSave return a nil error for every outcome of the
  file system. When the data directory cannot be read, GetAllSaves returns the empty
  list; when the sentinel file cannot be read, GetLastSave returns the empty string.
\<close>

theorem C10_listing_never_errors:
  "snd (GetAllSaves s fs) = None \<and> snd (GetLastSave s fs) = None
   \<and> (\<forall>err. ReadDir fs (dataDir s) = Inl err \<longrightarrow> GetAllSaves s fs = ([], None))
   \<and> (\<forall>err. ReadFile fs (filepath_Join (dataDir s) ''.last_save'') = Inl err
         \<longrightarrow> GetLastSave s fs = ('''', None))"
  by (simp add: GetAllSaves_def GetLastSave_def split: sum.split)

theorem C10_listing_never_errors_witness:
  "GetAllSaves \<lparr>dataDir = ''/home/u/.valley-legend/data''\<rparr>
     \<lparr>ReadDir = (\<lambda>p. Inl (FsError ''ENOENT'')), ReadFile = (\<lambda>p. Inl (FsError ''ENOENT''))\<rparr>
     = ([], None)
   \<and> GetLastSave \<lparr>dataDir = ''/home/u/.valley-legend/data''\<rparr>
     \<lparr>ReadDir = (\<lambda>p. Inl (FsError ''ENOENT'')), ReadFile = (\<lambda>p. Inl (FsError ''ENOENT''))\<rparr>
     = ('''', None)"
  using C10_listing_never_errors
    [of "\<lparr>dataDir = ''/home/u/.valley-legend/data''\<rparr>"
        "\<lparr>ReadDir = (\<lambda>p. Inl (FsError ''ENOENT'')), ReadFile = (\<lambda>p. Inl (FsError ''ENOENT''))\<rparr>"]
  by simp

end
